theory Spec2Isabelle
  imports Main
begin

section \<open>The MIL printer of the Pathfinder compiler (milprint_summer.c)\<close>

text \<open>
  The translator walks a Core tree and prints a MIL program to a stream. The model below
  follows the C file function by function: every function that prints becomes a function
  on the record \<open>io\<close> of the output channels, every \<open>fprintf\<close> call becomes one call of
  \<open>fprintf\<close> with the pieces of the formatted text, and a call that does not return
  (\<open>PFoops\<close>, a failed \<open>assert\<close>) becomes the left summand of the result.
\<close>

subsection \<open>Formatted output\<close>

text \<open>Decimal digits of a natural number, as \<open>printf\<close> writes them.\<close>

function dec_nat :: "nat \<Rightarrow> string" where
  "dec_nat n = (if n < 10 then [''0123456789'' ! n]
                else dec_nat (n div 10) @ [''0123456789'' ! (n mod 10)])"
  by pat_completeness auto
termination
  by (relation "measure id") auto

declare dec_nat.simps [simp del]

text \<open>\<open>%i\<close> of an \<open>int\<close>.\<close>

definition fmt_i :: "int \<Rightarrow> string" where
  "fmt_i n = (if n < 0 then CHR ''-'' # dec_nat (nat (- n)) else dec_nat (nat n))"

text \<open>\<open>%u\<close> of an \<open>int\<close>: the 32-bit pattern read as unsigned.\<close>

definition fmt_u :: "int \<Rightarrow> string" where
  "fmt_u n = dec_nat (nat (n mod 2 ^ 32))"

text \<open>\<open>%03u\<close>: as \<open>%u\<close>, padded with zeros to three characters.\<close>

definition fmt_03u :: "int \<Rightarrow> string" where
  "fmt_03u n = (let s = fmt_u n in replicate (3 - length s) CHR ''0'' @ s)"

text \<open>\<open>%s\<close> of a \<open>char *\<close> that is not NULL.\<close>

definition fmt_s :: "string \<Rightarrow> string" where
  "fmt_s s = s"

text \<open>\<open>%s\<close> of a \<open>char *\<close> that may be NULL; the C library prints \<open>(null)\<close> for NULL.\<close>

definition fmt_s_ptr :: "string option \<Rightarrow> string" where
  "fmt_s_ptr p = (case p of None \<Rightarrow> ''(null)'' | Some s \<Rightarrow> s)"

subsection \<open>Output channels\<close>

text \<open>
  \<open>saveResult\<close> and \<open>deleteResult\<close> are to be called in pairs, around the code that
  combines the saved result with the current one. \<open>slot_log\<close> keeps the sequence of the
  calls that concern a saved result, with the counter of the result, beside the text they
  print: \<open>SaveResult\<close> and \<open>DeleteResult\<close> for the calls of \<open>saveResult\<close> and
  \<open>deleteResult\<close>, and \<open>CombineResult\<close> for the return of a function that prints the
  code reading the saved result: \<open>translateSeq\<close>, \<open>loop_liftedElemConstr\<close> and
  \<open>loop_liftedAttrConstr\<close> for their parameter \<open>i\<close>, \<open>translateIfThen\<close> for its
  parameter \<open>bool_res\<close>.
  \<open>var_usage_bat\<close> keeps the pairs that the printed \<open>var_usage.insert(vid,fid)\<close>
  statements put into the table \<open>var_usage\<close>, in the order of the statements.
\<close>

datatype slot_event = SaveResult int | CombineResult int | DeleteResult int

record io =
  mil :: string
  std_out :: string
  pf_log :: "string list"
  slot_log :: "slot_event list"
  var_usage_bat :: "(int \<times> int) list"

definition io_empty :: io where
  "io_empty = \<lparr>mil = [], std_out = [], pf_log = [], slot_log = [], var_usage_bat = []\<rparr>"

text \<open>\<open>fprintf (f, ...)\<close> appends to the stream \<open>f\<close>; the list holds the pieces of the
  formatted text.\<close>

definition fprintf :: "string list \<Rightarrow> io \<Rightarrow> io" where
  "fprintf ps io = io\<lparr>mil := mil io @ concat ps\<rparr>"

text \<open>\<open>printf (...)\<close> appends to the standard output.\<close>

definition printf :: "string list \<Rightarrow> io \<Rightarrow> io" where
  "printf ps io = io\<lparr>std_out := std_out io @ concat ps\<rparr>"

definition PFlog :: "string list \<Rightarrow> io \<Rightarrow> io" where
  "PFlog ps io = io\<lparr>pf_log := pf_log io @ [concat ps]\<rparr>"

definition slot_call :: "slot_event \<Rightarrow> io \<Rightarrow> io" where
  "slot_call e io = io\<lparr>slot_log := slot_log io @ [e]\<rparr>"

definition var_usage_insert :: "int \<Rightarrow> int \<Rightarrow> io \<Rightarrow> io" where
  "var_usage_insert v fid io = io\<lparr>var_usage_bat := var_usage_bat io @ [(v, fid)]\<rparr>"

text \<open>
  \<open>PFoops\<close> logs its message and does not return (oops.c is not among the sources; the
  first \<open>switch\<close> of \<open>translateLocsteps\<close> leaves \<open>axis\<close> unset after it). \<open>assert\<close> aborts
  when its argument is NULL.
\<close>

datatype PFrc_t = OOPS_FATAL | OOPS_WARNING

datatype error = PFoops PFrc_t string | Assert_failed string

text \<open>Sequencing of a call that may not return with the rest of the function.\<close>

definition and_then :: "error + io \<Rightarrow> (io \<Rightarrow> error + io) \<Rightarrow> error + io" where
  "and_then m f = (case m of Inl e \<Rightarrow> Inl e | Inr io \<Rightarrow> f io)"

subsection \<open>Core trees\<close>

text \<open>
  \<open>PFvar_t\<close>: the fields of a variable that the printer writes and reads. A variable is
  shared by its binding and by every reference to it (\<open>c->sem.var\<close> is a pointer), so the
  tree holds the address and \<open>var_store\<close> holds the structs.
\<close>

record PFvar_t =
  base :: int
  vid :: int
  used :: bool

type_synonym var_ref = nat
type_synonym var_store = "var_ref \<Rightarrow> PFvar_t"

text \<open>Namespaces and qualified names; a \<open>char *\<close> that may be NULL is an option.\<close>

record PFns_t =
  prefix :: "string option"
  uri :: "string option"

record PFqname_t =
  qn_ns :: PFns_t
  qn_loc :: "string option"

text \<open>Modelled from the spec: the namespaces of the built-in functions \<open>fn:...\<close> and
  \<open>pf:...\<close> (ns.c is not among the sources).\<close>

definition PFns_fn :: PFns_t where
  "PFns_fn = \<lparr>prefix = Some ''fn'', uri = Some ''http://www.w3.org/2002/11/xquery-functions''\<rparr>"

definition PFns_pf :: PFns_t where
  "PFns_pf = \<lparr>prefix = Some ''pf'', uri = Some ''http://www.inf.uni-konstanz.de/Pathfinder''\<rparr>"

definition PFqname :: "PFns_t \<Rightarrow> string \<Rightarrow> PFqname_t" where
  "PFqname n l = \<lparr>qn_ns = n, qn_loc = Some l\<rparr>"

text \<open>Modelled from the spec: \<open>PFqname_eq\<close> (qname.c is not among the sources) compares two
  names by namespace URI and local part and, like \<open>strcmp\<close>, gives 0 when they are equal;
  the dispatch of \<open>translateFunction\<close> negates it to recognise a built-in.\<close>

definition PFqname_eq :: "PFqname_t \<Rightarrow> PFqname_t \<Rightarrow> int" where
  "PFqname_eq q1 q2 = (if uri (qn_ns q1) = uri (qn_ns q2) \<and> qn_loc q1 = qn_loc q2 then 0 else 1)"

text \<open>A \<open>double\<close> and a type of the type system are kept abstract; what the C library and
  the compiler print for them is a parameter of the printer.\<close>

typedecl dbl
typedecl PFty_t

record libs =
  PFesc_string :: "string \<Rightarrow> string"
  fmt_g :: "dbl \<Rightarrow> string"
  PFty_str :: "PFty_t \<Rightarrow> string"

text \<open>
  \<open>PFcnode_t\<close>: a node has a kind, up to four children and a payload \<open>sem\<close> that depends
  on the kind. Each constructor below is one kind with the children and the payload that
  the printer reads for it:
  \<^item> \<open>C_let v e1 e2\<close>: \<open>child[0]\<close> is the variable node of \<open>v\<close>, \<open>child[1]\<close> the bound
    expression, \<open>child[2]\<close> the body;
  \<^item> \<open>C_for num v p e1 e2\<close>: \<open>sem.num\<close> (the scope id, written by \<open>append_lev\<close>),
    \<open>child[0]\<close> the variable node of \<open>v\<close>, \<open>child[1]\<close> the variable node of the positional
    variable (\<open>None\<close> when its kind is not \<open>c_var\<close>), \<open>child[2]\<close> the source expression,
    \<open>child[3]\<close> the body;
  \<^item> \<open>C_locsteps s e\<close>: \<open>child[0]\<close> the step, \<open>child[1]\<close> the context expression;
    \<open>C_step a t\<close> is a step node of axis kind \<open>a\<close> whose \<open>child[0]\<close> is the node test;
  \<^item> \<open>C_seqcast t e\<close>: \<open>child[0]\<close> the sequence type node with \<open>sem.type = t\<close>,
    \<open>child[1]\<close> the expression;
  \<^item> \<open>C_apply q args\<close>: \<open>sem.fun->qname\<close> and \<open>child[0]\<close>, the list of arguments built
    from \<open>C_arg e rest\<close> and \<open>C_nil\<close>;
  \<^item> \<open>C_other k cs\<close>: a node of one of the kinds the printer does not support, with its
    children.
\<close>

datatype axis =
    c_ancestor | c_ancestor_or_self | c_attribute | c_child | c_descendant
  | c_descendant_or_self | c_following | c_following_sibling | c_parent
  | c_preceding | c_preceding_sibling | c_self

datatype other_kind = c_typesw | c_cases | c_case | c_error | c_int_eq

datatype cnode =
    C_var var_ref
  | C_lit_str string
  | C_lit_int int
  | C_lit_dec dbl
  | C_lit_dbl dbl
  | C_nil
  | C_empty
  | C_true
  | C_false
  | C_root
  | C_seq cnode cnode
  | C_let var_ref cnode cnode
  | C_for int var_ref "var_ref option" cnode cnode
  | C_ifthenelse cnode cnode cnode
  | C_locsteps cnode cnode
  | C_step axis cnode
  | C_namet PFqname_t
  | C_kind_node | C_kind_comment | C_kind_text | C_kind_pi
  | C_kind_doc | C_kind_elem | C_kind_attr
  | C_elem cnode cnode
  | C_attr cnode cnode
  | C_tag PFqname_t
  | C_text cnode
  | C_seqtype PFty_t
  | C_seqcast PFty_t cnode
  | C_apply PFqname_t cnode
  | C_arg cnode cnode
  | C_other other_kind "cnode list"

text \<open>The tests \<open>c->kind == c_empty\<close> and \<open>c->kind == c_tag\<close>.\<close>

fun is_c_empty :: "cnode \<Rightarrow> bool" where
  "is_c_empty C_empty = True"
| "is_c_empty _ = False"

fun is_c_tag :: "cnode \<Rightarrow> bool" where
  "is_c_tag (C_tag q) = True"
| "is_c_tag _ = False"

subsection \<open>The printing functions\<close>

definition init :: "io \<Rightarrow> io" where
  \<open>init io0 =
    (let io = io0;
         io = fprintf [''# init ()\<newline>'',
                    ''# module("pathfinder");\<newline>'',
                    ''# module("pf_support");\<newline>'',
                    ''# module("aggrX3");\<newline>'',
                    ''# module("xtables");\<newline>'',
                    ''# module("malalgebra");\<newline>'',
                    ''var ws := create_ws();\<newline>'',
                    ''var loop000 := bat(void,oid).seqbase(0@0);\<newline>'',
                    ''loop000.insert(0@0, 1@0);\<newline>'',
                    ''var vu_fid;\<newline>'',
                    ''var vu_vid;\<newline>'',
                    ''var inner000 := loop000;\<newline>'',
                    ''var outer000 := loop000;\<newline>'',
                    ''var v_vid000 := bat(void,oid).access(BAT_APPEND).seqbase(0@0);\<newline>'',
                    ''var v_iter000 := bat(void,oid).access(BAT_APPEND).seqbase(0@0);\<newline>'',
                    ''var v_pos000 := bat(void,oid).access(BAT_APPEND).seqbase(0@0);\<newline>'',
                    ''var v_item000 := bat(void,oid).access(BAT_APPEND).seqbase(0@0);\<newline>'',
                    ''var v_kind000 := bat(void,int).access(BAT_APPEND).seqbase(0@0);\<newline>'',
                    ''var str_values := bat(void,str).seqbase(0@0).access(BAT_WRITE);\<newline>'',
                    ''str_values.reverse.key(true);\<newline>'',
                    ''var int_values := bat(void,int).seqbase(0@0).access(BAT_WRITE);\<newline>'',
                    ''int_values.reverse.key(true);\<newline>'',
                    ''var dbl_values := bat(void,dbl).seqbase(0@0).access(BAT_WRITE);\<newline>'',
                    ''dbl_values.reverse.key(true);\<newline>'',
                    ''var dec_values := bat(void,dbl).seqbase(0@0).access(BAT_WRITE);\<newline>'',
                    ''dec_values.reverse.key(true);\<newline>'',
                    ''str_values.insert(0@0,"");\<newline>'',
                    ''const EMPTY_STRING := 0@0;\<newline>'',
                    ''var empty_bat := bat(void,oid).seqbase(0@0);\<newline>'',
                    ''var empty_kind_bat := bat(void,int).seqbase(0@0);\<newline>'',
                    ''var iter;\<newline>'',
                    ''var pos;\<newline>'',
                    ''var item;\<newline>'',
                    ''var kind;\<newline>'',
                    ''var empty_res_bat := bat(void,bat);\<newline>'',
                    ''var bool_map := bat(bit,oid).insert(false,0@0).insert(true,1@0);\<newline>'',
                    ''var bool_not := bat(oid,oid).insert(0@0,1@0).insert(1@0,0@0);\<newline>''] io
     in io)\<close>

definition print_output :: "io \<Rightarrow> io" where
  \<open>print_output io0 =
    (let io = io0;
         io = fprintf [''{ # print_output ()\<newline>'',
                    ''var output_item := bat(oid, str);\<newline>'',
                    ''var temp1_str := kind.get_type(STR);\<newline>'',
                    ''temp1_str := temp1_str.mirror.leftfetchjoin(item);\<newline>'',
                    ''temp1_str := temp1_str.leftfetchjoin(str_values);\<newline>'',
                    ''output_item.insert(temp1_str);\<newline>'',
                    ''temp1_str := nil;\<newline>'',
                    ''var temp1_node := kind.get_type(NODE).mark(0@0).reverse;\<newline>'',
                    ''var backup_oids := temp1_node.reverse;\<newline>'',
                    ''var temp1_frag := temp1_node.leftfetchjoin(kind).get_fragment;\<newline>'',
                    ''var oid_pre := temp1_node.leftfetchjoin(item);\<newline>'',
                    ''{\<newline>'',
                    ''var oid_kind := mposjoin(oid_pre, temp1_frag, ws.fetch(PRE_KIND));\<newline>'',
                    ''var oid_elems := oid_kind.ord_uselect(ELEMENT).mark(0@0).reverse;\<newline>'',
                    ''var oid_texts := oid_kind.ord_uselect(TEXT).mark(0@0).reverse;\<newline>'',
                    ''var e_pres := oid_elems.leftfetchjoin(oid_pre);\<newline>'',
                    ''var e_frags := oid_elems.leftfetchjoin(temp1_frag);\<newline>'',
                    ''var t_pres := oid_texts.leftfetchjoin(oid_pre);\<newline>'',
                    ''var t_frags := oid_texts.leftfetchjoin(temp1_frag);\<newline>'',
                    ''temp1_node := [str](e_pres);\<newline>'',
                    ''temp1_node := temp1_node.[+](" of frag: ");\<newline>'',
                    ''temp1_node := temp1_node.[+](e_frags.[str]);\<newline>'',
                    ''temp1_node := temp1_node.[+](" (node) name: ");\<newline>'',
                    ''temp1_node := temp1_node.[+](mposjoin(mposjoin(e_pres, e_frags, ws.fetch(PRE_PROP)), '',
                    ''mposjoin(e_pres, e_frags, ws.fetch(PRE_FRAG)), '',
                    ''ws.fetch(QN_LOC)));\<newline>'',
                    ''temp1_node := temp1_node.[+]("; size: ");\<newline>'',
                    ''temp1_node := temp1_node.[+](mposjoin(e_pres, e_frags, ws.fetch(PRE_SIZE)));\<newline>'',
                    ''temp1_node := temp1_node.[+]("; level: ");\<newline>'',
                    ''temp1_node := temp1_node.[+]([int](mposjoin(e_pres, e_frags, ws.fetch(PRE_LEVEL))));\<newline>'',
                    ''var temp2_node := [str](t_pres);\<newline>'',
                    ''temp2_node := temp2_node.[+](" of frag: ");\<newline>'',
                    ''temp2_node := temp2_node.[+](t_frags.[str]);\<newline>'',
                    ''temp2_node := temp2_node.[+](" (text-node) value: '");\<newline>'',
                    ''temp2_node := temp2_node.[+](mposjoin(mposjoin(t_pres, t_frags, ws.fetch(PRE_PROP)), '',
                    ''mposjoin(t_pres, t_frags, ws.fetch(PRE_FRAG)), '',
                    ''ws.fetch(PROP_TEXT)));\<newline>'',
                    ''temp2_node := temp2_node.[+]("'; level: ");\<newline>'',
                    ''temp2_node := temp2_node.[+]([int](mposjoin(t_pres, t_frags, ws.fetch(PRE_LEVEL))));\<newline>'',
                    ''if (oid_elems.count = 0) temp1_node := temp2_node;\<newline>'',
                    ''else if (oid_texts.count != 0) '',
                    ''{\<newline>'',
                    ''var res_mu := merged_union(oid_elems, oid_texts, '',
                    ''temp1_node.reverse.mark(0@0).reverse, '',
                    ''temp2_node.reverse.mark(0@0).reverse);\<newline>'',
                    ''temp1_node := res_mu.fetch(1);\<newline>'',
                    ''}\<newline>'',
                    ''}\<newline>'',
                    ''oid_pre := nil;\<newline>'',
                    ''temp1_frag := nil;\<newline>'',
                    ''output_item.insert(backup_oids.leftfetchjoin(temp1_node));\<newline>'',
                    ''backup_oids := nil;\<newline>'',
                    ''temp1_node := nil;\<newline>'',
                    ''var temp1_attr := kind.get_type(ATTR).mark(0@0).reverse;\<newline>'',
                    ''backup_oids := temp1_attr.reverse;\<newline>'',
                    ''var temp1_frag := temp1_attr.leftfetchjoin(kind).get_fragment;\<newline>'',
                    ''var oid_attr := temp1_attr.leftfetchjoin(item);\<newline>'',
                    ''temp1_attr := [str](oid_attr);\<newline>'',
                    ''temp1_attr := temp1_attr.[+](" (attr) owned by: ");\<newline>'',
                    ''var owner_str := oid_attr.mposjoin(temp1_frag, ws.fetch(ATTR_OWN)).[str];\<newline>'',
                    ''{\<newline>'',
                    ''var nil_bool := owner_str.[isnil];\<newline>'',
                    ''var no_owner_str := nil_bool.ord_uselect(true).mark(0@0).reverse;\<newline>'',
                    ''var with_owner_str := nil_bool.ord_uselect(false).mark(0@0).reverse;\<newline>'',
                    ''var res_mu := merged_union(with_owner_str, no_owner_str, '',
                    ''with_owner_str.leftfetchjoin(owner_str), '',
                    ''no_owner_str.project("nil"));\<newline>'',
                    ''owner_str := res_mu.fetch(1);\<newline>'',
                    ''if (owner_str.count != temp1_attr.count) '',
                    ''ERROR ("thinking error in attribute output printing");\<newline>'',
                    ''}\<newline>'',
                    ''temp1_attr := temp1_attr.[+](owner_str);\<newline>'',
                    ''temp1_attr := temp1_attr.[+](" of frag: ");\<newline>'',
                    ''temp1_attr := temp1_attr.[+](oid_attr.mposjoin(temp1_frag, ws.fetch(ATTR_FRAG)));\<newline>'',
                    ''temp1_attr := temp1_attr.[+]("; ");\<newline>'',
                    ''temp1_attr := temp1_attr.[+](mposjoin(mposjoin(oid_attr, temp1_frag, ws.fetch(ATTR_QN)), '',
                    ''mposjoin(oid_attr, temp1_frag, ws.fetch(ATTR_FRAG)), '',
                    ''ws.fetch(QN_LOC)));\<newline>'',
                    ''temp1_attr := temp1_attr.[+]("='");\<newline>'',
                    ''temp1_attr := temp1_attr.[+](mposjoin(mposjoin(oid_attr, temp1_frag, ws.fetch(ATTR_PROP)), '',
                    ''mposjoin(oid_attr, temp1_frag, ws.fetch(ATTR_FRAG)), '',
                    ''ws.fetch(PROP_VAL)));\<newline>'',
                    ''temp1_attr := temp1_attr.[+]("'");\<newline>'',
                    ''oid_attr := nil;\<newline>'',
                    ''temp1_frag := nil;\<newline>'',
                    ''output_item.insert(backup_oids.leftfetchjoin(temp1_attr));\<newline>'',
                    ''backup_oids := nil;\<newline>'',
                    ''temp1_attr := nil;\<newline>'',
                    ''var temp1_qn := kind.get_type(QNAME).mirror;\<newline>'',
                    ''var oid_qnID := temp1_qn.leftfetchjoin(item);\<newline>'',
                    ''temp1_qn := [str](oid_qnID);\<newline>'',
                    ''temp1_qn := temp1_qn.[+](" (qname) '");\<newline>'',
                    ''temp1_qn := temp1_qn.[+](oid_qnID.leftfetchjoin(ws.fetch(QN_NS).fetch(WS)));\<newline>'',
                    ''temp1_qn := temp1_qn.[+](":");\<newline>'',
                    ''temp1_qn := temp1_qn.[+](oid_qnID.leftfetchjoin(ws.fetch(QN_LOC).fetch(WS)));\<newline>'',
                    ''temp1_qn := temp1_qn.[+]("'");\<newline>'',
                    ''oid_qnID := nil;\<newline>'',
                    ''output_item.insert(temp1_qn);\<newline>'',
                    ''temp1_qn := nil;\<newline>'',
                    ''var bool_strings := bat(oid,str).insert(0@0,"false").insert(1@0,"true");\<newline>'',
                    ''var temp1_bool := kind.get_type(BOOL);\<newline>'',
                    ''temp1_bool := temp1_bool.mirror.leftfetchjoin(item);\<newline>'',
                    ''temp1_bool := temp1_bool.leftfetchjoin(bool_strings);\<newline>'',
                    ''bool_strings := nil;\<newline>'',
                    ''output_item.insert(temp1_bool);\<newline>'',
                    ''temp1_bool := nil;\<newline>'',
                    ''var temp1_int := kind.get_type(INT);\<newline>'',
                    ''temp1_int := temp1_int.mirror.leftfetchjoin(item);\<newline>'',
                    ''temp1_int := temp1_int.leftfetchjoin(int_values);\<newline>'',
                    ''temp1_int := [str](temp1_int);\<newline>'',
                    ''output_item.insert(temp1_int);\<newline>'',
                    ''temp1__int := nil;\<newline>'',
                    ''var temp1_dbl := kind.get_type(DBL);\<newline>'',
                    ''temp1_dbl := temp1_dbl.mirror.leftfetchjoin(item);\<newline>'',
                    ''temp1_dbl := temp1_dbl.leftfetchjoin(dbl_values);\<newline>'',
                    ''temp1_dbl := [str](temp1_dbl);\<newline>'',
                    ''output_item.insert(temp1_dbl);\<newline>'',
                    ''temp1_dbl := nil;\<newline>'',
                    ''var temp1_dec := kind.get_type(DEC);\<newline>'',
                    ''temp1_dec := temp1_dec.mirror.leftfetchjoin(item);\<newline>'',
                    ''temp1_dec := temp1_dec.leftfetchjoin(dec_values);\<newline>'',
                    ''temp1_dec := [str](temp1_dec);\<newline>'',
                    ''output_item.insert(temp1_dec);\<newline>'',
                    ''temp1_dec := nil;\<newline>'',
                    ''printf("===================='', [CHR 0x5C], ''n");\<newline>'',
                    ''printf("====== result ======'', [CHR 0x5C], ''n");\<newline>'',
                    ''printf("===================='', [CHR 0x5C], ''n");\<newline>'',
                    ''print (iter, pos, output_item);\<newline>'',
                    ''output_item := nil;\<newline>'',
                    ''printf("===================='', [CHR 0x5C], ''n");\<newline>'',
                    ''printf("=== working set ===='', [CHR 0x5C], ''n");\<newline>'',
                    ''printf("===================='', [CHR 0x5C], ''n");\<newline>'',
                    ''if (ws.fetch(PRE_SIZE).count < 5) {\<newline>'',
                    ''printf("- loaded documents -'', [CHR 0x5C], ''n");\<newline>'',
                    ''ws.fetch(DOC_LOADED).print;\<newline>'',
                    ''i := 0;\<newline>'',
                    ''while (i < ws.fetch(PRE_SIZE).count) {\<newline>'',
                    ''        if (i = 0) print("WS");\<newline>'',
                    ''        else ws.fetch(DOC_LOADED).fetch(oid(i)).print;\<newline>'',
                    ''        printf("---- attributes ----'', [CHR 0x5C], ''n");\<newline>'',
                    ''        if (ws.fetch(ATTR_OWN).fetch(i).count < 100) {\<newline>'',
                    ''                print(ws.fetch(ATTR_OWN).fetch(i), '',
                    ''mposjoin(ws.fetch(ATTR_QN).fetch(i), '',
                    ''ws.fetch(ATTR_FRAG).fetch(i), '',
                    ''ws.fetch(QN_LOC)));\<newline>'',
                    ''        } else {\<newline>'',
                    ''                print(ws.fetch(ATTR_OWN).fetch(i).count);\<newline>'',
                    ''        }\<newline>'',
                    ''        printf("----- elements -----'', [CHR 0x5C], ''n");\<newline>'',
                    ''        if (ws.fetch(PRE_SIZE).fetch(i).count < 100) {\<newline>'',
                    ''                ws.fetch(PRE_KIND).fetch(i).access(BAT_READ);\<newline>'',
                    ''                var elems := ws.fetch(PRE_KIND).fetch(i).ord_uselect(ELEMENT).mark(0@0).reverse;\<newline>'',
                    ''                var e_props := elems.leftfetchjoin(ws.fetch(PRE_PROP).fetch(i));\<newline>'',
                    ''                var e_frags := elems.leftfetchjoin(ws.fetch(PRE_FRAG).fetch(i));\<newline>'',
                    ''                var e_qns := mposjoin(e_props, e_frags, ws.fetch(QN_LOC));\<newline>'',
                    ''                e_props := nil;\<newline>'',
                    ''                e_frags := nil;\<newline>'',
                    ''                var texts := ws.fetch(PRE_KIND).fetch(i).ord_uselect(TEXT).mark(0@0).reverse;\<newline>'',
                    ''                t_names := texts.project("(TEXT)");\<newline>'',
                    ''                var res_mu := merged_union(elems, texts, e_qns, t_names);\<newline>'',
                    ''                elems := nil;\<newline>'',
                    ''                texts := nil;\<newline>'',
                    ''                ws.fetch(PRE_KIND).fetch(i).access(BAT_WRITE);\<newline>'',
                    ''                e_qns := nil;\<newline>'',
                    ''                t_names := nil;\<newline>'',
                    ''                var names := res_mu.fetch(0).reverse.leftfetchjoin(res_mu.fetch(1));\<newline>'',
                    ''                print(ws.fetch(PRE_SIZE).fetch(i), '',
                    ''ws.fetch(PRE_LEVEL).fetch(i).[int], '',
                    ''names);\<newline>'',
                    ''        } else {\<newline>'',
                    ''                print(ws.fetch(PRE_SIZE).fetch(i).count);\<newline>'',
                    ''        }\<newline>'',
                    ''i :+= 1;\<newline>'',
                    ''}\<newline>'',
                    ''} else {\<newline>'',
                    ''printf("to much content in the WS to print it for debugging purposes'', [CHR 0x5C], ''n");\<newline>'',
                    ''if (ws.fetch(DOC_LOADED).count > 25) \<newline>'',
                    ''printf("(number of loaded documents: '', ''%'', ''i)'', [CHR 0x5C], ''n", ws.fetch(DOC_LOADED).count);\<newline>'',
                    ''else {\<newline>'',
                    ''printf("- loaded documents -'', [CHR 0x5C], ''n");\<newline>'',
                    ''ws.fetch(DOC_LOADED).print;\<newline>'',
                    ''}\<newline>'',
                    ''}\<newline>'',
                    ''} # end of print_output ()\<newline>''] io
     in io)\<close>

definition translateEmpty :: "io \<Rightarrow> io" where
  \<open>translateEmpty io0 =
    (let io = io0;
         io = fprintf [''# translateEmpty ()\<newline>'',
                    ''iter := empty_bat;\<newline>'',
                    ''pos := empty_bat;\<newline>'',
                    ''item := empty_bat;\<newline>'',
                    ''kind := empty_kind_bat;\<newline>''] io
     in io)\<close>

definition cleanUpLevel :: "int \<Rightarrow> io \<Rightarrow> io" where
  \<open>cleanUpLevel act_level io0 =
    (let io = io0;
         io = fprintf [''# cleanUpLevel ()\<newline>''] io;
         io = fprintf [''inner'', fmt_03u (act_level), '' := nil;\<newline>''] io;
         io = fprintf [''outer'', fmt_03u (act_level), '' := nil;\<newline>''] io;
         io = fprintf [''loop'', fmt_03u (act_level), '' := nil;\<newline>''] io;
         io = fprintf [''v_vid'', fmt_03u (act_level), '' := nil;\<newline>''] io;
         io = fprintf [''v_iter'', fmt_03u (act_level), '' := nil;\<newline>''] io;
         io = fprintf [''v_pos'', fmt_03u (act_level), '' := nil;\<newline>''] io;
         io = fprintf [''v_item'', fmt_03u (act_level), '' := nil;\<newline>''] io;
         io = fprintf [''v_kind'', fmt_03u (act_level), '' := nil;\<newline>''] io
     in io)\<close>

definition translateVar :: "var_store \<Rightarrow> int \<Rightarrow> var_ref \<Rightarrow> io \<Rightarrow> io" where
  \<open>translateVar vars act_level c_sem_var io0 =
    (let io = io0;
         io = fprintf [''{ # translateVar (c)\<newline>''] io;
         io = fprintf [''var vid := v_vid'', fmt_03u (act_level), ''.ord_uselect('', fmt_i (vid (vars c_sem_var)), ''@0);\<newline>''] io;
         io = fprintf [''vid := vid.mark(0@0).reverse;\<newline>''] io;
         io = fprintf [''iter := vid.leftfetchjoin(v_iter'', fmt_03u (act_level), '');\<newline>''] io;
         io = fprintf [''pos := vid.leftfetchjoin(v_pos'', fmt_03u (act_level), '');\<newline>''] io;
         io = fprintf [''item := vid.leftfetchjoin(v_item'', fmt_03u (act_level), '');\<newline>''] io;
         io = fprintf [''kind := vid.leftfetchjoin(v_kind'', fmt_03u (act_level), '');\<newline>''] io;
         io = fprintf [''vid := nil;\<newline>''] io;
         io = fprintf [''} # end of translateVar (c)\<newline>''] io
     in io)\<close>

definition saveResult :: "int \<Rightarrow> io \<Rightarrow> io" where
  \<open>saveResult counter io0 =
    (let io = io0;
         io = fprintf [''{ # saveResult'', fmt_i (counter), '' () : int\<newline>''] io;
         io = fprintf [''iter'', fmt_03u (counter), '' := iter;\<newline>''] io;
         io = fprintf [''pos'', fmt_03u (counter), '' := pos;\<newline>''] io;
         io = fprintf [''item'', fmt_03u (counter), '' := item;\<newline>''] io;
         io = fprintf [''kind'', fmt_03u (counter), '' := kind;\<newline>''] io;
         io = fprintf [''iter := nil;\<newline>'',
                    ''pos := nil;\<newline>'',
                    ''item := nil;\<newline>'',
                    ''kind := nil;\<newline>'',
                    ''# end of saveResult'', fmt_i (counter), '' () : int\<newline>''] io;
         io = slot_call (SaveResult counter) io
     in io)\<close>

definition deleteResult :: "int \<Rightarrow> io \<Rightarrow> io" where
  \<open>deleteResult counter io0 =
    (let io = io0;
         io = fprintf [''# deleteResult'', fmt_i (counter), '' ()\<newline>''] io;
         io = fprintf [''iter'', fmt_03u (counter), '' := nil;\<newline>''] io;
         io = fprintf [''pos'', fmt_03u (counter), '' := nil;\<newline>''] io;
         io = fprintf [''item'', fmt_03u (counter), '' := nil;\<newline>''] io;
         io = fprintf [''kind'', fmt_03u (counter), '' := nil;\<newline>''] io;
         io = fprintf [''} # end of deleteResult'', fmt_i (counter), '' ()\<newline>''] io;
         io = slot_call (DeleteResult counter) io
     in io)\<close>

definition translateSeq :: "int \<Rightarrow> io \<Rightarrow> io" where
  \<open>translateSeq i io0 =
    (let io = io0;
         io = fprintf [''if (iter.count = 0) {\<newline>'',
                    ''        iter := iter'', fmt_03u (i), '';\<newline>'',
                    ''        pos := pos'', fmt_03u (i), '';\<newline>'',
                    ''        item := item'', fmt_03u (i), '';\<newline>'',
                    ''        kind := kind'', fmt_03u (i), '';\<newline>''] io;
         io = fprintf [''} else if (iter'', fmt_03u (i), ''.count != 0)\<newline>''] io;
         io = fprintf [''{ # translateSeq (counter)\<newline>'',
                    ''iter'', fmt_03u (i), ''.chk_order(false);\<newline>'',
                    ''iter.chk_order(false);\<newline>'',
                    ''var merged_result := merged_union '',
                    ''(iter'', fmt_03u (i), '', iter, item'', fmt_03u (i), '', item, kind'', fmt_03u (i), '', kind);\<newline>''] io;
         io = fprintf [''iter := merged_result.fetch(0);\<newline>'',
                    ''item := merged_result.fetch(1);\<newline>'',
                    ''kind := merged_result.fetch(2);\<newline>'',
                    ''merged_result := nil;\<newline>'',
                    ''pos := iter.mark_grp(iter.reverse.project(1@0));\<newline>'',
                    ''} # end of translateSeq (counter)\<newline>''] io;
         io = slot_call (CombineResult i) io
     in io)\<close>

definition project :: "int \<Rightarrow> io \<Rightarrow> io" where
  \<open>project act_level io0 =
    (let io = io0;
         io = fprintf [''# project ()\<newline>''] io;
         io = fprintf [''var outer'', fmt_03u (act_level), '' := iter;\<newline>''] io;
         io = fprintf [''iter := iter.mark(1@0);\<newline>''] io;
         io = fprintf [''var inner'', fmt_03u (act_level), '' := iter;\<newline>''] io;
         io = fprintf [''pos := iter.project(1@0);\<newline>''] io;
         io = fprintf [''var loop'', fmt_03u (act_level), '' := inner'', fmt_03u (act_level), '';\<newline>''] io;
         io = fprintf [''var v_vid'', fmt_03u (act_level), '';\<newline>''] io;
         io = fprintf [''var v_iter'', fmt_03u (act_level), '';\<newline>''] io;
         io = fprintf [''var v_pos'', fmt_03u (act_level), '';\<newline>''] io;
         io = fprintf [''var v_item'', fmt_03u (act_level), '';\<newline>''] io;
         io = fprintf [''var v_kind'', fmt_03u (act_level), '';\<newline>''] io
     in io)\<close>

definition getExpanded :: "int \<Rightarrow> int \<Rightarrow> io \<Rightarrow> io" where
  \<open>getExpanded act_level fid io0 =
    (let io = io0;
         io = fprintf [''{ # getExpanded (fid)\<newline>'',
                    ''var vu_nil := vu_fid.ord_uselect('', fmt_i (fid), ''@0);\<newline>''] io;
         io = fprintf [''var vid_vu := vu_vid.reverse;\<newline>'',
                    ''var oid_nil := vid_vu.leftjoin(vu_nil);\<newline>'',
                    ''vid_vu := nil;\<newline>'',
                    ''expOid := v_vid'', fmt_03u (act_level - 1), ''.leftjoin(oid_nil);\<newline>''] io;
         io = fprintf [''oid_nil := nil;\<newline>'',
                    ''expOid := expOid.mirror;\<newline>'',
                    ''} # end of getExpanded (fid)\<newline>''] io
     in io)\<close>

definition expand :: "int \<Rightarrow> io \<Rightarrow> io" where
  \<open>expand act_level io0 =
    (let io = io0;
         io = fprintf [''{ # expand ()\<newline>'',
                    ''var expOid_iter := expOid.leftfetchjoin(v_iter'', fmt_03u (act_level - 1), '');\<newline>''] io;
         io = fprintf [''var iter_expOid := expOid_iter.reverse;\<newline>'',
                    ''expOid_iter := nil;\<newline>'',
                    ''var oidMap_expOid := outer'', fmt_03u (act_level), ''.leftjoin(iter_expOid);\<newline>''] io;
         io = fprintf [''iter_expOid := nil;\<newline>'',
                    ''var expOid_oidMap := oidMap_expOid.reverse;\<newline>'',
                    ''oidMap_expOid := nil;\<newline>'',
                    ''expOid_iter := expOid_oidMap.leftfetchjoin(inner'', fmt_03u (act_level), '');\<newline>''] io;
         io = fprintf [''expOid_oidMap := nil;\<newline>'',
                    ''v_iter'', fmt_03u (act_level), '' := expOid_iter;\<newline>''] io;
         io = fprintf [''oidNew_expOid := expOid_iter.mark(0@0).reverse;\<newline>'',
                    ''expOid_iter := nil;\<newline>'',
                    ''} # end of expand ()\<newline>''] io
     in io)\<close>

definition join :: "int \<Rightarrow> io \<Rightarrow> io" where
  \<open>join act_level io0 =
    (let io = io0;
         io = fprintf [''# join ()\<newline>''] io;
         io = fprintf [''v_iter'', fmt_03u (act_level), '' := v_iter'', fmt_03u (act_level), ''.reverse.mark(0@0).reverse;\<newline>''] io;
         io = fprintf [''var new_v_iter := v_iter'', fmt_03u (act_level), '';\<newline>''] io;
         io = fprintf [''v_iter'', fmt_03u (act_level), '' := bat(void,oid,count(new_v_iter)*2);\<newline>''] io;
         io = fprintf [''v_iter'', fmt_03u (act_level), ''.seqbase(0@0);\<newline>''] io;
         io = fprintf [''v_iter'', fmt_03u (act_level), ''.access(BAT_APPEND);\<newline>''] io;
         io = fprintf [''v_iter'', fmt_03u (act_level), ''.insert(new_v_iter);\<newline>''] io;
         io = fprintf [''new_v_iter := nil;\<newline>''] io;
         io = fprintf [''var new_v_vid := oidNew_expOid.leftjoin(v_vid'', fmt_03u (act_level - 1), '');\<newline>''] io;
         io = fprintf [''v_vid'', fmt_03u (act_level), '' := bat(void,oid,count(new_v_vid)*2);\<newline>''] io;
         io = fprintf [''v_vid'', fmt_03u (act_level), ''.seqbase(0@0);\<newline>''] io;
         io = fprintf [''v_vid'', fmt_03u (act_level), ''.access(BAT_APPEND);\<newline>''] io;
         io = fprintf [''v_vid'', fmt_03u (act_level), ''.insert(new_v_vid);\<newline>''] io;
         io = fprintf [''new_v_vid := nil;\<newline>''] io;
         io = fprintf [''var new_v_pos := oidNew_expOid.leftjoin(v_pos'', fmt_03u (act_level - 1), '');\<newline>''] io;
         io = fprintf [''v_pos'', fmt_03u (act_level), '' := bat(void,oid,count(new_v_pos)*2);\<newline>''] io;
         io = fprintf [''v_pos'', fmt_03u (act_level), ''.seqbase(0@0);\<newline>''] io;
         io = fprintf [''v_pos'', fmt_03u (act_level), ''.access(BAT_APPEND);\<newline>''] io;
         io = fprintf [''v_pos'', fmt_03u (act_level), ''.insert(new_v_pos);\<newline>''] io;
         io = fprintf [''new_v_pos := nil;\<newline>''] io;
         io = fprintf [''var new_v_item := oidNew_expOid.leftjoin(v_item'', fmt_03u (act_level - 1), '');\<newline>''] io;
         io = fprintf [''v_item'', fmt_03u (act_level), '' := bat(void,oid,count(new_v_item)*2);\<newline>''] io;
         io = fprintf [''v_item'', fmt_03u (act_level), ''.seqbase(0@0);\<newline>''] io;
         io = fprintf [''v_item'', fmt_03u (act_level), ''.access(BAT_APPEND);\<newline>''] io;
         io = fprintf [''v_item'', fmt_03u (act_level), ''.insert(new_v_item);\<newline>''] io;
         io = fprintf [''new_v_item := nil;\<newline>''] io;
         io = fprintf [''var new_v_kind := oidNew_expOid.leftjoin(v_kind'', fmt_03u (act_level - 1), '');\<newline>''] io;
         io = fprintf [''v_kind'', fmt_03u (act_level), '' := bat(void,int,count(new_v_kind)*2);\<newline>''] io;
         io = fprintf [''v_kind'', fmt_03u (act_level), ''.seqbase(0@0);\<newline>''] io;
         io = fprintf [''v_kind'', fmt_03u (act_level), ''.access(BAT_APPEND);\<newline>''] io;
         io = fprintf [''v_kind'', fmt_03u (act_level), ''.insert(new_v_kind);\<newline>''] io;
         io = fprintf [''new_v_kind := nil;\<newline>''] io
     in io)\<close>

definition mapBack :: "int \<Rightarrow> io \<Rightarrow> io" where
  \<open>mapBack act_level io0 =
    (let io = io0;
         io = fprintf [''{ # mapBack ()\<newline>'',
                    ''var iter_oidMap := inner'', fmt_03u (act_level), ''.reverse;\<newline>''] io;
         io = fprintf [''var oid_oidMap := iter.leftfetchjoin(iter_oidMap);\<newline>'',
                    ''iter_oidMap := nil;\<newline>'',
                    ''iter := oid_oidMap.leftfetchjoin(outer'', fmt_03u (act_level), '');\<newline>''] io;
         io = fprintf [''oid_oidMap := nil;\<newline>'',
                    ''pos := iter.mark_grp(iter.reverse.project(1@0));\<newline>'',
                    ''item := item;\<newline>'',
                    ''kind := kind;\<newline>'',
                    ''} # end of mapBack ()\<newline>''] io
     in io)\<close>

definition createNewVarTable :: "int \<Rightarrow> io \<Rightarrow> io" where
  \<open>createNewVarTable act_level io0 =
    (let io = io0;
         io = fprintf [''# createNewVarTable ()\<newline>''] io;
         io = fprintf [''v_iter'', fmt_03u (act_level), '' := bat(void,oid).seqbase(0@0).access(BAT_APPEND);\<newline>''] io;
         io = fprintf [''v_vid'', fmt_03u (act_level), '' := bat(void,oid).seqbase(0@0).access(BAT_APPEND);\<newline>''] io;
         io = fprintf [''v_pos'', fmt_03u (act_level), '' := bat(void,oid).seqbase(0@0).access(BAT_APPEND);\<newline>''] io;
         io = fprintf [''v_item'', fmt_03u (act_level), '' := bat(void,oid).seqbase(0@0).access(BAT_APPEND);\<newline>''] io;
         io = fprintf [''v_kind'', fmt_03u (act_level), '' := bat(void,int).seqbase(0@0).access(BAT_APPEND);\<newline>''] io
     in io)\<close>

definition append_mil :: "string \<Rightarrow> int \<Rightarrow> io \<Rightarrow> io" where
  \<open>append_mil name level io0 =
    (let io = io0;
         io = fprintf [''{ # append ('', fmt_s (name), '', level)\<newline>''] io;
         io = fprintf [''var seqb := oid(v_'', fmt_s (name), fmt_03u (level), ''.count);\<newline>''] io;
         io = fprintf [''var temp_'', fmt_s (name), '' := '', fmt_s (name), ''.reverse.mark(seqb).reverse;\<newline>''] io;
         io = fprintf [''seqb := nil;\<newline>''] io;
         io = fprintf [''v_'', fmt_s (name), fmt_03u (level), ''.insert(temp_'', fmt_s (name), '');\<newline>''] io;
         io = fprintf [''temp_'', fmt_s (name), '' := nil;\<newline>''] io;
         io = fprintf [''} # append ('', fmt_s (name), '', level)\<newline>''] io
     in io)\<close>

definition insertVar :: "int \<Rightarrow> int \<Rightarrow> io \<Rightarrow> io" where
  \<open>insertVar act_level var_id io0 =
    (let io = io0;
         io = fprintf [''{ # insertVar (vid)\<newline>'',
                    ''var vid := iter.project('', fmt_i (var_id), ''@0);\<newline>''] io;
         io = append_mil ''vid'' act_level io;
         io = append_mil ''iter'' act_level io;
         io = append_mil ''pos'' act_level io;
         io = append_mil ''item'' act_level io;
         io = append_mil ''kind'' act_level io;
         io = fprintf [''vid := nil;\<newline>''] io;
         io = fprintf [''} # insertVar (vid)\<newline>''] io
     in io)\<close>

definition translateConst :: "int \<Rightarrow> string \<Rightarrow> io \<Rightarrow> io" where
  \<open>translateConst act_level kind io0 =
    (let io = io0;
         io = fprintf [''# translateConst (kind)\<newline>'',
                    ''iter := loop'', fmt_03u (act_level), '';\<newline>'',
                    ''iter := iter.reverse.mark(0@0).reverse;\<newline>'',
                    ''pos := iter.project(1@0);\<newline>'',
                    ''item := iter.project(itemID);\<newline>'',
                    ''kind := iter.project('', fmt_s (kind), '');\<newline>''] io
     in io)\<close>

definition addValues :: "string \<Rightarrow> string \<Rightarrow> io \<Rightarrow> io" where
  \<open>addValues tablename varname io0 =
    (let io = io0;
         io = fprintf [fmt_s (tablename), ''.seqbase(nil);\<newline>''] io;
         io = fprintf [fmt_s (varname), '' := '', fmt_s (varname), ''.reverse.mark(nil).reverse;\<newline>''] io;
         io = fprintf [fmt_s (tablename), ''.insert('', fmt_s (varname), '');\<newline>''] io;
         io = fprintf [fmt_s (tablename), ''.seqbase(0@0);\<newline>''] io;
         io = fprintf [fmt_s (varname), '' := '', fmt_s (varname), ''.leftjoin('', fmt_s (tablename), ''.reverse);\<newline>''] io
     in io)\<close>

definition createEnumeration :: "io \<Rightarrow> io" where
  \<open>createEnumeration io0 =
    (let io = io0;
         io = fprintf [''{ # createEnumeration ()\<newline>'',
                    ''var ints_cE := item.mirror.[int];\<newline>''] io;
         io = addValues ''int_values'' ''ints_cE'' io;
         io = fprintf [''item := ints_cE.reverse.mark(0@0).reverse;\<newline>'',
                    ''ints_cE := nil;\<newline>'',
                    ''kind := kind.project(INT);\<newline>'',
                    ''} # end of createEnumeration ()\<newline>''] io
     in io)\<close>

definition castQName :: "io \<Rightarrow> io" where
  \<open>castQName io0 =
    (let io = io0;
         io = fprintf [''{ # castQName ()\<newline>'',
                    ''var qnames := kind.get_type(QNAME);\<newline>'',
                    ''var counted_items := kind.count;\<newline>'',
                    ''var counted_qn := qnames.count;\<newline>'',
                    ''if (counted_items != counted_qn)\<newline>'',
                    ''{\<newline>'',
                    ''var strings := kind.ord_uselect(STR);\<newline>'',
                    ''if (counted_items != (strings.count + counted_qn)) '',
                    ''ERROR ("only strings and qnames can be'',
                    ''casted to qnames");\<newline>'',
                    ''counted_items := nil;\<newline>'',
                    ''var oid_oid := strings.mark(0@0).reverse;\<newline>'',
                    ''strings := nil;\<newline>'',
                    ''var oid_item := oid_oid.leftfetchjoin(item);\<newline>'',
                    ''strings := oid_item.tunique.mark(0@0).reverse;\<newline>'',
                    ''var oid_str := strings.leftfetchjoin(str_values);\<newline>'',
                    ''strings := nil;\<newline>'',
                    ''var prop_name := ws.fetch(QN_NS).fetch(WS).ord_uselect("");\<newline>'',
                    ''prop_name := prop_name.mirror.leftfetchjoin(ws.fetch(QN_LOC).fetch(WS));\<newline>'',
                    ''var str_oid := oid_str.reverse.kdiff(prop_name.reverse);\<newline>'',
                    ''oid_str := nil;\<newline>'',
                    ''prop_name := nil;\<newline>'',
                    ''oid_str := str_oid.mark(oid(ws.fetch(QN_LOC).fetch(WS).count)).reverse;\<newline>'',
                    ''str_oid := nil;\<newline>'',
                    ''ws.fetch(QN_LOC).fetch(WS).insert(oid_str);\<newline>'',
                    ''oid_str := oid_str.project("");\<newline>'',
                    ''ws.fetch(QN_NS).fetch(WS).insert(oid_str);\<newline>'',
                    ''oid_str := nil;\<newline>'',
                    ''prop_name := ws.fetch(QN_NS).fetch(WS).ord_uselect("");\<newline>'',
                    ''prop_name := prop_name.mirror.leftfetchjoin(ws.fetch(QN_LOC).fetch(WS));\<newline>'',
                    ''oid_str := oid_item.leftfetchjoin(str_values);\<newline>'',
                    ''oid_item := nil;\<newline>'',
                    ''var oid_prop := oid_str.leftjoin(prop_name.reverse);\<newline>'',
                    ''oid_str := nil;\<newline>'',
                    ''prop_name := nil;\<newline>'',
                    ''if (counted_qn = 0)\<newline>'',
                    ''    item := oid_prop;\<newline>'',
                    ''else {\<newline>'',
                    ''    var res_mu := merged_union'',
                    ''(oid_oid, '',
                    ''qnames.mark(0@0).reverse, '',
                    ''oid_prop.reverse.mark(0@0).reverse, '',
                    ''qnames.mark(0@0).reverse.leftfetchjoin(item));\<newline>'',
                    ''    item := res_mu.fetch(1);\<newline>'',
                    ''}\<newline>'',
                    ''oid_oid := nil;\<newline>'',
                    ''oid_prop := nil;\<newline>'',
                    ''qnames := nil;\<newline>'',
                    ''counted_qn := nil;\<newline>'',
                    ''kind := item.project(QNAME);\<newline>'',
                    ''}\<newline>'',
                    ''} # end of castQName ()\<newline>''] io
     in io)\<close>

definition loop_liftedElemConstr :: "int \<Rightarrow> io \<Rightarrow> io" where
  \<open>loop_liftedElemConstr i io0 =
    (let io = io0;
         io = fprintf [''{ # loop_liftedElemConstr (counter)\<newline>'',
                    ''var root_level;\<newline>'',
                    ''var root_size;\<newline>'',
                    ''var root_kind;\<newline>'',
                    ''var root_frag;\<newline>'',
                    ''var root_prop;\<newline>'',
                    ''var preNew_preOld;\<newline>'',
                    ''var preNew_frag;\<newline>'',
                    ''var attr := kind.get_type(ATTR).mark(0@0).reverse;\<newline>'',
                    ''var attr_iter := attr.leftfetchjoin(iter);\<newline>'',
                    ''var attr_item := attr.leftfetchjoin(item);\<newline>'',
                    ''var attr_frag := attr.leftfetchjoin(kind).get_fragment;\<newline>'',
                    ''attr := nil;\<newline>'',
                    ''if (kind.count != '',
                    ''(kind.get_type(NODE).count + kind.get_type(ATTR).count))\<newline>'',
                    ''    ERROR ("there can be only nodes and attributes in element '',
                    ''construction");\<newline>'',
                    ''var nodes := kind.get_type(NODE);\<newline>'',
                    ''if (nodes.count != 0) {\<newline>'',
                    ''var oid_oid := nodes.mark(0@0).reverse;\<newline>'',
                    ''nodes := nil;\<newline>'',
                    ''var node_items := oid_oid.leftfetchjoin(item);\<newline>'',
                    ''var node_frags := oid_oid.leftfetchjoin(kind).get_fragment;\<newline>'',
                    ''var iter_input := oid_oid.mirror;\<newline>'',
                    ''var res_scj := loop_lifted_descendant_or_self_step_unjoined'',
                    ''(iter_input, node_items, node_frags, ws);\<newline>'',
                    ''iter_input := nil;\<newline>'',
                    ''var pruned_input := res_scj.fetch(0);\<newline>'',
                    ''var ctx_dn_item := res_scj.fetch(1);\<newline>'',
                    ''var ctx_dn_frag := res_scj.fetch(2);\<newline>'',
                    ''res_scj := nil;\<newline>'',
                    ''var res_item := pruned_input.reverse.leftjoin(ctx_dn_item);\<newline>'',
                    ''var content_void := res_item.mark(0@0).reverse;\<newline>'',
                    ''var content_iter := content_void.leftfetchjoin(oid_oid).leftfetchjoin(iter);\<newline>'',
                    ''content_void := nil;\<newline>'',
                    ''res_item := res_item.reverse.mark(0@0).reverse;\<newline>'',
                    ''var res_frag := pruned_input.reverse.leftjoin(ctx_dn_frag);\<newline>'',
                    ''res_frag := res_frag.reverse.mark(0@0).reverse;\<newline>'',
                    ''var content_size := mposjoin(res_item, res_frag, '',
                    ''ws.fetch(PRE_SIZE));\<newline>'',
                    ''var content_prop := mposjoin(res_item, res_frag, '',
                    ''ws.fetch(PRE_PROP));\<newline>'',
                    ''var content_kind := mposjoin(res_item, res_frag, '',
                    ''ws.fetch(PRE_KIND));\<newline>'',
                    ''var content_frag := mposjoin(res_item, res_frag, '',
                    ''ws.fetch(PRE_FRAG));\<newline>'',
                    ''var content_pre := res_item;\<newline>'',
                    ''res_item := nil;\<newline>'',
                    ''res_frag := nil;\<newline>'',
                    ''nodes := pruned_input.kunique;\<newline>'',
                    ''var temp_ec_item := nodes.reverse.mark(0@0).reverse;\<newline>'',
                    ''temp_ec_item := temp_ec_item.leftfetchjoin(node_items);\<newline>'',
                    ''var temp_ec_frag := nodes.reverse.mark(0@0).reverse;\<newline>'',
                    ''temp_ec_frag := temp_ec_frag.leftfetchjoin(node_frags);\<newline>'',
                    ''nodes := nodes.mark(0@0);\<newline>'',
                    ''var contentRoot_level := mposjoin(temp_ec_item, '',
                    ''temp_ec_frag, '',
                    ''ws.fetch(PRE_LEVEL));\<newline>'',
                    ''contentRoot_level := nodes.leftfetchjoin(contentRoot_level);\<newline>'',
                    ''temp_ec_item := nil;\<newline>'',
                    ''temp_ec_frag := nil;\<newline>'',
                    ''nodes := nil;\<newline>'',
                    ''temp_ec_item := ctx_dn_item.reverse.mark(0@0).reverse;\<newline>'',
                    ''temp_ec_frag := ctx_dn_frag.reverse.mark(0@0).reverse;\<newline>'',
                    ''nodes := ctx_dn_item.mark(0@0);\<newline>'',
                    ''var content_level := mposjoin(temp_ec_item, temp_ec_frag, '',
                    ''ws.fetch(PRE_LEVEL));\<newline>'',
                    ''content_level := nodes.leftfetchjoin(content_level);\<newline>'',
                    ''content_level := content_level.[-](contentRoot_level);\<newline>'',
                    ''contentRoot_level := nil;\<newline>'',
                    ''content_level := content_level.[+](chr(1));\<newline>'',
                    ''content_level := pruned_input.reverse.leftjoin(content_level);\<newline>'',
                    ''content_level := content_level.reverse.mark(0@0).reverse;\<newline>'',
                    ''{\<newline>'',
                    ''var height := int(content_level.max) + 1;\<newline>'',
                    ''ws.fetch(HEIGHT).replace(WS, max(ws.fetch(HEIGHT).fetch(WS), height));\<newline>'',
                    ''height := nil;\<newline>'',
                    ''}\<newline>'',
                    ''var contentRoot_size := mposjoin(node_items, node_frags, '',
                    ''ws.fetch(PRE_SIZE)).[+](1);\<newline>'',
                    ''var size_oid := contentRoot_size.reverse;\<newline>'',
                    ''contentRoot_size := nil;\<newline>'',
                    ''size_oid := size_oid.leftfetchjoin(oid_oid);\<newline>'',
                    ''oid_oid := nil;\<newline>'',
                    ''var size_iter := size_oid.leftfetchjoin(iter);\<newline>'',
                    ''size_oid := nil;\<newline>'',
                    ''var iter_size := size_iter.reverse;\<newline>'',
                    ''size_iter := nil;\<newline>'',
                    ''iter_size := {sum}(iter_size, iter'', fmt_03u (i), ''.tunique);\<newline>''] io;
         io = fprintf [''root_level := iter_size.project(chr(0));\<newline>'',
                    ''root_size := iter_size;\<newline>'',
                    ''root_kind := iter_size.project(ELEMENT);\<newline>'',
                    ''root_prop := iter'', fmt_03u (i), ''.reverse.leftfetchjoin(item'', fmt_03u (i), '');\<newline>'',
                    ''root_frag := iter_size.project(WS);\<newline>''] io;
         io = fprintf [''root_level := root_level.reverse.mark(0@0).reverse;\<newline>'',
                    ''root_size := root_size.reverse.mark(0@0).reverse;\<newline>'',
                    ''root_kind := root_kind.reverse.mark(0@0).reverse;\<newline>'',
                    ''root_prop := root_prop.reverse.mark(0@0).reverse;\<newline>'',
                    ''root_frag := root_frag.reverse.mark(0@0).reverse;\<newline>'',
                    ''var root_iter := iter_size.mark(0@0).reverse;\<newline>'',
                    ''iter_size := nil;\<newline>'',
                    ''var root_pre := root_iter.project(nil);\<newline>'',
                    ''{\<newline>'',
                    ''root_iter.chk_order(false);\<newline>'',
                    ''content_iter.chk_order(false);\<newline>'',
                    ''var merged_result := merged_union ('',
                    ''root_iter, content_iter, root_size, content_size, '',
                    ''root_level, content_level, root_kind, content_kind, '',
                    ''root_prop, content_prop, root_frag, content_frag, '',
                    ''root_pre, content_pre);\<newline>'',
                    ''root_iter := nil;\<newline>'',
                    ''content_iter := nil;\<newline>'',
                    ''root_size := merged_result.fetch(1);\<newline>'',
                    ''content_size := nil;\<newline>'',
                    ''root_level := merged_result.fetch(2);\<newline>'',
                    ''content_level := nil;\<newline>'',
                    ''root_kind := merged_result.fetch(3);\<newline>'',
                    ''content_kind := nil;\<newline>'',
                    ''root_prop := merged_result.fetch(4);\<newline>'',
                    ''content_prop := nil;\<newline>'',
                    ''root_frag := merged_result.fetch(5);\<newline>'',
                    ''content_frag := nil;\<newline>'',
                    ''root_pre := merged_result.fetch(6);\<newline>'',
                    ''content_pre := nil;\<newline>'',
                    ''merged_result := nil;\<newline>'',
                    ''}\<newline>'',
                    ''preNew_preOld := root_pre;\<newline>'',
                    ''root_pre := nil;\<newline>'',
                    ''} else { # if (nodes.count != 0) ...\<newline>''] io;
         io = fprintf [''root_level := item'', fmt_03u (i), ''.project(chr(0));\<newline>''] io;
         io = fprintf [''root_size := item'', fmt_03u (i), ''.project(0);\<newline>''] io;
         io = fprintf [''root_kind := item'', fmt_03u (i), ''.project(ELEMENT);\<newline>''] io;
         io = fprintf [''root_prop := item'', fmt_03u (i), '';\<newline>''] io;
         io = fprintf [''root_frag := item'', fmt_03u (i), ''.project(WS);\<newline>''] io;
         io = fprintf [''preNew_preOld := item'', fmt_03u (i), ''.project(nil);\<newline>''] io;
         io = fprintf [''preNew_preOld := preNew_preOld.reverse.mark(0@0).reverse;\<newline>'',
                    ''root_level := root_level.reverse.mark(0@0).reverse;\<newline>'',
                    ''root_size := root_size.reverse.mark(0@0).reverse;\<newline>'',
                    ''root_kind := root_kind.reverse.mark(0@0).reverse;\<newline>'',
                    ''root_prop := root_prop.reverse.mark(0@0).reverse;\<newline>'',
                    ''root_frag := root_frag.reverse.mark(0@0).reverse;\<newline>'',
                    ''} # end of else in 'if (nodes.count != 0)'\<newline>'',
                    ''{\<newline>'',
                    ''var seqb := count(ws.fetch(PRE_SIZE).fetch(WS));\<newline>'',
                    ''seqb := oid(seqb);\<newline>'',
                    ''root_level.seqbase(seqb);\<newline>'',
                    ''root_size.seqbase(seqb);\<newline>'',
                    ''root_kind.seqbase(seqb);\<newline>'',
                    ''root_prop.seqbase(seqb);\<newline>'',
                    ''root_frag.seqbase(seqb);\<newline>'',
                    ''preNew_preOld.seqbase(seqb);\<newline>'',
                    ''preNew_frag := root_frag;\<newline>'',
                    ''}\<newline>'',
                    ''ws.fetch(PRE_LEVEL).fetch(WS).insert(root_level);\<newline>'',
                    ''ws.fetch(PRE_SIZE).fetch(WS).insert(root_size);\<newline>'',
                    ''ws.fetch(PRE_KIND).fetch(WS).insert(root_kind);\<newline>'',
                    ''ws.fetch(PRE_PROP).fetch(WS).insert(root_prop);\<newline>'',
                    ''ws.fetch(PRE_FRAG).fetch(WS).insert(root_frag);\<newline>'',
                    ''var roots := root_level.ord_uselect(chr(0));\<newline>'',
                    ''roots := roots.mark(0@0).reverse;\<newline>'',
                    ''root_level := nil;\<newline>'',
                    ''root_size := nil;\<newline>'',
                    ''root_prop := nil;\<newline>'',
                    ''root_kind := nil;\<newline>'',
                    ''root_frag := nil;\<newline>'',
                    ''{ # adding new fragments to the WS_FRAG bat\<newline>'',
                    ''var seqb := ws.fetch(WS_FRAG).count;\<newline>'',
                    ''seqb := oid(seqb);\<newline>'',
                    ''var new_pres := roots.reverse.mark(seqb).reverse;\<newline>'',
                    ''seqb := nil;\<newline>'',
                    ''ws.fetch(WS_FRAG).insert(new_pres);\<newline>'',
                    ''new_pres := nil;\<newline>'',
                    ''}\<newline>''] io;
         io = fprintf [''iter := iter'', fmt_03u (i), '';\<newline>'',
                    ''pos := roots.mark(0@0);\<newline>'',
                    ''item := roots;\<newline>'',
                    ''kind := roots.project(NODE);\<newline>''] io;
         io = fprintf [''{ # create attribute subtree copies\<newline>'',
                    ''var content_preNew_preOld := preNew_preOld.ord_select(nil,nil);\<newline>'',
                    ''var oid_preOld := content_preNew_preOld.reverse.mark(0@0).reverse;\<newline>'',
                    ''var oid_preNew := content_preNew_preOld.mark(0@0).reverse;\<newline>'',
                    ''var oid_frag := oid_preNew.leftfetchjoin(preNew_frag);\<newline>'',
                    ''var temp_attr := mvaljoin(oid_preOld, oid_frag, ws.fetch(ATTR_OWN));\<newline>'',
                    ''oid_preOld := nil;\<newline>'',
                    ''oid_attr := temp_attr.reverse.mark(0@0).reverse;\<newline>'',
                    ''oid_frag := temp_attr.mark(0@0).reverse.leftfetchjoin(oid_frag);\<newline>'',
                    ''oid_preNew := temp_attr.mark(0@0).reverse.leftfetchjoin(oid_preNew);\<newline>'',
                    ''temp_attr := nil;\<newline>'',
                    ''var seqb := oid(ws.fetch(ATTR_QN).fetch(WS).count);\<newline>'',
                    ''var attr_qn := mposjoin(oid_attr, oid_frag, ws.fetch(ATTR_QN));\<newline>'',
                    ''attr_qn.seqbase(seqb);\<newline>'',
                    ''var attr_oid := mposjoin(oid_attr, oid_frag, ws.fetch(ATTR_PROP));\<newline>'',
                    ''attr_oid.seqbase(seqb);\<newline>'',
                    ''oid_preNew.seqbase(seqb);\<newline>'',
                    ''oid_frag.seqbase(seqb);\<newline>'',
                    ''seqb := nil;\<newline>'',
                    ''ws.fetch(ATTR_QN).fetch(WS).insert(attr_qn);\<newline>'',
                    ''ws.fetch(ATTR_PROP).fetch(WS).insert(attr_oid);\<newline>'',
                    ''ws.fetch(ATTR_OWN).fetch(WS).insert(oid_preNew);\<newline>'',
                    ''ws.fetch(ATTR_FRAG).fetch(WS).insert(oid_frag);\<newline>'',
                    ''} # end of create attribute subtree copies\<newline>''] io;
         io = fprintf [''{ # create attribute root entries\<newline>'',
                    ''var unq_attrs := CTgroup(attr_iter)'',
                    ''.CTgroup(mposjoin(attr_item, attr_frag, ws.fetch(ATTR_QN)))'',
                    ''.CTgroup(mposjoin(attr_item, attr_frag, ws.fetch(ATTR_FRAG)))'',
                    ''.tunique;\<newline>'',
                    ''if (unq_attrs.count != attr_iter.count)\<newline>'',
                    ''{\<newline>'',
                    ''   if (item'', fmt_03u (i), ''.count > 0)\<newline>'',
                    ''      ERROR ("attributes are not unique in element'',
                    '' construction of '', [CHR 0x27], ''%'', ''s' within each iter",\<newline>'',
                    ''             item'', fmt_03u (i), ''.leftfetchjoin(ws.fetch(QN_LOC).fetch(WS)).fetch(0));\<newline>'',
                    ''   else\<newline>'',
                    ''     ERROR ("attributes are not unique in element'',
                    '' construction within each iter");\<newline>'',
                    ''}\<newline>''] io;
         io = fprintf [''var seqb := oid(ws.fetch(ATTR_QN).fetch(WS).count);\<newline>'',
                    ''var attr_qn := mposjoin(attr_item, attr_frag, ws.fetch(ATTR_QN));\<newline>'',
                    ''attr_qn.seqbase(seqb);\<newline>'',
                    ''var attr_oid := mposjoin(attr_item, attr_frag, ws.fetch(ATTR_PROP));\<newline>'',
                    ''attr_oid.seqbase(seqb);\<newline>'',
                    ''var attr_own := iter'', fmt_03u (i), ''.reverse.leftfetchjoin(roots);\<newline>'',
                    ''roots := nil;\<newline>'',
                    ''attr_own := attr_iter.leftjoin(attr_own);\<newline>'',
                    ''attr_iter := nil;\<newline>'',
                    ''attr_own := attr_own.reverse.mark(seqb).reverse;\<newline>''] io;
         io = fprintf [''attr_frag.seqbase(seqb);\<newline>'',
                    ''seqb := nil;\<newline>'',
                    ''ws.fetch(ATTR_QN).fetch(WS).insert(attr_qn);\<newline>'',
                    ''attr_qn := nil;\<newline>'',
                    ''ws.fetch(ATTR_PROP).fetch(WS).insert(attr_oid);\<newline>'',
                    ''attr_oid := nil;\<newline>'',
                    ''ws.fetch(ATTR_OWN).fetch(WS).insert(attr_own);\<newline>'',
                    ''attr_own := nil;\<newline>'',
                    ''ws.fetch(ATTR_FRAG).fetch(WS).insert(attr_frag);\<newline>'',
                    ''attr_frag := nil;\<newline>'',
                    ''} # end of create attribute root entries\<newline>'',
                    ''} # end of loop_liftedElemConstr (counter)\<newline>''] io;
         io = slot_call (CombineResult i) io
     in io)\<close>

definition loop_liftedAttrConstr :: "int \<Rightarrow> int \<Rightarrow> io \<Rightarrow> io" where
  \<open>loop_liftedAttrConstr act_level i io0 =
    (let io = io0;
         io = fprintf [''{ # loop_liftedAttrConstr (int i)\<newline>'',
                    ''var test := iter.tunique;\<newline>'',
                    ''if (test.count != kind.ord_uselect(STR).count)\<newline>'',
                    ''    ERROR ("there can be only one string for each iter in '',
                    ''attribute construction");\<newline>'',
                    ''test := {count}(iter.reverse,test);\<newline>'',
                    ''if (test.count != test.sum)\<newline>'',
                    ''    ERROR ("more than 1 argument in attribute constructor");\<newline>''] io;
         io = fprintf [''if (iter'', fmt_03u (i), ''.count != loop'', fmt_03u (act_level), ''.count)\<newline>'',
                    ''    ERROR ("empty tagname is not allowed in '',
                    ''attribute construction");\<newline>'',
                    ''if (iter.count != loop'', fmt_03u (act_level), ''.count)\<newline>'',
                    ''{\<newline>'',
                    ''var difference := loop'', fmt_03u (act_level), ''.reverse.kdiff(iter.reverse);\<newline>'',
                    ''difference := difference.mark(0@0).reverse;\<newline>'',
                    ''var res_mu := merged_union(iter, difference, item, '',
                    ''difference.project(EMPTY_STRING));\<newline>'',
                    ''item := res_mu.fetch(1);\<newline>'',
                    ''}\<newline>''] io;
         io = fprintf [''var ws_prop_val := ws.fetch(PROP_VAL).fetch(WS);\<newline>'',
                    ''var unq_str := item.tunique.mark(0@0).reverse;\<newline>'',
                    ''unq_str := unq_str.leftfetchjoin(str_values);\<newline>'',
                    ''unq_str := unq_str.reverse.kdiff(ws_prop_val.reverse);\<newline>'',
                    ''var seqb := oid(int(ws_prop_val.seqbase) + ws_prop_val.count);\<newline>'',
                    ''unq_str := unq_str.mark(seqb).reverse;\<newline>'',
                    ''seqb := nil;\<newline>'',
                    ''ws_prop_val.insert(unq_str);\<newline>'',
                    ''var strings := item.leftfetchjoin(str_values);\<newline>'',
                    ''strings := strings.leftjoin(ws_prop_val.reverse);\<newline>'',
                    ''seqb := oid(ws.fetch(ATTR_OWN).fetch(WS).count);\<newline>'',
                    ''var attr_oid := strings.reverse.mark(seqb).reverse;\<newline>'',
                    ''strings := nil;\<newline>'',
                    ''ws.fetch(ATTR_PROP).fetch(WS).insert(attr_oid);\<newline>'',
                    ''var qn := item'', fmt_03u (i), ''.reverse.mark(seqb).reverse;\<newline>'',
                    ''ws.fetch(ATTR_QN).fetch(WS).insert(qn);\<newline>'',
                    ''ws.fetch(ATTR_FRAG).fetch(WS).insert(qn.project(WS));\<newline>'',
                    ''ws.fetch(ATTR_OWN).fetch(WS).insert(qn.mark(nil));\<newline>'',
                    ''iter := iter'', fmt_03u (i), '';\<newline>'',
                    ''pos := pos'', fmt_03u (i), '';\<newline>'',
                    ''item := iter'', fmt_03u (i), ''.mark(seqb);\<newline>'',
                    ''kind := kind'', fmt_03u (i), ''.project(ATTR);\<newline>'',
                    ''} # end of loop_liftedAttrConstr (int i)\<newline>''] io;
         io = slot_call (CombineResult i) io
     in io)\<close>

definition loop_liftedTextConstr :: "io \<Rightarrow> io" where
  \<open>loop_liftedTextConstr io0 =
    (let io = io0;
         io = fprintf [''if (iter.tunique.count != kind.uselect(STR).count)\<newline>'',
                    ''   ERROR ("Text Constructor awaits exactly one string '',
                    ''for each iter");\<newline>''] io;
         io = fprintf [''{ # adding new strings to text node content and create new nodes\<newline>'',
                    ''var ws_prop_text := ws.fetch(PROP_TEXT).fetch(WS);\<newline>'',
                    ''var unq_str := item.tunique.mark(0@0).reverse;\<newline>'',
                    ''unq_str := unq_str.leftfetchjoin(str_values);\<newline>'',
                    ''unq_str := unq_str.reverse.kdiff(ws_prop_text.reverse);\<newline>'',
                    ''var seqb := oid(int(ws_prop_text.seqbase) + ws_prop_text.count);\<newline>'',
                    ''unq_str := unq_str.mark(seqb).reverse;\<newline>'',
                    ''seqb := nil;\<newline>'',
                    ''ws_prop_text.insert(unq_str);\<newline>'',
                    ''var strings := item.leftfetchjoin(str_values);\<newline>'',
                    ''strings := strings.leftjoin(ws_prop_text.reverse);\<newline>'',
                    ''seqb := oid(ws.fetch(PRE_KIND).fetch(WS).count);\<newline>'',
                    ''var newPre_prop := strings.reverse.mark(seqb).reverse;\<newline>'',
                    ''strings := nil;\<newline>'',
                    ''ws.fetch(PRE_PROP).fetch(WS).insert(newPre_prop);\<newline>'',
                    ''ws.fetch(PRE_SIZE).fetch(WS).insert(newPre_prop.project(0));\<newline>'',
                    ''ws.fetch(PRE_LEVEL).fetch(WS).insert(newPre_prop.project(chr(0)));\<newline>'',
                    ''ws.fetch(PRE_KIND).fetch(WS).insert(newPre_prop.project(TEXT));\<newline>'',
                    ''ws.fetch(PRE_FRAG).fetch(WS).insert(newPre_prop.project(WS));\<newline>'',
                    ''newPre_prop := nil;\<newline>'',
                    ''item := item.mark(seqb);\<newline>'',
                    ''seqb := nil;\<newline>'',
                    ''kind := kind.project(NODE);\<newline>'',
                    ''}\<newline>'',
                    ''{ # adding new fragments to the WS_FRAG bat\<newline>'',
                    ''var seqb := ws.fetch(WS_FRAG).count;\<newline>'',
                    ''seqb := oid(seqb);\<newline>'',
                    ''var new_pres := item.reverse.mark(seqb).reverse;\<newline>'',
                    ''seqb := nil;\<newline>'',
                    ''ws.fetch(WS_FRAG).insert(new_pres);\<newline>'',
                    ''new_pres := nil;\<newline>'',
                    ''ws.fetch(HEIGHT).replace(WS, max(ws.fetch(HEIGHT).fetch(WS), 1));\<newline>'',
                    ''}\<newline>''] io
     in io)\<close>

text \<open>
  \<open>loop_liftedSCJ\<close>: the attribute step is printed in line, every other axis becomes a call
  of the staircase join named after it. \<open>kind\<close>, \<open>ns\<close> and \<open>loc\<close> are \<open>char *\<close> that
  may be 0.
\<close>

definition loop_liftedSCJ ::
  "string \<Rightarrow> string option \<Rightarrow> string option \<Rightarrow> string option \<Rightarrow> io \<Rightarrow> io" where
  \<open>loop_liftedSCJ axis kind ns loc io0 =
    (let io = fprintf [''# loop_liftedSCJ (axis, kind, ns, loc)\<newline>''] io0 in
     if axis = ''attribute'' then
       (let io = fprintf [''{ # attribute axis\<newline>'',
                          ''var unq := CTgroup(iter).CTgroup(item)'',
                          ''.CTgroup(kind).tunique.mark(0@0).reverse;\<newline>'',
                          ''var oid_iter := unq.leftfetchjoin(iter);\<newline>'',
                          ''var oid_item := unq.leftfetchjoin(item);\<newline>'',
                          ''var oid_frag := unq.leftfetchjoin(kind.get_fragment);\<newline>'',
                          ''unq := nil;\<newline>'',
                          ''var temp1 := mvaljoin (oid_item, oid_frag, ws.fetch(ATTR_OWN));\<newline>'',
                          ''oid_item := nil;\<newline>'',
                          ''oid_frag := temp1.mark(0@0).reverse.leftfetchjoin(oid_frag);\<newline>'',
                          ''var oid_attr := temp1.reverse.mark(0@0).reverse;\<newline>'',
                          ''oid_iter := temp1.mark(0@0).reverse.leftfetchjoin(oid_iter);\<newline>'',
                          ''temp1 := nil;\<newline>''] io;
            io = (case ns of
                    Some ns \<Rightarrow>
                      (let io = fprintf [''temp1 := mposjoin(mposjoin(oid_attr, oid_frag, ws.fetch(ATTR_QN)), '',
                                         ''mposjoin(oid_attr, oid_frag, ws.fetch(ATTR_FRAG)), '',
                                         ''ws.fetch(QN_NS));\<newline>'',
                                         ''temp1 := temp1.ord_uselect("'', fmt_s (ns), ''");\<newline>''] io;
                           io = fprintf [''temp1 := temp1.mark(0@0).reverse;\<newline>'',
                                         ''oid_attr := temp1.leftfetchjoin(oid_attr);\<newline>'',
                                         ''oid_frag := temp1.leftfetchjoin(oid_frag);\<newline>'',
                                         ''oid_iter := temp1.leftfetchjoin(oid_iter);\<newline>'',
                                         ''temp1 := nil;\<newline>''] io
                       in io)
                  | None \<Rightarrow> io);
            io = (case loc of
                    Some loc \<Rightarrow>
                      (let io = fprintf [''temp1 := mposjoin(mposjoin(oid_attr, oid_frag, ws.fetch(ATTR_QN)), '',
                                         ''mposjoin(oid_attr, oid_frag, ws.fetch(ATTR_FRAG)), '',
                                         ''ws.fetch(QN_LOC));\<newline>'',
                                         ''temp1 := temp1.ord_uselect("'', fmt_s (loc), ''");\<newline>''] io;
                           io = fprintf [''temp1 := temp1.mark(0@0).reverse;\<newline>'',
                                         ''oid_attr := temp1.leftfetchjoin(oid_attr);\<newline>'',
                                         ''oid_frag := temp1.leftfetchjoin(oid_frag);\<newline>'',
                                         ''oid_iter := temp1.leftfetchjoin(oid_iter);\<newline>'',
                                         ''temp1 := nil;\<newline>''] io
                       in io)
                  | None \<Rightarrow> io);
            io = fprintf [''res_scj := bat(void,bat).seqbase(0@0);\<newline>'',
                          ''res_scj.insert(nil, oid_iter.reverse.mark(0@0).reverse);\<newline>'',
                          ''oid_iter := nil;\<newline>'',
                          ''res_scj.insert(nil, oid_attr.reverse.mark(0@0).reverse);\<newline>'',
                          ''oid_attr := nil;\<newline>'',
                          ''res_scj.insert(nil, oid_frag.reverse.mark(0@0).reverse);\<newline>'',
                          ''oid_frag := nil;\<newline>'',
                          ''temp1 := nil;\<newline>'',
                          ''} # end of attribute axis\<newline>''] io
        in io)
     else
       (case kind of
          Some kind \<Rightarrow> fprintf [''res_scj := loop_lifted_'', fmt_s (axis), ''_step_with_kind_test_joined'',
                                           ''(iter, item, kind.get_fragment, ws, '', fmt_s (kind), '');\<newline>''] io
        | None \<Rightarrow>
           (case (ns, loc) of
              (Some ns, Some loc) \<Rightarrow> fprintf [''res_scj := loop_lifted_'', fmt_s (axis), ''_step_with_nsloc_test_joined'',
                                                         ''(iter, item, kind.get_fragment, ws, "'', fmt_s (ns), ''", "'', fmt_s (loc), ''");\<newline>''] io
            | (None, Some loc) \<Rightarrow> fprintf [''res_scj := loop_lifted_'', fmt_s (axis), ''_step_with_loc_test_joined'',
                                                      ''(iter, item, kind.get_fragment, ws, "'', fmt_s (loc), ''");\<newline>''] io
            | (Some ns, None) \<Rightarrow> fprintf [''res_scj := loop_lifted_'', fmt_s (axis), ''_step_with_ns_test_joined'',
                                                     ''(iter, item, kind.get_fragment, ws, "'', fmt_s (ns), ''");\<newline>''] io
            | (None, None) \<Rightarrow> fprintf [''res_scj := loop_lifted_'', fmt_s (axis), ''_step_joined'',
                                                  ''(iter, item, kind.get_fragment, ws);\<newline>''] io)))\<close>

text \<open>The first \<open>switch\<close> of \<open>translateLocsteps\<close>: the axis string of a step kind.\<close>

fun axis_string :: "axis \<Rightarrow> string" where
  "axis_string c_ancestor = ''ancestor''"
| "axis_string c_ancestor_or_self = ''ancestor_or_self''"
| "axis_string c_attribute = ''attribute''"
| "axis_string c_child = ''child''"
| "axis_string c_descendant = ''descendant''"
| "axis_string c_descendant_or_self = ''descendant_or_self''"
| "axis_string c_following = ''following''"
| "axis_string c_following_sibling = ''following_sibling''"
| "axis_string c_parent = ''parent''"
| "axis_string c_preceding = ''preceding''"
| "axis_string c_preceding_sibling = ''preceding_sibling''"
| "axis_string c_self = ''attribute''"

definition translateLocsteps :: "cnode \<Rightarrow> io \<Rightarrow> error + io" where
  \<open>translateLocsteps c io0 =
    (let io = fprintf [''{ # translateLocsteps (c)\<newline>'',
                       ''var res_scj := empty_res_bat;'',
                       ''var sel_ls := kind.get_type(NODE);\<newline>'',
                       ''sel_ls := sel_ls.mark(0@0).reverse;\<newline>'',
                       ''item := sel_ls.leftfetchjoin(item);\<newline>'',
                       ''iter := sel_ls.leftfetchjoin(iter);\<newline>'',
                       ''kind := sel_ls.leftfetchjoin(kind);\<newline>'',
                       ''sel_ls := nil;\<newline>''] io0 in
     case c of
       C_step a t \<Rightarrow>
         (let axis = axis_string a in
          and_then
            (case t of
               C_namet q \<Rightarrow>
                 (let ns = uri (qn_ns q);
                      loc = qn_loc q;
                      ns = (case ns of
                              None \<Rightarrow> Some ''''
                            | Some n \<Rightarrow> if n = ''*'' then None else Some n);
                      loc = (case loc of
                               Some l \<Rightarrow> if l = ''*'' then None else Some l
                             | None \<Rightarrow> None)
                  in Inr (loop_liftedSCJ axis None ns loc io))
             | C_kind_node \<Rightarrow> Inr (loop_liftedSCJ axis None None None io)
             | C_kind_comment \<Rightarrow> Inr (loop_liftedSCJ axis (Some ''COMMENT'') None None io)
             | C_kind_text \<Rightarrow> Inr (loop_liftedSCJ axis (Some ''TEXT'') None None io)
             | C_kind_pi \<Rightarrow> Inr (loop_liftedSCJ axis (Some ''PI'') None None io)
             | C_kind_doc \<Rightarrow> Inr (loop_liftedSCJ axis (Some ''DOCUMENT'') None None io)
             | C_kind_elem \<Rightarrow> Inr (loop_liftedSCJ axis (Some ''ELEMENT'') None None io)
             | C_kind_attr \<Rightarrow> Inr (loop_liftedSCJ axis (Some ''ATTRIBUTE'') None None io)
             | _ \<Rightarrow> Inl (PFoops OOPS_FATAL ''illegal node test in MIL-translation''))
            (\<lambda>io.
               let io = fprintf [''iter := res_scj.fetch(0);\<newline>'',
                                 ''pos := iter.mark_grp(iter.tunique.project(1@0));\<newline>'',
                                 ''item := res_scj.fetch(1);\<newline>''] io;
                   io = (if axis = ''attribute''
                         then fprintf [''kind := res_scj.fetch(2).get_kind(ATTR);\<newline>''] io
                         else fprintf [''kind := res_scj.fetch(2).get_kind(NODE);\<newline>''] io);
                   io = fprintf [''res_scj := nil;\<newline>'',
                                 ''} # end of translateLocsteps (c)\<newline>''] io
               in Inr io))
     | _ \<Rightarrow> Inl (PFoops OOPS_FATAL ''illegal XPath axis in MIL-translation''))\<close>


text \<open>The text that \<open>translateFunction\<close> prints for each built-in, after the code of its
  argument.\<close>

definition fn_doc :: "io \<Rightarrow> io" where
  \<open>fn_doc io = fprintf [''{ # translate fn:doc (string?) as document?\<newline>'',
                              ''var docs := item.tunique.mark(0@0).reverse;\<newline>'',
                              ''docs := docs.leftfetchjoin(str_values);\<newline>'',
                              ''docs := docs.reverse.kdiff(ws.fetch(DOC_LOADED).reverse)'',
                              ''.mark(0@0).reverse;\<newline>'',
                              ''docs@batloop () {\<newline>'',
                              ''ws := add_doc(ws, $t);\<newline>'',
                              ''}\<newline>'',
                              ''docs := nil;\<newline>'',
                              ''var frag := item.leftfetchjoin(str_values);\<newline>'',
                              ''frag := frag.leftjoin(ws.fetch(DOC_LOADED).reverse);\<newline>'',
                              ''frag := frag.reverse.mark(0@0).reverse;\<newline>'',
                              ''kind := get_kind(frag, NODE);\<newline>'',
                              ''item := kind.project(0@0);\<newline>'',
                              ''} # end of translate fn:doc (string?) as document?\<newline>''] io\<close>

definition fn_distinct_doc_order :: "io \<Rightarrow> io" where
  \<open>fn_distinct_doc_order io = fprintf [''{ # translate pf:distinct-doc-order (node*) as node*\<newline>'',
                                             ''if (kind.count != kind.get_type(NODE).count) '',
                                             ''ERROR ("function pf:distinct-doc-order expects only nodes");\<newline>'',
                                             ''var temp_ddo := CTgroup(iter).CTgroup(item).CTgroup(kind);\<newline>'',
                                             ''temp_ddo := temp_ddo.tunique.mark(0@0).reverse;\<newline>'',
                                             ''iter := temp_ddo.leftfetchjoin(iter);\<newline>'',
                                             ''item := temp_ddo.leftfetchjoin(item);\<newline>'',
                                             ''kind := temp_ddo.leftfetchjoin(kind);\<newline>'',
                                             ''temp_ddo := nil;\<newline>'',
                                             ''var sorting := iter.reverse.sort.reverse;\<newline>'',
                                             ''sorting := sorting.CTrefine(kind);'',
                                             ''sorting := sorting.CTrefine(item);'',
                                             ''sorting := sorting.mark(0@0).reverse;\<newline>'',
                                             ''iter := sorting.leftfetchjoin(iter);\<newline>'',
                                             ''pos := iter.mark(1@0);\<newline>'',
                                             ''item := sorting.leftfetchjoin(item);\<newline>'',
                                             ''kind := sorting.leftfetchjoin(kind);\<newline>'',
                                             ''sorting := nil;\<newline>'',
                                             ''} # end of translate pf:distinct-doc-order (node*) as node*\<newline>''] io\<close>

definition fn_count :: "int \<Rightarrow> io \<Rightarrow> io" where
  \<open>fn_count act_level io0 =
    (let io = fprintf [''{ # translate fn:count (item*) as integer\<newline>'',
                       ''var iter_count := {count}(iter.reverse,loop'', fmt_03u (act_level), ''.reverse);\<newline>'',
                       ''iter_count := iter_count.reverse.mark(0@0).reverse;\<newline>''] io0;
         io = addValues ''int_values'' ''iter_count'' io;
         io = fprintf [''item := iter_count.reverse.mark(0@0).reverse;\<newline>'',
                       ''iter_count := nil;\<newline>'',
                       ''iter := loop'', fmt_03u (act_level), ''.reverse.mark(0@0).reverse;\<newline>'',
                       ''pos := iter.project(1@0);\<newline>'',
                       ''kind := iter.project(INT);\<newline>'',
                       ''} # end of translate fn:count (item*) as integer\<newline>''] io
     in io)\<close>

definition fn_empty :: "int \<Rightarrow> io \<Rightarrow> io" where
  \<open>fn_empty act_level io = fprintf [''{ # translate fn:empty (item*) as boolean\<newline>'',
                                          ''var iter_count := {count}(iter.reverse,loop'', fmt_03u (act_level), ''.reverse);\<newline>'',
                                          ''var iter_bool := iter_count.[=](0);\<newline>'',
                                          ''iter_count := nil;\<newline>'',
                                          ''iter_bool := iter_bool.leftjoin(bool_map);\<newline>'',
                                          ''iter := iter_bool.mark(0@0).reverse;\<newline>'',
                                          ''pos := iter.project(1@0);\<newline>'',
                                          ''item := iter_bool.reverse.mark(0@0).reverse;\<newline>'',
                                          ''kind := iter.project(BOOL);\<newline>'',
                                          ''iter_bool := nil;\<newline>'',
                                          ''} # end of translate fn:empty (item*) as boolean\<newline>''] io\<close>

definition fn_not :: "io \<Rightarrow> io" where
  \<open>fn_not io = fprintf [''# translate fn:not (boolean) as boolean\<newline>'',
                              ''item := item.leftfetchjoin(bool_not);\<newline>''] io\<close>

definition fn_boolean :: "int \<Rightarrow> io \<Rightarrow> io" where
  \<open>fn_boolean act_level io0 =
    (let io = fprintf [''{ # translate fn:boolean (item*) as boolean\<newline>'',
                       ''iter := iter.reverse;\<newline>'',
                       ''var iter_count := {count}(iter,loop'', fmt_03u (act_level), ''.reverse);\<newline>''] io0;
         io = fprintf [''var test := iter_count.ord_uselect(1);\<newline>'',
                       ''var trues := iter_count.[!=](0);\<newline>'',
                       ''trues.access(BAT_WRITE);\<newline>'',
                       ''iter_count := nil;\<newline>'',
                       ''item := iter.leftfetchjoin(item);\<newline>'',
                       ''kind := iter.leftfetchjoin(kind);\<newline>'',
                       ''test := test.mirror;\<newline>'',
                       ''test := test.leftjoin(kind);\<newline>'',
                       ''var str_test := test.ord_uselect(STR);\<newline>'',
                       ''var int_test := test.ord_uselect(INT);\<newline>'',
                       ''var dbl_test := test.ord_uselect(DBL);\<newline>'',
                       ''var dec_test := test.ord_uselect(DEC);\<newline>'',
                       ''var bool_test := test.ord_uselect(BOOL);\<newline>'',
                       ''test := nil;\<newline>'',
                       ''str_test := str_test.mirror;\<newline>'',
                       ''int_test := int_test.mirror;\<newline>'',
                       ''dbl_test := dbl_test.mirror;\<newline>'',
                       ''dec_test := dec_test.mirror;\<newline>'',
                       ''bool_test := bool_test.mirror;\<newline>'',
                       ''str_test := str_test.leftjoin(item);\<newline>'',
                       ''int_test := int_test.leftjoin(item);\<newline>'',
                       ''dec_test := dec_test.leftjoin(item);\<newline>'',
                       ''dbl_test := dbl_test.leftjoin(item);\<newline>'',
                       ''bool_test := bool_test.leftjoin(item);\<newline>'',
                       ''str_test := str_test.leftfetchjoin(str_values);\<newline>'',
                       ''int_test := int_test.leftfetchjoin(int_values);\<newline>'',
                       ''dec_test := dec_test.leftfetchjoin(dec_values);\<newline>'',
                       ''dbl_test := dbl_test.leftfetchjoin(dbl_values);\<newline>'',
                       ''bool_test := bool_test.ord_uselect(0@0);\<newline>'',
                       ''str_test := str_test.ord_uselect("");\<newline>'',
                       ''int_test := int_test.ord_uselect(0);\<newline>'',
                       ''dec_test := dec_test.ord_uselect(dbl(0));\<newline>'',
                       ''dbl_test := dbl_test.ord_uselect(dbl(0));\<newline>'',
                       ''str_test := str_test.project(false);\<newline>'',
                       ''int_test := int_test.project(false);\<newline>'',
                       ''dec_test := dec_test.project(false);\<newline>'',
                       ''dbl_test := dbl_test.project(false);\<newline>'',
                       ''bool_test := bool_test.project(false);\<newline>'',
                       ''trues.replace(str_test);\<newline>'',
                       ''str_test := nil;\<newline>'',
                       ''trues.replace(int_test);\<newline>'',
                       ''int_test := nil;\<newline>'',
                       ''trues.replace(dec_test);\<newline>'',
                       ''dec_test := nil;\<newline>'',
                       ''trues.replace(dbl_test);\<newline>'',
                       ''dbl_test := nil;\<newline>'',
                       ''trues.replace(bool_test);\<newline>'',
                       ''bool_test := nil;\<newline>'',
                       ''trues := trues.leftjoin(bool_map);\<newline>'',
                       ''iter := trues.mark(0@0).reverse;\<newline>'',
                       ''pos := iter.project(1@0);\<newline>'',
                       ''item := trues.reverse.mark(0@0).reverse;\<newline>'',
                       ''kind := iter.project(BOOL);\<newline>'',
                       ''trues := nil;\<newline>'',
                       ''} # end of translate fn:boolean (item*) as boolean\<newline>''] io
     in io)\<close>

text \<open>\<open>translateIfThen\<close> before and after the translation of the branch; \<open>act_level\<close> is
  the level after \<open>act_level++\<close>.\<close>

definition translateIfThen_phase1 :: "int \<Rightarrow> bool \<Rightarrow> int \<Rightarrow> io \<Rightarrow> io" where
  \<open>translateIfThen_phase1 act_level thn bool_res io0 =
    (let io = fprintf [''{ # translateIfThen\<newline>''] io0;
         io = fprintf [''var loop'', fmt_03u (act_level), '' := loop'', fmt_03u (act_level - 1), '';\<newline>''] io;
         io = fprintf [''var inner'', fmt_03u (act_level), '' := inner'', fmt_03u (act_level - 1), '';\<newline>''] io;
         io = fprintf [''var outer'', fmt_03u (act_level), '' := outer'', fmt_03u (act_level - 1), '';\<newline>''] io;
         io = fprintf [''var v_vid'', fmt_03u (act_level), '' := v_vid'', fmt_03u (act_level - 1), '';\<newline>''] io;
         io = fprintf [''var v_iter'', fmt_03u (act_level), '' := v_iter'', fmt_03u (act_level - 1), '';\<newline>''] io;
         io = fprintf [''var v_pos'', fmt_03u (act_level), '' := v_pos'', fmt_03u (act_level - 1), '';\<newline>''] io;
         io = fprintf [''var v_item'', fmt_03u (act_level), '' := v_item'', fmt_03u (act_level - 1), '';\<newline>''] io;
         io = fprintf [''var v_kind'', fmt_03u (act_level), '' := v_kind'', fmt_03u (act_level - 1), '';\<newline>''] io;
         io = fprintf [''if (skip = 0)\<newline>{\<newline>''] io;
         io = (if \<not> thn
               then fprintf [''selected := item'', fmt_03u (bool_res), ''.ord_uselect(0@0);\<newline>''] io
               else io);
         io = fprintf [''iter := selected.mirror.join(iter'', fmt_03u (bool_res), '');\<newline>''] io;
         io = fprintf [''iter := iter.reverse.mark(0@0).reverse;\<newline>''] io;
         io = fprintf [''outer'', fmt_03u (act_level), '' := iter;\<newline>''] io;
         io = fprintf [''iter := iter.mark(1@0);\<newline>''] io;
         io = fprintf [''inner'', fmt_03u (act_level), '' := iter;\<newline>''] io;
         io = fprintf [''loop'', fmt_03u (act_level), '' := inner'', fmt_03u (act_level), '';\<newline>''] io;
         io = fprintf [''iter := nil;\<newline>''] io;
         io = fprintf [''var expOid := v_iter'', fmt_03u (act_level), ''.mirror;\<newline>''] io;
         io = fprintf [''var oidNew_expOid;\<newline>''] io;
         io = expand act_level io;
         io = join act_level io;
         io = fprintf [''expOid := nil;\<newline>''] io;
         io = fprintf [''}\<newline>''] io;
         io = (if thn
               then fprintf [''if (skip != 1)\<newline>{\<newline>''] io
               else fprintf [''if (skip != 2)\<newline>{\<newline>''] io)
     in io)\<close>

definition translateIfThen_phase3 :: "int \<Rightarrow> io \<Rightarrow> io" where
  \<open>translateIfThen_phase3 act_level io0 =
    (let io = fprintf [''}\<newline>''] io0;
         io = fprintf [''else\<newline>{\<newline>''] io;
         io = translateEmpty io;
         io = fprintf [''}\<newline>''] io;
         io = fprintf [''if (skip = 0)\<newline>{\<newline>''] io;
         io = mapBack act_level io;
         io = fprintf [''}\<newline>''] io;
         io = cleanUpLevel act_level io;
         io = fprintf [''} # end of translateIfThen\<newline>''] io
     in io)\<close>

text \<open>The parts of \<open>translate2MIL\<close> between its recursive calls. In \<open>c_for_open\<close>,
  \<open>act_level\<close> is the level after \<open>act_level++\<close>, \<open>var\<close> is \<open>c->child[0]->sem.var\<close> and
  \<open>pos\<close> is \<open>c->child[1]->sem.var\<close> when \<open>c->child[1]\<close> is a variable node.\<close>

definition c_for_open :: "int \<Rightarrow> int \<Rightarrow> PFvar_t \<Rightarrow> PFvar_t option \<Rightarrow> io \<Rightarrow> io" where
  \<open>c_for_open act_level num var pos io0 =
    (let io = fprintf [''{ # for-translation\<newline>''] io0;
         io = project act_level io;
         io = fprintf [''var expOid;\<newline>''] io;
         io = getExpanded act_level num io;
         io = fprintf [''if (expOid.count != 0) {\<newline>'',
                       ''var oidNew_expOid;\<newline>''] io;
         io = expand act_level io;
         io = join act_level io;
         io = fprintf [''} else {\<newline>''] io;
         io = createNewVarTable act_level io;
         io = fprintf [''} # end if\<newline>'',
                       ''expOid := nil;\<newline>''] io;
         io = (if used var then insertVar act_level (vid var) io else io);
         io = (case pos of
                 Some pv \<Rightarrow>
                   if used pv then
                     (let io = createEnumeration io;
                          io = insertVar act_level (vid pv) io
                      in io)
                   else io
               | None \<Rightarrow> io)
     in io)\<close>

definition c_for_close :: "int \<Rightarrow> io \<Rightarrow> io" where
  \<open>c_for_close act_level io0 =
    (let io = mapBack act_level io0;
         io = cleanUpLevel act_level io;
         io = fprintf [''} # end of for-translation\<newline>''] io
     in io)\<close>

definition c_ifthenelse_open :: "int \<Rightarrow> io \<Rightarrow> io" where
  \<open>c_ifthenelse_open bool_res io0 =
    (let io = fprintf [''{ # ifthenelse-translation\<newline>''] io0;
         io = fprintf [''var selected := item'', fmt_03u (bool_res), ''.ord_uselect(1@0);\<newline>'',
                       ''var skip := 0;\<newline>'',
                       ''if (selected.count = item'', fmt_03u (bool_res), ''.count) '',
                       ''skip := 2;\<newline>'',
                       ''else if (selected.count = 0) '',
                       ''skip := 1;\<newline>''] io
     in io)\<close>

text \<open>The closing brace of the if-then-else block is printed with \<open>printf\<close>, not with
  \<open>fprintf (f, ...)\<close>.\<close>

definition c_ifthenelse_close :: "io \<Rightarrow> io" where
  \<open>c_ifthenelse_close io = printf [''} # end of ifthenelse-translation\<newline>''] io\<close>

definition c_tag_code :: "int \<Rightarrow> PFqname_t \<Rightarrow> io \<Rightarrow> io" where
  \<open>c_tag_code act_level q io0 =
    (let ns = uri (qn_ns q);
         loc = qn_loc q;
         ns = (case ns of None \<Rightarrow> [] | Some n \<Rightarrow> n);
         io = fprintf [''{ # tagname-translation\<newline>'',
                       ''var propID := ws.fetch(QN_NS).fetch(WS)'',
                       ''.ord_uselect("'', fmt_s (ns), ''").mirror;\<newline>'',
                       ''propID := propID'',
                       ''.leftfetchjoin(ws.fetch(QN_LOC).fetch(WS));\<newline>'',
                       ''propID := propID.ord_uselect("'', fmt_s_ptr (loc), ''");\<newline>'',
                       ''var itemID;\<newline>''] io0;
         io = fprintf [''if (propID.count = 0)\<newline>'',
                       ''{\<newline>'',
                       ''itemID := oid(ws.fetch(QN_LOC).fetch(WS).count);\<newline>'',
                       ''ws.fetch(QN_NS).fetch(WS).insert (itemID,"'', fmt_s (ns), ''");\<newline>'',
                       ''ws.fetch(QN_LOC).fetch(WS).insert (itemID,"'', fmt_s_ptr (loc), ''");\<newline>'',
                       ''} else '',
                       ''itemID := propID.reverse.fetch(0);\<newline>''] io;
         io = translateConst act_level ''QNAME'' io;
         io = fprintf [''propID := nil;\<newline>'',
                       ''itemID := nil;\<newline>'',
                       ''} # end of tagname-translation\<newline>''] io
     in io)\<close>

definition c_lit_str_code :: "libs \<Rightarrow> int \<Rightarrow> string \<Rightarrow> io \<Rightarrow> io" where
  \<open>c_lit_str_code L act_level s io0 =
    (let io = fprintf [''{\<newline>'',
                       ''str_values.seqbase(nil);\<newline>'',
                       ''str_values.insert (nil,"'', fmt_s (PFesc_string L s), ''");\<newline>'',
                       ''str_values.seqbase(0@0);\<newline>'',
                       ''var itemID := str_values.ord_uselect("'', fmt_s (PFesc_string L s), ''");\<newline>'',
                       ''itemID := itemID.reverse.fetch(0);\<newline>''] io0;
         io = translateConst act_level ''STR'' io;
         io = fprintf [''itemID := nil;\<newline>'',
                       ''}\<newline>''] io
     in io)\<close>

definition c_lit_int_code :: "int \<Rightarrow> int \<Rightarrow> io \<Rightarrow> io" where
  \<open>c_lit_int_code act_level n io0 =
    (let io = fprintf [''{\<newline>'',
                       ''int_values.seqbase(nil);\<newline>'',
                       ''int_values.insert (nil,'', fmt_u (n), '');\<newline>'',
                       ''int_values.seqbase(0@0);\<newline>'',
                       ''var itemID := int_values.ord_uselect('', fmt_u (n), '');\<newline>'',
                       ''itemID := itemID.reverse.fetch(0);\<newline>''] io0;
         io = translateConst act_level ''INT'' io;
         io = fprintf [''itemID := nil;\<newline>'',
                       ''}\<newline>''] io
     in io)\<close>

definition c_lit_dec_code :: "libs \<Rightarrow> int \<Rightarrow> dbl \<Rightarrow> io \<Rightarrow> io" where
  \<open>c_lit_dec_code L act_level d io0 =
    (let io = fprintf [''{\<newline>'',
                       ''dec_values.seqbase(nil);\<newline>'',
                       ''dec_values.insert (nil,dbl('', fmt_g L (d), ''));\<newline>'',
                       ''dec_values.seqbase(0@0);\<newline>'',
                       ''var itemID := dec_values.ord_uselect(dbl('', fmt_g L (d), ''));\<newline>'',
                       ''itemID := itemID.reverse.fetch(0);\<newline>''] io0;
         io = translateConst act_level ''DEC'' io;
         io = fprintf [''itemID := nil;\<newline>'',
                       ''}\<newline>''] io
     in io)\<close>

definition c_lit_dbl_code :: "libs \<Rightarrow> int \<Rightarrow> dbl \<Rightarrow> io \<Rightarrow> io" where
  \<open>c_lit_dbl_code L act_level d io0 =
    (let io = fprintf [''{\<newline>'',
                       ''dbl_values.seqbase(nil);\<newline>'',
                       ''dbl_values.insert (nil,dbl('', fmt_g L (d), ''));\<newline>'',
                       ''dbl_values.seqbase(0@0);\<newline>'',
                       ''var itemID := dbl_values.ord_uselect(dbl('', fmt_g L (d), ''));\<newline>'',
                       ''itemID := itemID.reverse.fetch(0);\<newline>''] io0;
         io = translateConst act_level ''DBL'' io;
         io = fprintf [''itemID := nil;\<newline>'',
                       ''}\<newline>''] io
     in io)\<close>

definition c_true_code :: "int \<Rightarrow> io \<Rightarrow> io" where
  \<open>c_true_code act_level io0 =
    (let io = fprintf [''{\<newline>'',
                       ''var itemID := 1@0;\<newline>''] io0;
         io = translateConst act_level ''BOOL'' io;
         io = fprintf [''itemID := nil;\<newline>'',
                       ''}\<newline>''] io
     in io)\<close>

definition c_false_code :: "int \<Rightarrow> io \<Rightarrow> io" where
  \<open>c_false_code act_level io0 =
    (let io = fprintf [''{\<newline>'',
                       ''var itemID := 0@0;\<newline>''] io0;
         io = translateConst act_level ''BOOL'' io;
         io = fprintf [''itemID := nil;\<newline>'',
                       ''}\<newline>''] io
     in io)\<close>

definition c_root_code :: "int \<Rightarrow> io \<Rightarrow> io" where
  \<open>c_root_code act_level io0 =
    (let io = fprintf [''{\<newline>'',
                       ''var itemID := 0@0;\<newline>''] io0;
         io = translateConst act_level ''NODE'' io;
         io = fprintf [''kind := kind.project(ws.fetch(FRAG).fetch(0))'',
                       ''.get_kind(NODE);\<newline>'',
                       ''itemID := nil;\<newline>'',
                       ''}\<newline>''] io
     in io)\<close>

definition c_seqcast_log :: "libs \<Rightarrow> PFty_t \<Rightarrow> io \<Rightarrow> io" where
  \<open>c_seqcast_log L t io =
     PFlog [''cast to '', [CHR 0x27], PFty_str L t, [CHR 0x27], '' ignored''] io\<close>

text \<open>
  \<open>translateFunction\<close>, \<open>translateIfThen\<close> and \<open>translate2MIL\<close> call each other.
  \<open>act_level\<close> and \<open>counter\<close> are passed by value, so a callee's changes to them are not
  seen by the caller. Every recognised built-in starts with
  \<open>translate2MIL (f, act_level, counter, args->child[0])\<close>, which is \<open>arg\<close> below: the
  first child of \<open>args\<close> whatever the kind of \<open>args\<close> (in a tree of the compiler the
  list of arguments \<open>C_arg e rest\<close>, whose first child is the first argument). The
  \<open>assert (c)\<close> of \<open>translate2MIL\<close> fails when \<open>args\<close> has no first child, as \<open>C_nil\<close>,
  the empty list of arguments. \<open>translateIfThen\<close> ends by recording in \<open>slot_log\<close> that
  the code reading the saved condition \<open>bool_res\<close> has been printed.
\<close>

fun translateFunction ::
    "libs \<Rightarrow> var_store \<Rightarrow> int \<Rightarrow> int \<Rightarrow> PFqname_t \<Rightarrow> cnode \<Rightarrow> io \<Rightarrow> error + io"
  and translateIfThen ::
    "libs \<Rightarrow> var_store \<Rightarrow> int \<Rightarrow> int \<Rightarrow> cnode \<Rightarrow> bool \<Rightarrow> int \<Rightarrow> io \<Rightarrow> error + io"
  and translate2MIL ::
    "libs \<Rightarrow> var_store \<Rightarrow> int \<Rightarrow> int \<Rightarrow> cnode \<Rightarrow> io \<Rightarrow> error + io"
where
  "translateFunction L vars act_level counter fnQname args io0 =
    (let arg = (case args of
                  C_arg e rest \<Rightarrow> translate2MIL L vars act_level counter e io0
                | C_seq c0 c1 \<Rightarrow> translate2MIL L vars act_level counter c0 io0
                | C_let v c1 c2 \<Rightarrow> translate2MIL L vars act_level counter (C_var v) io0
                | C_for num v p c2 c3 \<Rightarrow> translate2MIL L vars act_level counter (C_var v) io0
                | C_ifthenelse c0 c1 c2 \<Rightarrow> translate2MIL L vars act_level counter c0 io0
                | C_locsteps c0 c1 \<Rightarrow> translate2MIL L vars act_level counter c0 io0
                | C_step a c0 \<Rightarrow> translate2MIL L vars act_level counter c0 io0
                | C_elem c0 c1 \<Rightarrow> translate2MIL L vars act_level counter c0 io0
                | C_attr c0 c1 \<Rightarrow> translate2MIL L vars act_level counter c0 io0
                | C_text c0 \<Rightarrow> translate2MIL L vars act_level counter c0 io0
                | C_seqcast t c1 \<Rightarrow> translate2MIL L vars act_level counter (C_seqtype t) io0
                | C_apply q c0 \<Rightarrow> translate2MIL L vars act_level counter c0 io0
                | C_other k (c0 # cs) \<Rightarrow> translate2MIL L vars act_level counter c0 io0
                | _ \<Rightarrow> Inl (Assert_failed ''c''))
     in
     if PFqname_eq fnQname (PFqname PFns_fn ''doc'') = 0 then
       and_then arg (\<lambda>io. Inr (fn_doc io))
     else if PFqname_eq fnQname (PFqname PFns_pf ''distinct-doc-order'') = 0 then
       and_then arg (\<lambda>io. Inr (fn_distinct_doc_order io))
     else if PFqname_eq fnQname (PFqname PFns_fn ''count'') = 0 then
       and_then arg (\<lambda>io. Inr (fn_count act_level io))
     else if PFqname_eq fnQname (PFqname PFns_fn ''empty'') = 0 then
       and_then arg (\<lambda>io. Inr (fn_empty act_level io))
     else if PFqname_eq fnQname (PFqname PFns_fn ''not'') = 0 then
       and_then arg (\<lambda>io. Inr (fn_not io))
     else if PFqname_eq fnQname (PFqname PFns_fn ''boolean'') = 0 then
       and_then arg (\<lambda>io. Inr (fn_boolean act_level io))
     else Inr (translateEmpty io0))"

| "translateIfThen L vars act_level0 counter c thn bool_res io0 =
    (let act_level = act_level0 + 1;
         io = translateIfThen_phase1 act_level thn bool_res io0
     in
     and_then (translate2MIL L vars act_level counter c io) (\<lambda>io.
       let io = translateIfThen_phase3 act_level io;
           io = slot_call (CombineResult bool_res) io
       in Inr io))"

| "translate2MIL L vars act_level counter (C_var v) io =
    Inr (translateVar vars act_level v io)"

| "translate2MIL L vars act_level counter (C_seq c0 c1) io0 =
    (if is_c_empty c0 \<and> \<not> is_c_empty c1 then
       Inr (translateEmpty io0)
     else if is_c_empty c0 then
       translate2MIL L vars act_level counter c1 io0
     else if is_c_empty c1 then
       translate2MIL L vars act_level counter c0 io0
     else
       and_then (translate2MIL L vars act_level counter c0 io0) (\<lambda>io.
         let counter = counter + 1;
             io = saveResult counter io
         in
         and_then (translate2MIL L vars act_level counter c1 io) (\<lambda>io.
           let io = translateSeq counter io;
               io = deleteResult counter io
           in Inr io)))"

| "translate2MIL L vars act_level counter (C_let v c1 c2) io0 =
    and_then (translate2MIL L vars act_level counter c1 io0) (\<lambda>io.
      let io = (if used (vars v) then insertVar act_level (vid (vars v)) io else io)
      in translate2MIL L vars act_level counter c2 io)"

| "translate2MIL L vars act_level0 counter (C_for num v p c2 c3) io0 =
    and_then (translate2MIL L vars act_level0 counter c2 io0) (\<lambda>io.
      let act_level = act_level0 + 1;
          io = c_for_open act_level num (vars v) (map_option vars p) io
      in
      and_then (translate2MIL L vars act_level counter c3 io) (\<lambda>io.
        Inr (c_for_close act_level io)))"

| "translate2MIL L vars act_level counter0 (C_ifthenelse c0 c1 c2) io0 =
    and_then (translate2MIL L vars act_level counter0 c0 io0) (\<lambda>io.
      let counter = counter0 + 1;
          io = saveResult counter io;
          bool_res = counter;
          io = c_ifthenelse_open bool_res io
      in
      and_then
        (if is_c_empty c2 then
           translateIfThen L vars act_level counter c1 True bool_res io
         else if is_c_empty c1 then
           translateIfThen L vars act_level counter c2 False bool_res io
         else
           and_then (translateIfThen L vars act_level counter c1 True bool_res io) (\<lambda>io.
             let counter = counter + 1;
                 io = saveResult counter io
             in
             and_then (translateIfThen L vars act_level counter c2 False bool_res io) (\<lambda>io.
               let io = translateSeq counter io;
                   io = deleteResult counter io
               in Inr io)))
        (\<lambda>io.
           let io = c_ifthenelse_close io;
               io = deleteResult counter io
           in Inr io))"

| "translate2MIL L vars act_level counter (C_locsteps c0 c1) io0 =
    and_then (translate2MIL L vars act_level counter c1 io0) (\<lambda>io.
      translateLocsteps c0 io)"

| "translate2MIL L vars act_level counter0 (C_elem c0 c1) io0 =
    and_then (translate2MIL L vars act_level counter0 c0 io0) (\<lambda>io.
      let io = (if \<not> is_c_tag c0 then castQName io else io);
          counter = counter0 + 1;
          io = saveResult counter io
      in
      and_then (translate2MIL L vars act_level counter c1 io) (\<lambda>io.
        let io = loop_liftedElemConstr counter io;
            io = deleteResult counter io
        in Inr io))"

| "translate2MIL L vars act_level counter0 (C_attr c0 c1) io0 =
    and_then (translate2MIL L vars act_level counter0 c0 io0) (\<lambda>io.
      let io = (if \<not> is_c_tag c0 then castQName io else io);
          counter = counter0 + 1;
          io = saveResult counter io
      in
      and_then (translate2MIL L vars act_level counter c1 io) (\<lambda>io.
        let io = loop_liftedAttrConstr act_level counter io;
            io = deleteResult counter io
        in Inr io))"

| "translate2MIL L vars act_level counter (C_tag q) io =
    Inr (c_tag_code act_level q io)"

| "translate2MIL L vars act_level counter (C_text c0) io0 =
    and_then (translate2MIL L vars act_level counter c0 io0) (\<lambda>io.
      Inr (loop_liftedTextConstr io))"

| "translate2MIL L vars act_level counter (C_lit_str s) io =
    Inr (c_lit_str_code L act_level s io)"

| "translate2MIL L vars act_level counter (C_lit_int n) io =
    Inr (c_lit_int_code act_level n io)"

| "translate2MIL L vars act_level counter (C_lit_dec d) io =
    Inr (c_lit_dec_code L act_level d io)"

| "translate2MIL L vars act_level counter (C_lit_dbl d) io =
    Inr (c_lit_dbl_code L act_level d io)"

| "translate2MIL L vars act_level counter C_true io =
    Inr (c_true_code act_level io)"

| "translate2MIL L vars act_level counter C_false io =
    Inr (c_false_code act_level io)"

| "translate2MIL L vars act_level counter C_root io =
    Inr (c_root_code act_level io)"

| "translate2MIL L vars act_level counter C_empty io =
    Inr (translateEmpty io)"

| "translate2MIL L vars act_level counter (C_seqcast t c1) io0 =
    (let io = c_seqcast_log L t io0
     in translate2MIL L vars act_level counter c1 io)"

| "translate2MIL L vars act_level counter (C_apply q args) io =
    translateFunction L vars act_level counter q args io"

| "translate2MIL L vars act_level counter _ io =
    Inl (PFoops OOPS_WARNING ''not supported feature is translated'')"


subsection \<open>Scope and variable annotation\<close>

text \<open>
  \<open>counter\<close> is an array of three \<open>int\<close>: the last scope id given to a \<open>for\<close> node (\<open>FID\<close>),
  the "actual" scope id (\<open>ACT_FID\<close>) and the next variable id (\<open>VID\<close>). \<open>way\<close> is the
  array of the scope ids of the \<open>for\<close> nodes being visited, the outermost first:
  \<open>PFarray_add\<close> appends an element, \<open>PFarray_top\<close> is the last one, \<open>PFarray_del\<close>
  removes it and \<open>PFarray_last\<close> is the number of elements. The ids are far from the
  range of \<open>int\<close> (one per node of the tree), so they are modelled as integers.
\<close>

record counters =
  FID :: int
  ACT_FID :: int
  VID :: int

record annot =
  a_way :: "int list"
  a_counter :: counters
  a_vars :: var_store
  a_out :: io

text \<open>The loop of \<open>update_expansion\<close>, from index \<open>m\<close> downwards.\<close>

function update_expansion_loop :: "PFvar_t \<Rightarrow> int list \<Rightarrow> int \<Rightarrow> io \<Rightarrow> io" where
  "update_expansion_loop var way m io0 =
    (if m \<ge> 0 \<and> way ! nat m > base var then
       (let io = fprintf [''var_usage.insert('', fmt_i (vid var), ''@0,'', fmt_i (way ! nat m), ''@0);\<newline>''] io0;
            io = var_usage_insert (vid var) (way ! nat m) io
        in update_expansion_loop var way (m - 1) io)
     else io0)"
  by pat_completeness auto
termination
  by (relation "measure (\<lambda>(var, way, m, io). nat (m + 1))") auto

declare update_expansion_loop.simps [simp del]

definition update_expansion :: "PFvar_t \<Rightarrow> int list \<Rightarrow> io \<Rightarrow> io" where
  "update_expansion var way io = update_expansion_loop var way (int (length way) - 1) io"

text \<open>
  \<open>append_lev\<close> writes the scope id into each \<open>for\<close> node (\<open>c->sem.num = fid\<close>), so the
  model returns the tree with these ids beside the new state. \<open>append_lev_children\<close> is
  the loop over \<open>c->child[i]\<close> for a node of any other kind.
\<close>

fun append_lev :: "cnode \<Rightarrow> annot \<Rightarrow> cnode \<times> annot"
  and append_lev_children :: "cnode list \<Rightarrow> annot \<Rightarrow> cnode list \<times> annot"
where
  "append_lev (C_var v) st0 =
    (let st = st0\<lparr>a_out := update_expansion (a_vars st0 v) (a_way st0) (a_out st0)\<rparr>;
         st = st\<lparr>a_vars := (a_vars st)(v := (a_vars st v)\<lparr>used := True\<rparr>)\<rparr>
     in (C_var v, st))"

| "append_lev (C_for num v p c2 c3) st0 =
    (let (c2', st) = append_lev c2 st0;
         st = st\<lparr>a_counter := (a_counter st)\<lparr>FID := FID (a_counter st) + 1\<rparr>\<rparr>;
         fid = FID (a_counter st);
         st = st\<lparr>a_way := a_way st @ [fid]\<rparr>;
         act_fid = fid;
         new_vid = VID (a_counter st);
         st = st\<lparr>a_vars := (a_vars st)(v := (a_vars st v)\<lparr>base := act_fid, vid := new_vid, used := False\<rparr>)\<rparr>;
         st = st\<lparr>a_counter := (a_counter st)\<lparr>VID := VID (a_counter st) + 1\<rparr>\<rparr>;
         st = (case p of
                 Some pv \<Rightarrow>
                   (let new_vid = VID (a_counter st);
                        st = st\<lparr>a_vars := (a_vars st)(pv := (a_vars st pv)\<lparr>base := act_fid, vid := new_vid, used := False\<rparr>)\<rparr>;
                        st = st\<lparr>a_counter := (a_counter st)\<lparr>VID := VID (a_counter st) + 1\<rparr>\<rparr>
                    in st)
               | None \<Rightarrow> st);
         (c3', st) = append_lev c3 st;
         st = st\<lparr>a_counter := (a_counter st)\<lparr>ACT_FID := last (a_way st)\<rparr>\<rparr>;
         st = st\<lparr>a_way := butlast (a_way st)\<rparr>
     in (C_for fid v p c2' c3', st))"

| "append_lev (C_let v c1 c2) st0 =
    (let (c1', st) = append_lev c1 st0;
         act_fid = ACT_FID (a_counter st);
         new_vid = VID (a_counter st);
         st = st\<lparr>a_vars := (a_vars st)(v := (a_vars st v)\<lparr>base := act_fid, vid := new_vid, used := False\<rparr>)\<rparr>;
         st = st\<lparr>a_counter := (a_counter st)\<lparr>VID := VID (a_counter st) + 1\<rparr>\<rparr>;
         (c2', st) = append_lev c2 st
     in (C_let v c1' c2', st))"

| "append_lev (C_seq c0 c1) st0 =
    (let (c0', st) = append_lev c0 st0;
         (c1', st) = append_lev c1 st
     in (C_seq c0' c1', st))"

| "append_lev (C_ifthenelse c0 c1 c2) st0 =
    (let (c0', st) = append_lev c0 st0;
         (c1', st) = append_lev c1 st;
         (c2', st) = append_lev c2 st
     in (C_ifthenelse c0' c1' c2', st))"

| "append_lev (C_locsteps c0 c1) st0 =
    (let (c0', st) = append_lev c0 st0;
         (c1', st) = append_lev c1 st
     in (C_locsteps c0' c1', st))"

| "append_lev (C_step a c0) st0 =
    (let (c0', st) = append_lev c0 st0
     in (C_step a c0', st))"

| "append_lev (C_elem c0 c1) st0 =
    (let (c0', st) = append_lev c0 st0;
         (c1', st) = append_lev c1 st
     in (C_elem c0' c1', st))"

| "append_lev (C_attr c0 c1) st0 =
    (let (c0', st) = append_lev c0 st0;
         (c1', st) = append_lev c1 st
     in (C_attr c0' c1', st))"

| "append_lev (C_text c0) st0 =
    (let (c0', st) = append_lev c0 st0
     in (C_text c0', st))"

| "append_lev (C_seqcast t c1) st0 =
    (let (c1', st) = append_lev c1 st0
     in (C_seqcast t c1', st))"

| "append_lev (C_apply q c0) st0 =
    (let (c0', st) = append_lev c0 st0
     in (C_apply q c0', st))"

| "append_lev (C_arg c0 c1) st0 =
    (let (c0', st) = append_lev c0 st0;
         (c1', st) = append_lev c1 st
     in (C_arg c0' c1', st))"

| "append_lev (C_other k cs) st0 =
    (let (cs', st) = append_lev_children cs st0
     in (C_other k cs', st))"

| "append_lev c st0 = (c, st0)"

| "append_lev_children [] st0 = ([], st0)"

| "append_lev_children (c # cs) st0 =
    (let (c', st) = append_lev c st0;
         (cs', st) = append_lev_children cs st
     in (c' # cs', st))"

subsection \<open>The driver\<close>

text \<open>
  \<open>PFprintMILtemp\<close>: \<open>vars0\<close> holds the variable structs as the caller left them. The
  model returns the annotated tree and the annotator's last state beside the output.
\<close>

definition annot_init :: "var_store \<Rightarrow> io \<Rightarrow> annot" where
  "annot_init vars0 io =
     \<lparr>a_way = [], a_counter = \<lparr>FID = 0, ACT_FID = 0, VID = 0\<rparr>, a_vars = vars0, a_out = io\<rparr>"

definition var_usage_open :: "io \<Rightarrow> io" where
  \<open>var_usage_open io = fprintf [''{\<newline>'',
                                      ''var_usage := bat(oid,oid);\<newline>''] io\<close>

definition var_usage_sort :: "io \<Rightarrow> io" where
  \<open>var_usage_sort io = fprintf [''var_usage := var_usage.unique.reverse;\<newline>'',
                                      ''var_usage.access(BAT_READ);\<newline>'',
                                      ''vu_fid := var_usage.mark(1000@0).reverse;\<newline>'',
                                      ''vu_vid := var_usage.reverse.mark(1000@0).reverse;\<newline>'',
                                      ''var_usage := nil;\<newline>'',
                                      ''var sorting := vu_fid.reverse.sort.reverse;\<newline>'',
                                      ''sorting := sorting.CTrefine(vu_vid);\<newline>'',
                                      ''sorting := sorting.mark(1000@0).reverse;\<newline>'',
                                      ''vu_vid := sorting.leftfetchjoin(vu_vid);\<newline>'',
                                      ''vu_fid := sorting.leftfetchjoin(vu_fid);\<newline>'',
                                      ''sorting := nil;\<newline>'',
                                      ''}\<newline>''] io\<close>

definition mil_finished :: "io \<Rightarrow> io" where
  \<open>mil_finished io = fprintf [''printf("mil-programm without crash finished :)'', [CHR 0x5C], ''n");\<newline>''] io\<close>

definition PFprintMILtemp :: "libs \<Rightarrow> var_store \<Rightarrow> cnode \<Rightarrow> io \<Rightarrow> error + (cnode \<times> annot \<times> io)" where
  "PFprintMILtemp L vars0 c io0 =
    (let io = init io0;
         io = var_usage_open io;
         (c', st) = append_lev c (annot_init vars0 io);
         io = var_usage_sort (a_out st)
     in
     case translate2MIL L (a_vars st) 0 0 c' io of
       Inl e \<Rightarrow> Inl e
     | Inr io \<Rightarrow>
         (let io = print_output io;
              io = mil_finished io
          in Inr (c', st, io)))"


subsection \<open>Concrete inputs\<close>

text \<open>A library instance and a variable store for evaluating the printer on concrete
  trees: strings are printed as they are, every \<open>double\<close> as \<open>0\<close>, every type as
  \<open>item\<close>; every variable starts unused with ids 0.\<close>

definition libs_example :: libs where
  "libs_example = \<lparr>PFesc_string = (\<lambda>s. s), fmt_g = (\<lambda>d. ''0''), PFty_str = (\<lambda>t. ''item'')\<rparr>"

definition vars_example :: var_store where
  "vars_example = (\<lambda>v. \<lparr>base = 0, vid = 0, used = False\<rparr>)"

subsection \<open>Notions used to state the properties\<close>

text \<open>
  The saved results as a stack. \<open>run_slots es live\<close> replays the calls \<open>es\<close> on the
  stack \<open>live\<close> of the saved results that are in use, the latest first, each with its
  counter and whether the code combining it has been printed since it was saved:
  a result can only be saved under a counter above all those in use; the code that
  combines a result can only be printed while the result is in use; only the latest
  saved result can be deleted, and only after the code combining it has been printed. The
  outcome is the stack after the calls, or \<open>None\<close> when a call breaks one of these
  rules.
  \<open>slots_nested counter l l'\<close>: the log \<open>l'\<close> continues \<open>l\<close> by calls that keep the rules
  and give back the stack they started with, whenever that stack holds no counter above
  \<open>counter\<close>. \<open>slots_used counter b l l'\<close>: the same, but for the result saved under
  \<open>b\<close>, which the calls find in use and leave combined.
\<close>

definition mark_combined :: "int \<Rightarrow> (int \<times> bool) list \<Rightarrow> (int \<times> bool) list" where
  "mark_combined n live = map (\<lambda>(m, u). (m, u \<or> m = n)) live"

fun run_slots :: "slot_event list \<Rightarrow> (int \<times> bool) list \<Rightarrow> (int \<times> bool) list option" where
  "run_slots [] live = Some live"
| "run_slots (SaveResult n # es) live =
     (if list_all (\<lambda>(m, u). m < n) live then run_slots es ((n, False) # live) else None)"
| "run_slots (CombineResult n # es) live =
     (if n \<in> fst ` set live then run_slots es (mark_combined n live) else None)"
| "run_slots (DeleteResult n # es) live =
     (case live of
        [] \<Rightarrow> None
      | (m, u) # rest \<Rightarrow> if m = n \<and> u then run_slots es rest else None)"

definition slots_nested :: "int \<Rightarrow> slot_event list \<Rightarrow> slot_event list \<Rightarrow> bool" where
  "slots_nested counter l l' \<longleftrightarrow>
     (\<exists>es. l' = l @ es \<and>
        (\<forall>live. list_all (\<lambda>(m, u). m \<le> counter) live \<longrightarrow> run_slots es live = Some live))"

definition slots_used :: "int \<Rightarrow> int \<Rightarrow> slot_event list \<Rightarrow> slot_event list \<Rightarrow> bool" where
  "slots_used counter b l l' \<longleftrightarrow>
     (\<exists>es. l' = l @ es \<and>
        (\<forall>live. list_all (\<lambda>(m, u). m \<le> counter) live \<and> b \<in> fst ` set live \<longrightarrow>
           run_slots es live = Some (mark_combined b live)))"

text \<open>
  The code of a step along the attribute axis, as its pieces: the opening of
  \<open>translateLocsteps\<close>, the attribute axis printed in line by \<open>loop_liftedSCJ\<close> (its
  opening, a selection for each part of a name test that is not a wildcard, its end) and
  the closing of \<open>translateLocsteps\<close>, which derives the kind of the result
  (\<open>ATTR\<close> for the attribute axis, \<open>NODE\<close> for the others). \<open>is_node_test\<close>: the node
  tests of the second \<open>switch\<close> of \<open>translateLocsteps\<close>. \<open>name_test_ns\<close> and
  \<open>name_test_loc\<close>: the namespace and the local name that a name test selects by, none
  for the wildcard \<open>*\<close>; a name without a namespace selects the empty namespace.
\<close>

definition locsteps_open :: string where
  "locsteps_open = concat
     [''{ # translateLocsteps (c)\<newline>'',
      ''var res_scj := empty_res_bat;'',
      ''var sel_ls := kind.get_type(NODE);\<newline>'',
      ''sel_ls := sel_ls.mark(0@0).reverse;\<newline>'',
      ''item := sel_ls.leftfetchjoin(item);\<newline>'',
      ''iter := sel_ls.leftfetchjoin(iter);\<newline>'',
      ''kind := sel_ls.leftfetchjoin(kind);\<newline>'',
      ''sel_ls := nil;\<newline>'']"

definition attribute_axis_open :: string where
  "attribute_axis_open = concat
     [''# loop_liftedSCJ (axis, kind, ns, loc)\<newline>'',
      ''{ # attribute axis\<newline>'',
      ''var unq := CTgroup(iter).CTgroup(item)'',
      ''.CTgroup(kind).tunique.mark(0@0).reverse;\<newline>'',
      ''var oid_iter := unq.leftfetchjoin(iter);\<newline>'',
      ''var oid_item := unq.leftfetchjoin(item);\<newline>'',
      ''var oid_frag := unq.leftfetchjoin(kind.get_fragment);\<newline>'',
      ''unq := nil;\<newline>'',
      ''var temp1 := mvaljoin (oid_item, oid_frag, ws.fetch(ATTR_OWN));\<newline>'',
      ''oid_item := nil;\<newline>'',
      ''oid_frag := temp1.mark(0@0).reverse.leftfetchjoin(oid_frag);\<newline>'',
      ''var oid_attr := temp1.reverse.mark(0@0).reverse;\<newline>'',
      ''oid_iter := temp1.mark(0@0).reverse.leftfetchjoin(oid_iter);\<newline>'',
      ''temp1 := nil;\<newline>'']"

fun attribute_name_test :: "string \<Rightarrow> string option \<Rightarrow> string" where
  "attribute_name_test table None = []"
| "attribute_name_test table (Some name) = concat
     [''temp1 := mposjoin(mposjoin(oid_attr, oid_frag, ws.fetch(ATTR_QN)), '',
      ''mposjoin(oid_attr, oid_frag, ws.fetch(ATTR_FRAG)), '',
      ''ws.fetch('', table, ''));\<newline>'',
      ''temp1 := temp1.ord_uselect('', [CHR 0x22], name, [CHR 0x22], '');\<newline>'',
      ''temp1 := temp1.mark(0@0).reverse;\<newline>'',
      ''oid_attr := temp1.leftfetchjoin(oid_attr);\<newline>'',
      ''oid_frag := temp1.leftfetchjoin(oid_frag);\<newline>'',
      ''oid_iter := temp1.leftfetchjoin(oid_iter);\<newline>'',
      ''temp1 := nil;\<newline>'']"

definition attribute_axis_close :: string where
  "attribute_axis_close = concat
     [''res_scj := bat(void,bat).seqbase(0@0);\<newline>'',
      ''res_scj.insert(nil, oid_iter.reverse.mark(0@0).reverse);\<newline>'',
      ''oid_iter := nil;\<newline>'',
      ''res_scj.insert(nil, oid_attr.reverse.mark(0@0).reverse);\<newline>'',
      ''oid_attr := nil;\<newline>'',
      ''res_scj.insert(nil, oid_frag.reverse.mark(0@0).reverse);\<newline>'',
      ''oid_frag := nil;\<newline>'',
      ''temp1 := nil;\<newline>'',
      ''} # end of attribute axis\<newline>'']"

definition locsteps_close :: "string \<Rightarrow> string" where
  "locsteps_close kind = concat
     [''iter := res_scj.fetch(0);\<newline>'',
      ''pos := iter.mark_grp(iter.tunique.project(1@0));\<newline>'',
      ''item := res_scj.fetch(1);\<newline>'',
      ''kind := res_scj.fetch(2).get_kind('', kind, '');\<newline>'',
      ''res_scj := nil;\<newline>'',
      ''} # end of translateLocsteps (c)\<newline>'']"

fun is_node_test :: "cnode \<Rightarrow> bool" where
  "is_node_test (C_namet q) = True"
| "is_node_test C_kind_node = True"
| "is_node_test C_kind_comment = True"
| "is_node_test C_kind_text = True"
| "is_node_test C_kind_pi = True"
| "is_node_test C_kind_doc = True"
| "is_node_test C_kind_elem = True"
| "is_node_test C_kind_attr = True"
| "is_node_test t = False"

fun name_test_ns :: "cnode \<Rightarrow> string option" where
  "name_test_ns (C_namet q) =
     (case uri (qn_ns q) of None \<Rightarrow> Some [] | Some n \<Rightarrow> if n = ''*'' then None else Some n)"
| "name_test_ns t = None"

fun name_test_loc :: "cnode \<Rightarrow> string option" where
  "name_test_loc (C_namet q) =
     (case qn_loc q of None \<Rightarrow> None | Some l \<Rightarrow> if l = ''*'' then None else Some l)"
| "name_test_loc t = None"

text \<open>
  Scope ids along the tree. \<open>for_ids_above src anc c\<close>: every \<open>for\<close> node of \<open>c\<close> has a
  scope id above those of \<open>anc\<close> and of the \<open>for\<close> nodes of \<open>c\<close> that are its ancestors
  and count. A \<open>for\<close> node always counts for the nodes of its body (\<open>child[3]\<close>); it
  counts for the nodes of its source expression (\<open>child[2]\<close>) when \<open>src\<close> is true.
\<close>

fun for_ids_above :: "bool \<Rightarrow> int list \<Rightarrow> cnode \<Rightarrow> bool"
  and for_ids_above_children :: "bool \<Rightarrow> int list \<Rightarrow> cnode list \<Rightarrow> bool"
where
  "for_ids_above src anc (C_for n v p c2 c3) =
     (list_all (\<lambda>a. a < n) anc
      \<and> for_ids_above src (if src then n # anc else anc) c2
      \<and> for_ids_above src (n # anc) c3)"
| "for_ids_above src anc (C_let v c1 c2) = (for_ids_above src anc c1 \<and> for_ids_above src anc c2)"
| "for_ids_above src anc (C_seq c0 c1) = (for_ids_above src anc c0 \<and> for_ids_above src anc c1)"
| "for_ids_above src anc (C_ifthenelse c0 c1 c2) =
     (for_ids_above src anc c0 \<and> for_ids_above src anc c1 \<and> for_ids_above src anc c2)"
| "for_ids_above src anc (C_locsteps c0 c1) = (for_ids_above src anc c0 \<and> for_ids_above src anc c1)"
| "for_ids_above src anc (C_step a c0) = for_ids_above src anc c0"
| "for_ids_above src anc (C_elem c0 c1) = (for_ids_above src anc c0 \<and> for_ids_above src anc c1)"
| "for_ids_above src anc (C_attr c0 c1) = (for_ids_above src anc c0 \<and> for_ids_above src anc c1)"
| "for_ids_above src anc (C_text c0) = for_ids_above src anc c0"
| "for_ids_above src anc (C_seqcast t c1) = for_ids_above src anc c1"
| "for_ids_above src anc (C_apply q c0) = for_ids_above src anc c0"
| "for_ids_above src anc (C_arg c0 c1) = (for_ids_above src anc c0 \<and> for_ids_above src anc c1)"
| "for_ids_above src anc (C_other k cs) = for_ids_above_children src anc cs"
| "for_ids_above src anc c = True"
| "for_ids_above_children src anc [] = True"
| "for_ids_above_children src anc (c # cs) =
     (for_ids_above src anc c \<and> for_ids_above_children src anc cs)"

text \<open>
  The usage relation as the documentation of \<open>update_expansion\<close> describes it: for a
  reference to a variable, one pair of the variable's id with each scope id between the
  definition of the variable and the reference. \<open>env v\<close> lists the scopes that were
  opened since \<open>v\<close> was bound, the innermost first: a \<open>for\<close> node adds its scope to every
  variable bound outside it and binds its own variables inside that scope, a \<open>let\<close> node
  binds its variable for its body.
\<close>

fun usage_spec :: "var_store \<Rightarrow> (var_ref \<Rightarrow> int list) \<Rightarrow> cnode \<Rightarrow> (int \<times> int) list"
  and usage_spec_children :: "var_store \<Rightarrow> (var_ref \<Rightarrow> int list) \<Rightarrow> cnode list \<Rightarrow> (int \<times> int) list"
where
  "usage_spec vars env (C_var v) = map (\<lambda>s. (vid (vars v), s)) (env v)"
| "usage_spec vars env (C_for n v p c2 c3) =
     usage_spec vars env c2
     @ usage_spec vars
         (let env = (\<lambda>w. n # env w);
              env = env(v := []);
              env = (case p of Some pv \<Rightarrow> env(pv := []) | None \<Rightarrow> env)
          in env) c3"
| "usage_spec vars env (C_let v c1 c2) =
     usage_spec vars env c1 @ usage_spec vars (env(v := [])) c2"
| "usage_spec vars env (C_seq c0 c1) = usage_spec vars env c0 @ usage_spec vars env c1"
| "usage_spec vars env (C_ifthenelse c0 c1 c2) =
     usage_spec vars env c0 @ usage_spec vars env c1 @ usage_spec vars env c2"
| "usage_spec vars env (C_locsteps c0 c1) = usage_spec vars env c0 @ usage_spec vars env c1"
| "usage_spec vars env (C_step a c0) = usage_spec vars env c0"
| "usage_spec vars env (C_elem c0 c1) = usage_spec vars env c0 @ usage_spec vars env c1"
| "usage_spec vars env (C_attr c0 c1) = usage_spec vars env c0 @ usage_spec vars env c1"
| "usage_spec vars env (C_text c0) = usage_spec vars env c0"
| "usage_spec vars env (C_seqcast t c1) = usage_spec vars env c1"
| "usage_spec vars env (C_apply q c0) = usage_spec vars env c0"
| "usage_spec vars env (C_arg c0 c1) = usage_spec vars env c0 @ usage_spec vars env c1"
| "usage_spec vars env (C_other k cs) = usage_spec_children vars env cs"
| "usage_spec vars env c = []"
| "usage_spec_children vars env [] = []"
| "usage_spec_children vars env (c # cs) =
     usage_spec vars env c @ usage_spec_children vars env cs"

text \<open>
  The table after the statements printed by \<open>var_usage_sort\<close> have run: \<open>unique\<close> keeps
  one copy of each pair, then the rows are sorted by scope id and, among equal scope ids,
  by variable id (the sort is stable). Rows are pairs (variable id, scope id).
\<close>

definition var_usage_sorted :: "(int \<times> int) list \<Rightarrow> (int \<times> int) list" where
  "var_usage_sorted var_usage = sort_key snd (sort_key fst (remdups var_usage))"

text \<open>\<open>for $x in () return let $y := () return $y\<close>, with \<open>$x\<close> at address 0 and
  \<open>$y\<close> at address 1.\<close>

definition for_let_var :: cnode where
  "for_let_var = C_for 0 0 None C_empty (C_let 1 C_empty (C_var 1))"

section \<open>The emitted program\<close>

subsection \<open>Columns and the operations on them\<close>

text \<open>
  Modelled from the spec: the column-algebra language of the execution engine. The
  printer only writes calls of its operations (\<open>reverse\<close>, \<open>mark\<close>, \<open>leftjoin\<close>, ...);
  their implementation belongs to the engine and is not among the sources of the
  printer. Each operation used by the program text examined below is given here the
  meaning it has in the engine's language, on columns represented as the list of their
  rows in storage order.

  A column (a binary table) is a list of rows (head, tail). Object ids (\<open>0@0\<close>, \<open>1@0\<close>,
  ...) are natural numbers. A column with a dense head (\<open>void\<close> with \<open>seqbase(0@0)\<close>)
  numbers its rows from 0: \<open>void ts\<close> is that column with the tails \<open>ts\<close>. The
  intermediate result of an expression is made of such columns \<open>iter\<close>, \<open>pos\<close>, \<open>item\<close>
  and \<open>kind\<close>, row \<open>n\<close> of each describing the same item.
\<close>

type_synonym oid = nat
type_synonym ('h, 't) bat = "('h \<times> 't) list"

definition void :: "'t list \<Rightarrow> (oid, 't) bat" where
  "void ts = zip [0..<length ts] ts"

text \<open>
  Modelled from the spec: the kind of an item, the tail type of the column \<open>kind\<close>. The
  constants \<open>STR\<close>, \<open>INT\<close>, \<open>DBL\<close>, \<open>DEC\<close>, \<open>BOOL\<close>, \<open>QNAME\<close> are defined by the
  engine's module, not by the printer; the kind of a node or of an attribute also carries
  the fragment the node lives in (\<open>set_kind\<close>, \<open>get_fragment\<close>, \<open>get_type\<close>).
\<close>

datatype kind = kSTR | kINT | kDBL | kDEC | kBOOL | kQNAME | kNODE nat | kATTR nat

text \<open>
  Modelled from the spec: \<open>b.reverse\<close> swaps head and tail; \<open>b.mirror\<close> copies the head
  into the tail; \<open>b.mark(s)\<close> replaces the tails by the object ids from \<open>s\<close> upwards;
  \<open>b.project(v)\<close> replaces every tail by \<open>v\<close>; \<open>b.count\<close> is the number of rows and
  \<open>b.sum\<close> the sum of the tails (0 for a column without rows).
\<close>

definition mil_reverse :: "('h, 't) bat \<Rightarrow> ('t, 'h) bat" where
  "mil_reverse b = map (\<lambda>(h, t). (t, h)) b"

definition mil_mirror :: "('h, 't) bat \<Rightarrow> ('h, 'h) bat" where
  "mil_mirror b = map (\<lambda>(h, t). (h, h)) b"

definition mil_mark :: "('h, 't) bat \<Rightarrow> oid \<Rightarrow> ('h, oid) bat" where
  "mil_mark b seqbase = zip (map fst b) [seqbase..<seqbase + length b]"

definition mil_project :: "('h, 't) bat \<Rightarrow> 'v \<Rightarrow> ('h, 'v) bat" where
  "mil_project b v = map (\<lambda>(h, t). (h, v)) b"

definition mil_count :: "('h, 't) bat \<Rightarrow> int" where
  "mil_count b = int (length b)"

definition mil_sum :: "('h, int) bat \<Rightarrow> int" where
  "mil_sum b = sum_list (map snd b)"

text \<open>
  Modelled from the spec: \<open>b.tunique\<close> has one row for each distinct tail of \<open>b\<close>, that
  tail as its head; \<open>b.ord_uselect(v)\<close> keeps the rows of \<open>b\<close> whose tail equals \<open>v\<close> (the
  tails of the result carry nothing); \<open>b.[!=](v)\<close> compares every tail with \<open>v\<close>.
\<close>

definition mil_tunique :: "('h, 't) bat \<Rightarrow> ('t, unit) bat" where
  "mil_tunique b = map (\<lambda>t. (t, ())) (remdups (map snd b))"

definition mil_ord_uselect :: "('h, 't) bat \<Rightarrow> 't \<Rightarrow> ('h, unit) bat" where
  "mil_ord_uselect b v = map (\<lambda>(h, t). (h, ())) (filter (\<lambda>(h, t). t = v) b)"

definition mil_neq :: "('h, 't) bat \<Rightarrow> 't \<Rightarrow> ('h, bool) bat" where
  "mil_neq b v = map (\<lambda>(h, t). (h, t \<noteq> v)) b"

text \<open>
  Modelled from the spec: \<open>a.leftjoin(b)\<close> has, for each row (h, m) of \<open>a\<close> in order,
  one row (h, t) for each row (m, t) of \<open>b\<close>; \<open>a.leftfetchjoin(b)\<close> is the same join for
  a \<open>b\<close> with a dense head, where the row is found by its position. \<open>a.kdiff(b)\<close> keeps
  the rows of \<open>a\<close> whose head is not a head of \<open>b\<close>. \<open>{count}(b, e)\<close> has one row for
  each row of \<open>e\<close>, with the same head and the number of rows of \<open>b\<close> with that head as
  its tail. \<open>b.replace(r)\<close> gives the rows of \<open>b\<close> whose head is a head of \<open>r\<close> the
  tail they have in \<open>r\<close>.
\<close>

definition mil_leftjoin :: "('h, 'm) bat \<Rightarrow> ('m, 't) bat \<Rightarrow> ('h, 't) bat" where
  "mil_leftjoin a b = concat (map (\<lambda>(h, m). map (\<lambda>(m', t). (h, t)) (filter (\<lambda>(m', t). m' = m) b)) a)"

definition mil_leftfetchjoin :: "('h, oid) bat \<Rightarrow> (oid, 't) bat \<Rightarrow> ('h, 't) bat" where
  "mil_leftfetchjoin a b = mil_leftjoin a b"

definition mil_kdiff :: "('h, 't) bat \<Rightarrow> ('h, 'u) bat \<Rightarrow> ('h, 't) bat" where
  "mil_kdiff a b = filter (\<lambda>(h, t). h \<notin> fst ` set b) a"

definition mil_grp_count :: "('h, 't) bat \<Rightarrow> ('h, 'u) bat \<Rightarrow> ('h, int) bat" where
  "mil_grp_count b e = map (\<lambda>(h, u). (h, int (length (filter (\<lambda>(h', t). h' = h) b)))) e"

definition mil_replace :: "('h, 't) bat \<Rightarrow> ('h, 't) bat \<Rightarrow> ('h, 't) bat" where
  "mil_replace b r = map (\<lambda>(h, t). case map_of r h of Some v \<Rightarrow> (h, v) | None \<Rightarrow> (h, t)) b"

text \<open>
  Modelled from the spec: \<open>merged_union(k1, k2, v1, v2)\<close> merges the rows of two results
  by their keys: \<open>k1\<close> and \<open>k2\<close> are key columns in ascending order, \<open>v1\<close> and \<open>v2\<close> the
  value columns that go with them; the outcome holds the merged keys (\<open>fetch(0)\<close>) and the
  values in the same order (\<open>fetch(1)\<close>), a row of the first pair before a row of the
  second with the same key.
\<close>

fun merge_by_key :: "(oid \<times> 'v) list \<Rightarrow> (oid \<times> 'v) list \<Rightarrow> (oid \<times> 'v) list" where
  "merge_by_key [] r = r"
| "merge_by_key (a # l) [] = a # l"
| "merge_by_key (a # l) (b # r) =
     (if fst a \<le> fst b then a # merge_by_key l (b # r) else b # merge_by_key (a # l) r)"

definition mil_merged_union ::
  "(oid, oid) bat \<Rightarrow> (oid, oid) bat \<Rightarrow> (oid, 'v) bat \<Rightarrow> (oid, 'v) bat
     \<Rightarrow> (oid, oid) bat \<times> (oid, 'v) bat" where
  "mil_merged_union k1 k2 v1 v2 =
     (let m = merge_by_key (zip (map snd k1) (map snd v1)) (zip (map snd k2) (map snd v2))
      in (void (map fst m), void (map snd m)))"

text \<open>
  Modelled from the spec: \<open>k.get_type(ATTR)\<close> keeps the rows whose kind is that of an
  attribute and \<open>k.get_fragment\<close> replaces every kind by the fragment it carries (the
  working set's own fragment \<open>WS\<close> for the kinds of values). \<open>mposjoin(pos, frag, t)\<close>
  looks every row up in a table \<open>t\<close> that is kept per fragment: the row with position
  \<open>p\<close> and fragment \<open>f\<close> gets the tail that \<open>t.fetch(f)\<close> has at \<open>p\<close>. \<open>CTgroup(b)\<close>
  groups the rows of \<open>b\<close> by their tail and \<open>g.CTgroup(b)\<close> refines the grouping \<open>g\<close> by
  the tails of \<open>b\<close>: two rows are in the same group when they were in \<open>g\<close> and have the
  same tail in \<open>b\<close>. A group is represented here by what its rows have in common.
  A position outside its table is an error of the engine that the model does not
  represent: \<open>!\<close> is only specified inside the table.
\<close>

definition WS :: oid where "WS = 0"

fun is_ATTR :: "kind \<Rightarrow> bool" where
  "is_ATTR (kATTR f) = True"
| "is_ATTR k = False"

definition mil_get_type_ATTR :: "('h, kind) bat \<Rightarrow> ('h, unit) bat" where
  "mil_get_type_ATTR b = map (\<lambda>(h, k). (h, ())) (filter (\<lambda>(h, k). is_ATTR k) b)"

fun fragment_of :: "kind \<Rightarrow> oid" where
  "fragment_of (kNODE f) = f"
| "fragment_of (kATTR f) = f"
| "fragment_of k = WS"

definition mil_get_fragment :: "('h, kind) bat \<Rightarrow> ('h, oid) bat" where
  "mil_get_fragment b = map (\<lambda>(h, k). (h, fragment_of k)) b"

definition mil_mposjoin :: "(oid, oid) bat \<Rightarrow> (oid, oid) bat \<Rightarrow> 'v list list \<Rightarrow> (oid, 'v) bat" where
  "mil_mposjoin pos frag table = map (\<lambda>((h, p), (h', f)). (h, table ! f ! p)) (zip pos frag)"

definition mil_CTgroup :: "('h, 'a) bat \<Rightarrow> ('h, 'a) bat" where
  "mil_CTgroup b = b"

definition mil_CTgroup2 :: "('h, 'g) bat \<Rightarrow> ('h, 'a) bat \<Rightarrow> ('h, 'g \<times> 'a) bat" where
  "mil_CTgroup2 g b = map (\<lambda>((h, gid), (h', a)). (h, (gid, a))) (zip g b)"

text \<open>
  Modelled from the spec: \<open>k.get_type(NODE)\<close> keeps the rows whose kind is that of a
  node. \<open>b.seqbase(s)\<close> numbers the rows of a column with a dense head from \<open>s\<close> on. A
  table of the working set has a dense head from 0 on, and \<open>t.insert(b)\<close> adds the rows of
  \<open>b\<close> to it; the program first numbers the rows of \<open>b\<close> from the count of the table on,
  so that the insertion appends the tails of \<open>b\<close> to the table.
\<close>

fun is_NODE :: "kind \<Rightarrow> bool" where
  "is_NODE (kNODE f) = True"
| "is_NODE k = False"

definition mil_get_type_NODE :: "('h, kind) bat \<Rightarrow> ('h, unit) bat" where
  "mil_get_type_NODE b = map (\<lambda>(h, k). (h, ())) (filter (\<lambda>(h, k). is_NODE k) b)"

definition mil_seqbase :: "(oid, 't) bat \<Rightarrow> oid \<Rightarrow> (oid, 't) bat" where
  "mil_seqbase b s = zip [s..<s + length b] (map snd b)"

definition mil_insert :: "'t list \<Rightarrow> (oid, 't) bat \<Rightarrow> 't list" where
  "mil_insert table b = table @ map snd b"

text \<open>
  Modelled from the spec: \<open>ERROR (...)\<close> stops the program with the message. The
  containers the program of \<open>init\<close> declares: \<open>str_values\<close>, \<open>int_values\<close>, \<open>dbl_values\<close>
  and \<open>dec_values\<close> hold the values that the items of kind \<open>STR\<close>, \<open>INT\<close>, \<open>DBL\<close> and
  \<open>DEC\<close> refer to; a \<open>dbl\<close> is any type with a zero, the value of \<open>dbl(0)\<close>.
  \<open>EMPTY_STRING\<close> and \<open>bool_map\<close> are the constants that \<open>init\<close> prints:
  \<^verbatim>\<open>const EMPTY_STRING := 0@0;\<close> and
  \<^verbatim>\<open>var bool_map := bat(bit,oid).insert(false,0@0).insert(true,1@0);\<close>.
\<close>

datatype mil_error = ERROR string

definition EMPTY_STRING :: oid where "EMPTY_STRING = 0"

definition bool_map :: "(bool, oid) bat" where
  "bool_map = [(False, 0), (True, 1)]"

record 'd value_tables =
  str_values :: "string list"
  int_values :: "int list"
  dbl_values :: "'d list"
  dec_values :: "'d list"

text \<open>
  Modelled from the spec: the tables of the working set that describe attributes, each
  kept per fragment (\<open>ws.fetch(ATTR_QN).fetch(WS)\<close> is the table \<open>ATTR_QN\<close> of the
  fragment \<open>WS\<close>). For the attribute at a position of a fragment, \<open>ATTR_OWN\<close> holds the
  node that owns it (\<open>nil\<close> for an attribute that is not attached), \<open>ATTR_PROP\<close> its
  value, and \<open>ATTR_QN\<close> and \<open>ATTR_FRAG\<close> its name, as a position in the tables \<open>QN_NS\<close>
  and \<open>QN_LOC\<close> of a fragment, which hold the namespace and the local part of the names
  (\<open>print_output\<close> reads an attribute's name this way).
\<close>

record working_set =
  ATTR_OWN :: "oid option list list"
  ATTR_QN :: "oid list list"
  ATTR_PROP :: "oid list list"
  ATTR_FRAG :: "oid list list"
  QN_NS :: "string list list"
  QN_LOC :: "string list list"

subsection \<open>The program of the attribute constructor\<close>

text \<open>
  The first two \<open>fprintf\<close> of \<open>loop_liftedAttrConstr\<close> print the checks of an attribute
  constructor, statement by statement (\<open>iter\<close>, \<open>item\<close>, \<open>kind\<close> hold the content,
  \<open>iter%03u\<close> the iterations of the name result \<open>i\<close>, \<open>loop%03u\<close> the iterations of the
  level \<open>act_level\<close>):

  \<^verbatim>\<open>var test := iter.tunique;\<close>
  \<^verbatim>\<open>if (test.count != kind.ord_uselect(STR).count)\<close>
  \<^verbatim>\<open>    ERROR ("there can be only one string for each iter in attribute construction");\<close>
  \<^verbatim>\<open>test := {count}(iter.reverse,test);\<close>
  \<^verbatim>\<open>if (test.count != test.sum)\<close>
  \<^verbatim>\<open>    ERROR ("more than 1 argument in attribute constructor");\<close>
  \<^verbatim>\<open>if (iter%03u.count != loop%03u.count)\<close>
  \<^verbatim>\<open>    ERROR ("empty tagname is not allowed in attribute construction");\<close>
  \<^verbatim>\<open>if (iter.count != loop%03u.count)\<close>
  \<^verbatim>\<open>{\<close>
  \<^verbatim>\<open>var difference := loop%03u.reverse.kdiff(iter.reverse);\<close>
  \<^verbatim>\<open>difference := difference.mark(0@0).reverse;\<close>
  \<^verbatim>\<open>var res_mu := merged_union(iter, difference, item, difference.project(EMPTY_STRING));\<close>
  \<^verbatim>\<open>item := res_mu.fetch(1);\<close>
  \<^verbatim>\<open>}\<close>

  \<open>loop_liftedAttrConstr_mil\<close> is what these statements compute: the error that stops
  the program, or the column \<open>item\<close> that the rest of the constructor goes on with.
\<close>

definition loop_liftedAttrConstr_mil ::
  "(oid, oid) bat \<Rightarrow> (oid, oid) bat \<Rightarrow> (oid, kind) bat \<Rightarrow> (oid, oid) bat \<Rightarrow> (oid, oid) bat
     \<Rightarrow> mil_error + (oid, oid) bat" where
  "loop_liftedAttrConstr_mil iter item kind iter_i loop =
    (let test = mil_tunique iter in
     if mil_count test \<noteq> mil_count (mil_ord_uselect kind kSTR) then
       Inl (ERROR ''there can be only one string for each iter in attribute construction'')
     else
       let test = mil_grp_count (mil_reverse iter) test in
       if mil_count test \<noteq> mil_sum test then
         Inl (ERROR ''more than 1 argument in attribute constructor'')
       else if mil_count iter_i \<noteq> mil_count loop then
         Inl (ERROR ''empty tagname is not allowed in attribute construction'')
       else if mil_count iter \<noteq> mil_count loop then
         (let difference = mil_kdiff (mil_reverse loop) (mil_reverse iter);
              difference = mil_reverse (mil_mark difference 0);
              res_mu = mil_merged_union iter difference item (mil_project difference EMPTY_STRING);
              item = snd res_mu
          in Inr item)
       else Inr item)"

subsection \<open>The program of the element constructor\<close>

text \<open>
  \<open>loop_liftedElemConstr\<close> prints the statements that select the attributes of the
  content (\<open>iter\<close>, \<open>item\<close>, \<open>kind\<close>) and test its kinds

  \<^verbatim>\<open>var attr := kind.get_type(ATTR).mark(0@0).reverse;\<close>
  \<^verbatim>\<open>var attr_iter := attr.leftfetchjoin(iter);\<close>
  \<^verbatim>\<open>var attr_item := attr.leftfetchjoin(item);\<close>
  \<^verbatim>\<open>var attr_frag := attr.leftfetchjoin(kind).get_fragment;\<close>
  \<^verbatim>\<open>if (kind.count != (kind.get_type(NODE).count + kind.get_type(ATTR).count))\<close>
  \<^verbatim>\<open>    ERROR ("there can be only nodes and attributes in element construction");\<close>

  then the statements that build the new elements and copy the subtrees of the content
  into the working set, which stop with no error and leave the new elements, one for
  each row of the name result \<open>iter%03u\<close>, \<open>item%03u\<close>, in the column \<open>roots\<close>. Then it
  prints the test that the attributes of a new element are unique

  \<^verbatim>\<open>var unq_attrs := CTgroup(attr_iter)\<close>
  \<^verbatim>\<open>    .CTgroup(mposjoin(attr_item, attr_frag, ws.fetch(ATTR_QN)))\<close>
  \<^verbatim>\<open>    .CTgroup(mposjoin(attr_item, attr_frag, ws.fetch(ATTR_FRAG))).tunique;\<close>
  \<^verbatim>\<open>if (unq_attrs.count != attr_iter.count)\<close>
  \<^verbatim>\<open>{\<close>
  \<^verbatim>\<open>   if (item%03u.count > 0)\<close>
  \<^verbatim>\<open>      ERROR ("attributes are not unique in element construction of '%s' within each iter",\<close>
  \<^verbatim>\<open>             item%03u.leftfetchjoin(ws.fetch(QN_LOC).fetch(WS)).fetch(0));\<close>
  \<^verbatim>\<open>   else\<close>
  \<^verbatim>\<open>     ERROR ("attributes are not unique in element construction within each iter");\<close>
  \<^verbatim>\<open>}\<close>

  and the statements that attach a copy of each attribute to the new element of its
  iteration

  \<^verbatim>\<open>var seqb := oid(ws.fetch(ATTR_QN).fetch(WS).count);\<close>
  \<^verbatim>\<open>var attr_qn := mposjoin(attr_item, attr_frag, ws.fetch(ATTR_QN));\<close>
  \<^verbatim>\<open>attr_qn.seqbase(seqb);\<close>
  \<^verbatim>\<open>var attr_oid := mposjoin(attr_item, attr_frag, ws.fetch(ATTR_PROP));\<close>
  \<^verbatim>\<open>attr_oid.seqbase(seqb);\<close>
  \<^verbatim>\<open>var attr_own := iter%03u.reverse.leftfetchjoin(roots);\<close>
  \<^verbatim>\<open>attr_own := attr_iter.leftjoin(attr_own);\<close>
  \<^verbatim>\<open>attr_own := attr_own.reverse.mark(seqb).reverse;\<close>
  \<^verbatim>\<open>attr_frag.seqbase(seqb);\<close>
  \<^verbatim>\<open>ws.fetch(ATTR_QN).fetch(WS).insert(attr_qn);\<close>
  \<^verbatim>\<open>ws.fetch(ATTR_PROP).fetch(WS).insert(attr_oid);\<close>
  \<^verbatim>\<open>ws.fetch(ATTR_OWN).fetch(WS).insert(attr_own);\<close>
  \<^verbatim>\<open>ws.fetch(ATTR_FRAG).fetch(WS).insert(attr_frag);\<close>

  \<open>loop_liftedElemConstr_attrs\<close> is what these three groups of statements compute: the
  error that stops the program, or the working set with the attributes attached. The
  statements between the first and the second group are not modelled; what the second
  and third group read of their outcome are parameters: \<open>ws\<close> is the working set as
  they leave it and \<open>roots\<close> the column of the new elements. They assign nothing to
  \<open>attr_iter\<close>, \<open>attr_item\<close> or \<open>attr_frag\<close>.
\<close>

definition loop_liftedElemConstr_attrs ::
  "working_set \<Rightarrow> (oid, oid) bat \<Rightarrow> (oid, oid) bat \<Rightarrow> (oid, kind) bat
     \<Rightarrow> (oid, oid) bat \<Rightarrow> (oid, oid) bat \<Rightarrow> (oid, oid) bat \<Rightarrow> mil_error + working_set" where
  "loop_liftedElemConstr_attrs ws iter item kind iter_i item_i roots =
    (let attr = mil_reverse (mil_mark (mil_get_type_ATTR kind) 0);
         attr_iter = mil_leftfetchjoin attr iter;
         attr_item = mil_leftfetchjoin attr item;
         attr_frag = mil_get_fragment (mil_leftfetchjoin attr kind)
     in
     if mil_count kind \<noteq> mil_count (mil_get_type_NODE kind) + mil_count (mil_get_type_ATTR kind) then
       Inl (ERROR ''there can be only nodes and attributes in element construction'')
     else
       let unq_attrs = mil_tunique
             (mil_CTgroup2
                (mil_CTgroup2 (mil_CTgroup attr_iter)
                   (mil_mposjoin attr_item attr_frag (ATTR_QN ws)))
                (mil_mposjoin attr_item attr_frag (ATTR_FRAG ws)))
       in
       if mil_count unq_attrs \<noteq> mil_count attr_iter then
         (if mil_count item_i > 0 then
            Inl (ERROR (''attributes are not unique in element construction of '' @ [CHR 0x27]
                   @ snd (hd (mil_leftfetchjoin item_i (void (QN_LOC ws ! WS))))
                   @ [CHR 0x27] @ '' within each iter''))
          else
            Inl (ERROR ''attributes are not unique in element construction within each iter''))
       else
         let seqb = length (ATTR_QN ws ! WS);
             attr_qn = mil_mposjoin attr_item attr_frag (ATTR_QN ws);
             attr_qn = mil_seqbase attr_qn seqb;
             attr_oid = mil_mposjoin attr_item attr_frag (ATTR_PROP ws);
             attr_oid = mil_seqbase attr_oid seqb;
             attr_own = mil_leftfetchjoin (mil_reverse iter_i) roots;
             attr_own = mil_leftjoin attr_iter attr_own;
             attr_own = mil_reverse (mil_mark (mil_reverse attr_own) seqb);
             attr_frag = mil_seqbase attr_frag seqb;
             ws = ws\<lparr>ATTR_QN := (ATTR_QN ws)[WS := mil_insert (ATTR_QN ws ! WS) attr_qn]\<rparr>;
             ws = ws\<lparr>ATTR_PROP := (ATTR_PROP ws)[WS := mil_insert (ATTR_PROP ws ! WS) attr_oid]\<rparr>;
             ws = ws\<lparr>ATTR_OWN := (ATTR_OWN ws)
                       [WS := mil_insert (ATTR_OWN ws ! WS) (map (\<lambda>(h, t). (h, Some t)) attr_own)]\<rparr>;
             ws = ws\<lparr>ATTR_FRAG := (ATTR_FRAG ws)[WS := mil_insert (ATTR_FRAG ws ! WS) attr_frag]\<rparr>
         in Inr ws)"

subsection \<open>The program of \<open>fn:boolean\<close>\<close>

text \<open>
  After the program of its argument, \<open>translateFunction\<close> prints for \<open>fn:boolean\<close> the
  statements below (\<open>fn_boolean\<close> above is the printing); \<open>fn_boolean_mil\<close> is what they
  compute from the result \<open>iter\<close>, \<open>item\<close>, \<open>kind\<close> of the argument and the iterations
  \<open>loop%03u\<close> of the level: the new \<open>iter\<close>, \<open>pos\<close>, \<open>item\<close> and \<open>kind\<close>. There is one
  line of the definition for each statement that computes a column, in the order of the
  program; \<open>access(BAT_WRITE)\<close> and the assignments of \<open>nil\<close> compute nothing.

  \<^verbatim>\<open>iter := iter.reverse;\<close>
  \<^verbatim>\<open>var iter_count := {count}(iter,loop%03u.reverse);\<close>
  \<^verbatim>\<open>var test := iter_count.ord_uselect(1);\<close>
  \<^verbatim>\<open>var trues := iter_count.[!=](0);\<close>
  \<^verbatim>\<open>item := iter.leftfetchjoin(item);\<close>
  \<^verbatim>\<open>kind := iter.leftfetchjoin(kind);\<close>
  \<^verbatim>\<open>test := test.mirror;\<close>
  \<^verbatim>\<open>test := test.leftjoin(kind);\<close>
  \<^verbatim>\<open>var str_test := test.ord_uselect(STR);\<close> (and \<open>INT\<close>, \<open>DBL\<close>, \<open>DEC\<close>, \<open>BOOL\<close>)
  \<^verbatim>\<open>str_test := str_test.mirror;\<close> (and the other four)
  \<^verbatim>\<open>str_test := str_test.leftjoin(item);\<close> (and the other four)
  \<^verbatim>\<open>str_test := str_test.leftfetchjoin(str_values);\<close> (and \<open>int\<close>, \<open>dec\<close>, \<open>dbl\<close>)
  \<^verbatim>\<open>bool_test := bool_test.ord_uselect(0@0);\<close>
  \<^verbatim>\<open>str_test := str_test.ord_uselect("");\<close>
  \<^verbatim>\<open>int_test := int_test.ord_uselect(0);\<close>
  \<^verbatim>\<open>dec_test := dec_test.ord_uselect(dbl(0));\<close>
  \<^verbatim>\<open>dbl_test := dbl_test.ord_uselect(dbl(0));\<close>
  \<^verbatim>\<open>str_test := str_test.project(false);\<close> (and the other four)
  \<^verbatim>\<open>trues.replace(str_test);\<close> (then \<open>int\<close>, \<open>dec\<close>, \<open>dbl\<close>, \<open>bool\<close>)
  \<^verbatim>\<open>trues := trues.leftjoin(bool_map);\<close>
  \<^verbatim>\<open>iter := trues.mark(0@0).reverse;\<close>
  \<^verbatim>\<open>pos := iter.project(1@0);\<close>
  \<^verbatim>\<open>item := trues.reverse.mark(0@0).reverse;\<close>
  \<^verbatim>\<open>kind := iter.project(BOOL);\<close>
\<close>

definition fn_boolean_mil ::
  "('d :: zero) value_tables \<Rightarrow> (oid, oid) bat \<Rightarrow> (oid, oid) bat \<Rightarrow> (oid, kind) bat \<Rightarrow> (oid, oid) bat
     \<Rightarrow> (oid, oid) bat \<times> (oid, oid) bat \<times> (oid, oid) bat \<times> (oid, kind) bat" where
  "fn_boolean_mil V iter item kind loop =
    (let iter = mil_reverse iter;
         iter_count = mil_grp_count iter (mil_reverse loop);
         test = mil_ord_uselect iter_count 1;
         trues = mil_neq iter_count 0;
         item = mil_leftfetchjoin iter item;
         kind = mil_leftfetchjoin iter kind;
         test = mil_mirror test;
         test = mil_leftjoin test kind;
         str_test = mil_ord_uselect test kSTR;
         int_test = mil_ord_uselect test kINT;
         dbl_test = mil_ord_uselect test kDBL;
         dec_test = mil_ord_uselect test kDEC;
         bool_test = mil_ord_uselect test kBOOL;
         str_test = mil_mirror str_test;
         int_test = mil_mirror int_test;
         dbl_test = mil_mirror dbl_test;
         dec_test = mil_mirror dec_test;
         bool_test = mil_mirror bool_test;
         str_test = mil_leftjoin str_test item;
         int_test = mil_leftjoin int_test item;
         dec_test = mil_leftjoin dec_test item;
         dbl_test = mil_leftjoin dbl_test item;
         bool_test = mil_leftjoin bool_test item;
         str_test = mil_leftfetchjoin str_test (void (str_values V));
         int_test = mil_leftfetchjoin int_test (void (int_values V));
         dec_test = mil_leftfetchjoin dec_test (void (dec_values V));
         dbl_test = mil_leftfetchjoin dbl_test (void (dbl_values V));
         bool_test = mil_ord_uselect bool_test 0;
         str_test = mil_ord_uselect str_test [];
         int_test = mil_ord_uselect int_test 0;
         dec_test = mil_ord_uselect dec_test 0;
         dbl_test = mil_ord_uselect dbl_test 0;
         str_test = mil_project str_test False;
         int_test = mil_project int_test False;
         dec_test = mil_project dec_test False;
         dbl_test = mil_project dbl_test False;
         bool_test = mil_project bool_test False;
         trues = mil_replace trues str_test;
         trues = mil_replace trues int_test;
         trues = mil_replace trues dec_test;
         trues = mil_replace trues dbl_test;
         trues = mil_replace trues bool_test;
         trues = mil_leftjoin trues bool_map;
         iter = mil_reverse (mil_mark trues 0);
         pos = mil_project iter (1 :: oid);
         item = mil_reverse (mil_mark (mil_reverse trues) 0);
         kind = mil_project iter kBOOL
     in (iter, pos, item, kind))"

subsection \<open>Notions used to state the properties of the emitted program\<close>

text \<open>
  An intermediate result as the list of its rows (iteration, item, kind), and the three
  columns of it that the programs read.
\<close>

definition iter_of :: "(oid \<times> oid \<times> kind) list \<Rightarrow> (oid, oid) bat" where
  "iter_of rows = void (map (\<lambda>(i, it, k). i) rows)"

definition item_of :: "(oid \<times> oid \<times> kind) list \<Rightarrow> (oid, oid) bat" where
  "item_of rows = void (map (\<lambda>(i, it, k). it) rows)"

definition kind_of :: "(oid \<times> oid \<times> kind) list \<Rightarrow> (oid, kind) bat" where
  "kind_of rows = void (map (\<lambda>(i, it, k). k) rows)"

text \<open>
  The string an attribute constructor goes on with for an iteration: the item of the
  content result for the iteration, or the empty string when there is none.
\<close>

definition content_or_empty :: "(oid \<times> oid \<times> kind) list \<Rightarrow> oid \<Rightarrow> oid" where
  "content_or_empty rows i =
     (case map_of (map (\<lambda>(i, it, k). (i, it)) rows) i of Some it \<Rightarrow> it | None \<Rightarrow> EMPTY_STRING)"

text \<open>
  The name of an attribute, given as a row (iteration, item, kind) of a result:
  \<open>qn_ref\<close> is the name as the working set stores it, a position in the name tables
  with the fragment of these tables, and \<open>attr_name\<close> the namespace and local part found
  there. \<open>attr_owner\<close> is the node the attribute is attached to.
\<close>

fun qn_ref :: "working_set \<Rightarrow> oid \<times> oid \<times> kind \<Rightarrow> oid \<times> oid" where
  "qn_ref ws (i, it, k) = (ATTR_QN ws ! fragment_of k ! it, ATTR_FRAG ws ! fragment_of k ! it)"

fun attr_name :: "working_set \<Rightarrow> oid \<times> oid \<times> kind \<Rightarrow> string \<times> string" where
  "attr_name ws r = (case qn_ref ws r of (qn, frag) \<Rightarrow> (QN_NS ws ! frag ! qn, QN_LOC ws ! frag ! qn))"

fun attr_owner :: "working_set \<Rightarrow> oid \<times> oid \<times> kind \<Rightarrow> oid option" where
  "attr_owner ws (i, it, k) = ATTR_OWN ws ! fragment_of k ! it"

text \<open>
  A working set with two fragments that each hold one attribute named \<open>id\<close> (in no
  namespace): the attribute of the fragment \<open>WS\<close> is not attached, as
  \<open>loop_liftedAttrConstr\<close> leaves the attribute it constructs, the attribute of
  fragment 1, a document, belongs to the node 1 of the document. Fragment \<open>WS\<close> also
  holds the name \<open>e\<close>. \<open>two_ids\<close> is a content result with these two attributes in
  iteration 1.
\<close>

definition ws_two_fragments :: working_set where
  "ws_two_fragments =
     \<lparr>ATTR_OWN = [[None], [Some 1]], ATTR_QN = [[0], [0]], ATTR_PROP = [[0], [0]],
      ATTR_FRAG = [[0], [1]],
      QN_NS = [[[], []], [[]]], QN_LOC = [[''id'', ''e''], [''id'']]\<rparr>"

definition two_ids :: "(oid \<times> oid \<times> kind) list" where
  "two_ids = [(1, 0, kATTR 0), (1, 0, kATTR 1)]"

text \<open>
  The effective boolean value of the items of one iteration, as the table of the
  specification gives it: false for no item; for a single item a boolean itself (the
  item \<open>1@0\<close> is \<open>true\<close>), a string unless it is empty, a number unless it is zero, and
  true for an item of any other kind; true for more than one item. \<open>items_of rows i\<close>
  are the items of iteration \<open>i\<close> and \<open>bool_oid\<close> is the item of a boolean.
  \<open>item_in_range\<close>: the item of a row is a position in the container of its kind, and a
  boolean is \<open>0@0\<close> or \<open>1@0\<close>.
\<close>

definition items_of :: "(oid \<times> oid \<times> kind) list \<Rightarrow> oid \<Rightarrow> (oid \<times> kind) list" where
  "items_of rows i = map (\<lambda>(i', it, k). (it, k)) (filter (\<lambda>(i', it, k). i' = i) rows)"

fun single_item_value :: "('d :: zero) value_tables \<Rightarrow> oid \<times> kind \<Rightarrow> bool" where
  "single_item_value V (it, kBOOL) = (it = 1)"
| "single_item_value V (it, kSTR) = (str_values V ! it \<noteq> [])"
| "single_item_value V (it, kINT) = (int_values V ! it \<noteq> 0)"
| "single_item_value V (it, kDBL) = (dbl_values V ! it \<noteq> 0)"
| "single_item_value V (it, kDEC) = (dec_values V ! it \<noteq> 0)"
| "single_item_value V (it, k) = True"

fun effective_boolean_value :: "('d :: zero) value_tables \<Rightarrow> (oid \<times> kind) list \<Rightarrow> bool" where
  "effective_boolean_value V [] = False"
| "effective_boolean_value V [x] = single_item_value V x"
| "effective_boolean_value V (x # y # zs) = True"

definition bool_oid :: "bool \<Rightarrow> oid" where
  "bool_oid b = (if b then 1 else 0)"

fun item_in_range :: "('d :: zero) value_tables \<Rightarrow> oid \<times> oid \<times> kind \<Rightarrow> bool" where
  "item_in_range V (i, it, kBOOL) = (it \<le> 1)"
| "item_in_range V (i, it, kSTR) = (it < length (str_values V))"
| "item_in_range V (i, it, kINT) = (it < length (int_values V))"
| "item_in_range V (i, it, kDBL) = (it < length (dbl_values V))"
| "item_in_range V (i, it, kDEC) = (it < length (dec_values V))"
| "item_in_range V (i, it, k) = True"

text \<open>
  Containers and a result with one iteration for each line of the table: iterations 1
  and 2 hold the integers 0 and 1, 3 and 4 the strings \<open>""\<close> and \<open>"a"\<close>, 5 and 6 the
  doubles 0 and 3, 7 and 8 \<open>false\<close> and \<open>true\<close>, 9 two items, 10 a node, 11 and 12 the
  decimals 0 and 5; no item belongs to iterations 0 and 13.
\<close>

definition values_example :: "int value_tables" where
  "values_example =
     \<lparr>str_values = [[], ''a''], int_values = [0, 1], dbl_values = [0, 3], dec_values = [0, 5]\<rparr>"

definition rows_example :: "(oid \<times> oid \<times> kind) list" where
  "rows_example =
     [(1, 0, kINT), (2, 1, kINT), (3, 0, kSTR), (4, 1, kSTR), (5, 0, kDBL), (6, 1, kDBL),
      (7, 0, kBOOL), (8, 1, kBOOL), (9, 0, kINT), (9, 0, kINT), (10, 0, kNODE 0), (11, 0, kDEC),
      (12, 1, kDEC)]"

section \<open>Properties\<close>

subsection \<open>What the printing functions leave alone\<close>

lemma and_then_simps [simp]:
  "and_then (Inl e) f = Inl e"
  "and_then (Inr io) f = f io"
  by (simp_all add: and_then_def)

lemma fprintf_frame [simp]:
  "std_out (fprintf ps io) = std_out io"
  "slot_log (fprintf ps io) = slot_log io"
  by (simp_all add: fprintf_def)

lemma slot_call_frame [simp]:
  "std_out (slot_call e io) = std_out io"
  "slot_log (slot_call e io) = slot_log io @ [e]"
  by (simp_all add: slot_call_def)

lemma translateEmpty_frame [simp]:
  "std_out (translateEmpty io) = std_out io"
  "slot_log (translateEmpty io) = slot_log io"
  by (simp_all add: translateEmpty_def Let_def split: option.splits)

lemma cleanUpLevel_frame [simp]:
  "std_out (cleanUpLevel l io) = std_out io"
  "slot_log (cleanUpLevel l io) = slot_log io"
  by (simp_all add: cleanUpLevel_def Let_def split: option.splits)

lemma translateVar_frame [simp]:
  "std_out (translateVar vars l v io) = std_out io"
  "slot_log (translateVar vars l v io) = slot_log io"
  by (simp_all add: translateVar_def Let_def split: option.splits)

lemma translateSeq_frame [simp]:
  "std_out (translateSeq i io) = std_out io"
  "slot_log (translateSeq i io) = slot_log io @ [CombineResult i]"
  by (simp_all add: translateSeq_def Let_def slot_call_def fprintf_def)

lemma project_frame [simp]:
  "std_out (project l io) = std_out io"
  "slot_log (project l io) = slot_log io"
  by (simp_all add: project_def Let_def split: option.splits)

lemma getExpanded_frame [simp]:
  "std_out (getExpanded l n io) = std_out io"
  "slot_log (getExpanded l n io) = slot_log io"
  by (simp_all add: getExpanded_def Let_def split: option.splits)

lemma expand_frame [simp]:
  "std_out (expand l io) = std_out io"
  "slot_log (expand l io) = slot_log io"
  by (simp_all add: expand_def Let_def split: option.splits)

lemma join_frame [simp]:
  "std_out (join l io) = std_out io"
  "slot_log (join l io) = slot_log io"
  by (simp_all add: join_def Let_def split: option.splits)

lemma mapBack_frame [simp]:
  "std_out (mapBack l io) = std_out io"
  "slot_log (mapBack l io) = slot_log io"
  by (simp_all add: mapBack_def Let_def split: option.splits)

lemma createNewVarTable_frame [simp]:
  "std_out (createNewVarTable l io) = std_out io"
  "slot_log (createNewVarTable l io) = slot_log io"
  by (simp_all add: createNewVarTable_def Let_def split: option.splits)

lemma append_mil_frame [simp]:
  "std_out (append_mil n l io) = std_out io"
  "slot_log (append_mil n l io) = slot_log io"
  by (simp_all add: append_mil_def Let_def split: option.splits)

lemma insertVar_frame [simp]:
  "std_out (insertVar l n io) = std_out io"
  "slot_log (insertVar l n io) = slot_log io"
  by (simp_all add: insertVar_def Let_def split: option.splits)

lemma translateConst_frame [simp]:
  "std_out (translateConst l k io) = std_out io"
  "slot_log (translateConst l k io) = slot_log io"
  by (simp_all add: translateConst_def Let_def split: option.splits)

lemma addValues_frame [simp]:
  "std_out (addValues t v io) = std_out io"
  "slot_log (addValues t v io) = slot_log io"
  by (simp_all add: addValues_def Let_def split: option.splits)

lemma createEnumeration_frame [simp]:
  "std_out (createEnumeration io) = std_out io"
  "slot_log (createEnumeration io) = slot_log io"
  by (simp_all add: createEnumeration_def Let_def split: option.splits)

lemma castQName_frame [simp]:
  "std_out (castQName io) = std_out io"
  "slot_log (castQName io) = slot_log io"
  by (simp_all add: castQName_def Let_def split: option.splits)

lemma loop_liftedElemConstr_frame [simp]:
  "std_out (loop_liftedElemConstr i io) = std_out io"
  "slot_log (loop_liftedElemConstr i io) = slot_log io @ [CombineResult i]"
  by (simp_all add: loop_liftedElemConstr_def Let_def slot_call_def fprintf_def)

lemma loop_liftedAttrConstr_frame [simp]:
  "std_out (loop_liftedAttrConstr l i io) = std_out io"
  "slot_log (loop_liftedAttrConstr l i io) = slot_log io @ [CombineResult i]"
  by (simp_all add: loop_liftedAttrConstr_def Let_def slot_call_def fprintf_def)

lemma loop_liftedTextConstr_frame [simp]:
  "std_out (loop_liftedTextConstr io) = std_out io"
  "slot_log (loop_liftedTextConstr io) = slot_log io"
  by (simp_all add: loop_liftedTextConstr_def Let_def split: option.splits)

lemma loop_liftedSCJ_frame [simp]:
  "std_out (loop_liftedSCJ a k n l io) = std_out io"
  "slot_log (loop_liftedSCJ a k n l io) = slot_log io"
  by (simp_all add: loop_liftedSCJ_def Let_def split: option.splits)

lemma fn_doc_frame [simp]:
  "std_out (fn_doc io) = std_out io"
  "slot_log (fn_doc io) = slot_log io"
  by (simp_all add: fn_doc_def Let_def split: option.splits)

lemma fn_distinct_doc_order_frame [simp]:
  "std_out (fn_distinct_doc_order io) = std_out io"
  "slot_log (fn_distinct_doc_order io) = slot_log io"
  by (simp_all add: fn_distinct_doc_order_def Let_def split: option.splits)

lemma fn_count_frame [simp]:
  "std_out (fn_count l io) = std_out io"
  "slot_log (fn_count l io) = slot_log io"
  by (simp_all add: fn_count_def Let_def split: option.splits)

lemma fn_empty_frame [simp]:
  "std_out (fn_empty l io) = std_out io"
  "slot_log (fn_empty l io) = slot_log io"
  by (simp_all add: fn_empty_def Let_def split: option.splits)

lemma fn_not_frame [simp]:
  "std_out (fn_not io) = std_out io"
  "slot_log (fn_not io) = slot_log io"
  by (simp_all add: fn_not_def Let_def split: option.splits)

lemma fn_boolean_frame [simp]:
  "std_out (fn_boolean l io) = std_out io"
  "slot_log (fn_boolean l io) = slot_log io"
  by (simp_all add: fn_boolean_def Let_def split: option.splits)

lemma translateIfThen_phase1_frame [simp]:
  "std_out (translateIfThen_phase1 l t b io) = std_out io"
  "slot_log (translateIfThen_phase1 l t b io) = slot_log io"
  by (simp_all add: translateIfThen_phase1_def Let_def split: option.splits)

lemma translateIfThen_phase3_frame [simp]:
  "std_out (translateIfThen_phase3 l io) = std_out io"
  "slot_log (translateIfThen_phase3 l io) = slot_log io"
  by (simp_all add: translateIfThen_phase3_def Let_def split: option.splits)

lemma c_for_open_frame [simp]:
  "std_out (c_for_open l n v p io) = std_out io"
  "slot_log (c_for_open l n v p io) = slot_log io"
  by (simp_all add: c_for_open_def Let_def split: option.splits)

lemma c_for_close_frame [simp]:
  "std_out (c_for_close l io) = std_out io"
  "slot_log (c_for_close l io) = slot_log io"
  by (simp_all add: c_for_close_def Let_def split: option.splits)

lemma c_ifthenelse_open_frame [simp]:
  "std_out (c_ifthenelse_open b io) = std_out io"
  "slot_log (c_ifthenelse_open b io) = slot_log io"
  by (simp_all add: c_ifthenelse_open_def Let_def split: option.splits)

lemma c_tag_code_frame [simp]:
  "std_out (c_tag_code l q io) = std_out io"
  "slot_log (c_tag_code l q io) = slot_log io"
  by (simp_all add: c_tag_code_def Let_def split: option.splits)

lemma c_lit_str_code_frame [simp]:
  "std_out (c_lit_str_code L l s io) = std_out io"
  "slot_log (c_lit_str_code L l s io) = slot_log io"
  by (simp_all add: c_lit_str_code_def Let_def split: option.splits)

lemma c_lit_int_code_frame [simp]:
  "std_out (c_lit_int_code l n io) = std_out io"
  "slot_log (c_lit_int_code l n io) = slot_log io"
  by (simp_all add: c_lit_int_code_def Let_def split: option.splits)

lemma c_lit_dec_code_frame [simp]:
  "std_out (c_lit_dec_code L l d io) = std_out io"
  "slot_log (c_lit_dec_code L l d io) = slot_log io"
  by (simp_all add: c_lit_dec_code_def Let_def split: option.splits)

lemma c_lit_dbl_code_frame [simp]:
  "std_out (c_lit_dbl_code L l d io) = std_out io"
  "slot_log (c_lit_dbl_code L l d io) = slot_log io"
  by (simp_all add: c_lit_dbl_code_def Let_def split: option.splits)

lemma c_true_code_frame [simp]:
  "std_out (c_true_code l io) = std_out io"
  "slot_log (c_true_code l io) = slot_log io"
  by (simp_all add: c_true_code_def Let_def split: option.splits)

lemma c_false_code_frame [simp]:
  "std_out (c_false_code l io) = std_out io"
  "slot_log (c_false_code l io) = slot_log io"
  by (simp_all add: c_false_code_def Let_def split: option.splits)

lemma c_root_code_frame [simp]:
  "std_out (c_root_code l io) = std_out io"
  "slot_log (c_root_code l io) = slot_log io"
  by (simp_all add: c_root_code_def Let_def split: option.splits)

lemma saveResult_frame [simp]:
  "std_out (saveResult n io) = std_out io"
  "slot_log (saveResult n io) = slot_log io @ [SaveResult n]"
  by (simp_all add: saveResult_def slot_call_def Let_def)

lemma deleteResult_frame [simp]:
  "std_out (deleteResult n io) = std_out io"
  "slot_log (deleteResult n io) = slot_log io @ [DeleteResult n]"
  by (simp_all add: deleteResult_def slot_call_def Let_def)

lemma c_ifthenelse_close_frame [simp]:
  "std_out (c_ifthenelse_close io) = std_out io @ ''} # end of ifthenelse-translation\<newline>''"
  "slot_log (c_ifthenelse_close io) = slot_log io"
  by (simp_all add: c_ifthenelse_close_def printf_def)

lemma c_seqcast_log_frame [simp]:
  "std_out (c_seqcast_log L t io) = std_out io"
  "slot_log (c_seqcast_log L t io) = slot_log io"
  by (simp_all add: c_seqcast_log_def PFlog_def)

lemma translateLocsteps_frame:
  "translateLocsteps c io = Inr io' \<Longrightarrow> std_out io' = std_out io \<and> slot_log io' = slot_log io"
  by (auto simp: translateLocsteps_def Let_def and_then_def split: cnode.splits sum.splits if_splits)

subsection \<open>Sequences with an empty operand\<close>

text \<open>An empty right operand is dropped: \<open>(X, empty)\<close> is translated as \<open>X\<close>, for every
  \<open>X\<close>.\<close>

lemma c_seq_empty_right:
  "translate2MIL L vars act_level counter (C_seq X C_empty) io
     = translate2MIL L vars act_level counter X io"
  by (cases X) simp_all

text \<open>An empty left operand beside a non-empty right one takes the first branch of the
  \<open>c_seq\<close> case, which prints the empty sequence and never looks at \<open>X\<close>.\<close>

lemma c_seq_empty_left:
  "\<not> is_c_empty X \<Longrightarrow>
   translate2MIL L vars act_level counter (C_seq C_empty X) io = Inr (translateEmpty io)"
  by simp

text \<open>
  C1. The claim: translating \<open>(empty, X)\<close> and translating \<open>(X, empty)\<close> each print what
  translating \<open>X\<close> alone prints. The code does this for \<open>(X, empty)\<close> only. For
  \<open>(empty, true)\<close> it prints the code of the empty sequence, which is not the code of
  \<open>true\<close>.
\<close>

theorem c_seq_empty_left_is_dropped:
  "translate2MIL libs_example vars_example 0 0 (C_seq C_empty C_true) io_empty
     = Inr (translateEmpty io_empty)
   \<and> translate2MIL libs_example vars_example 0 0 (C_seq C_empty C_true) io_empty
     \<noteq> translate2MIL libs_example vars_example 0 0 C_true io_empty"
  by (simp add: translateEmpty_def c_true_code_def translateConst_def fprintf_def Let_def
      io_empty_def)

subsection \<open>The output channels\<close>

text \<open>
  C2. The claim: all the program text is written to the stream \<open>f\<close> and none of it to
  another channel. For \<open>if true then true else ()\<close> the translation starts with an empty
  standard output and ends with the closing line of the if-then-else block on it.
\<close>

theorem c_ifthenelse_writes_to_stdout:
  "(case translate2MIL libs_example vars_example 0 0
           (C_ifthenelse C_true C_true C_empty) io_empty of
      Inl e \<Rightarrow> False
    | Inr io \<Rightarrow> std_out io = ''} # end of ifthenelse-translation\<newline>'')"
  by (simp add: Let_def io_empty_def)

subsection \<open>Function application\<close>

text \<open>
  C8. A function application whose name is none of \<open>fn:doc\<close>, \<open>pf:distinct-doc-order\<close>,
  \<open>fn:count\<close>, \<open>fn:empty\<close>, \<open>fn:not\<close>, \<open>fn:boolean\<close> is translated without an error, and
  its code is the code of the empty sequence.
\<close>

theorem unknown_function_is_empty:
  assumes "PFqname_eq fnQname (PFqname PFns_fn ''doc'') \<noteq> 0"
    and "PFqname_eq fnQname (PFqname PFns_pf ''distinct-doc-order'') \<noteq> 0"
    and "PFqname_eq fnQname (PFqname PFns_fn ''count'') \<noteq> 0"
    and "PFqname_eq fnQname (PFqname PFns_fn ''empty'') \<noteq> 0"
    and "PFqname_eq fnQname (PFqname PFns_fn ''not'') \<noteq> 0"
    and "PFqname_eq fnQname (PFqname PFns_fn ''boolean'') \<noteq> 0"
  shows "translate2MIL L vars act_level counter (C_apply fnQname args) io
           = Inr (translateEmpty io)
       \<and> translate2MIL L vars act_level counter (C_apply fnQname args) io
           = translate2MIL L vars act_level counter C_empty io"
  using assms by (simp add: Let_def)

text \<open>The function \<open>fn:string\<close> with one argument is such an application.\<close>

theorem unknown_function_is_empty_witness:
  "PFqname_eq (PFqname PFns_fn ''string'') (PFqname PFns_fn ''doc'') \<noteq> 0
   \<and> PFqname_eq (PFqname PFns_fn ''string'') (PFqname PFns_pf ''distinct-doc-order'') \<noteq> 0
   \<and> PFqname_eq (PFqname PFns_fn ''string'') (PFqname PFns_fn ''count'') \<noteq> 0
   \<and> PFqname_eq (PFqname PFns_fn ''string'') (PFqname PFns_fn ''empty'') \<noteq> 0
   \<and> PFqname_eq (PFqname PFns_fn ''string'') (PFqname PFns_fn ''not'') \<noteq> 0
   \<and> PFqname_eq (PFqname PFns_fn ''string'') (PFqname PFns_fn ''boolean'') \<noteq> 0
   \<and> translate2MIL libs_example vars_example 0 0
        (C_apply (PFqname PFns_fn ''string'') (C_arg C_true C_nil)) io_empty
       = Inr (translateEmpty io_empty)"
proof -
  let ?q = "PFqname PFns_fn ''string''"
  have h: "PFqname_eq ?q (PFqname PFns_fn ''doc'') \<noteq> 0"
    "PFqname_eq ?q (PFqname PFns_pf ''distinct-doc-order'') \<noteq> 0"
    "PFqname_eq ?q (PFqname PFns_fn ''count'') \<noteq> 0"
    "PFqname_eq ?q (PFqname PFns_fn ''empty'') \<noteq> 0"
    "PFqname_eq ?q (PFqname PFns_fn ''not'') \<noteq> 0"
    "PFqname_eq ?q (PFqname PFns_fn ''boolean'') \<noteq> 0"
    by (simp_all add: PFqname_eq_def PFqname_def)
  from unknown_function_is_empty
         [OF h, of libs_example vars_example 0 0 "C_arg C_true C_nil" io_empty] h
  show ?thesis by blast
qed

subsection \<open>The self axis\<close>

lemma self_step_code:
  assumes "is_node_test t"
  shows "\<exists>io'. translateLocsteps (C_step c_self t) io = Inr io'
           \<and> mil io' = mil io @ locsteps_open @ attribute_axis_open
                 @ attribute_name_test ''QN_NS'' (name_test_ns t)
                 @ attribute_name_test ''QN_LOC'' (name_test_loc t)
                 @ attribute_axis_close @ locsteps_close ''ATTR''
           \<and> std_out io' = std_out io"
proof (cases t)
  case (C_namet q)
  show ?thesis
    unfolding C_namet
    by (cases "name_test_ns (C_namet q)"; cases "name_test_loc (C_namet q)")
      (simp_all add: translateLocsteps_def loop_liftedSCJ_def fprintf_def Let_def locsteps_open_def
         attribute_axis_open_def attribute_axis_close_def locsteps_close_def fmt_s_def)
qed (use assms in \<open>simp_all add: translateLocsteps_def loop_liftedSCJ_def fprintf_def Let_def
       locsteps_open_def attribute_axis_open_def attribute_axis_close_def locsteps_close_def\<close>)

text \<open>
  C10. A step along the self axis does not end in the abort for an illegal axis; its axis
  string is \<open>attribute\<close>, so it is translated exactly as the step along the attribute
  axis with the same node test. What it prints, for every node test, is the code of the
  attribute axis: the attribute step in line, not a call of a staircase join, and the
  result kind derived by \<open>get_kind(ATTR)\<close>, not \<open>get_kind(NODE)\<close>. For anything that
  is not a node test it ends in the abort for an illegal node test.
\<close>

theorem self_step_is_attribute_step:
  "translateLocsteps (C_step c_self t) io = translateLocsteps (C_step c_attribute t) io
   \<and> translateLocsteps (C_step c_self t) io
       \<noteq> Inl (PFoops OOPS_FATAL ''illegal XPath axis in MIL-translation'')
   \<and> (case translateLocsteps (C_step c_self t) io of
         Inl e \<Rightarrow> \<not> is_node_test t \<and> e = PFoops OOPS_FATAL ''illegal node test in MIL-translation''
       | Inr io' \<Rightarrow>
           is_node_test t
           \<and> mil io' = mil io @ locsteps_open @ attribute_axis_open
                 @ attribute_name_test ''QN_NS'' (name_test_ns t)
                 @ attribute_name_test ''QN_LOC'' (name_test_loc t)
                 @ attribute_axis_close @ locsteps_close ''ATTR''
           \<and> std_out io' = std_out io)
   \<and> translate2MIL L vars act_level counter (C_locsteps (C_step c_self t) e) io
       = translate2MIL L vars act_level counter (C_locsteps (C_step c_attribute t) e) io"
proof -
  have 1: "translateLocsteps (C_step c_self t) io' = translateLocsteps (C_step c_attribute t) io'"
    for io'
    by (simp add: translateLocsteps_def)
  have 2: "translateLocsteps (C_step c_self t) io
             \<noteq> Inl (PFoops OOPS_FATAL ''illegal XPath axis in MIL-translation'')"
    by (cases t) (simp_all add: translateLocsteps_def Let_def)
  have 3: "translateLocsteps (C_step c_self t) = translateLocsteps (C_step c_attribute t)"
    by (rule ext) (rule 1)
  have 4: "case translateLocsteps (C_step c_self t) io of
         Inl e \<Rightarrow> \<not> is_node_test t \<and> e = PFoops OOPS_FATAL ''illegal node test in MIL-translation''
       | Inr io' \<Rightarrow>
           is_node_test t
           \<and> mil io' = mil io @ locsteps_open @ attribute_axis_open
                 @ attribute_name_test ''QN_NS'' (name_test_ns t)
                 @ attribute_name_test ''QN_LOC'' (name_test_loc t)
                 @ attribute_axis_close @ locsteps_close ''ATTR''
           \<and> std_out io' = std_out io"
  proof (cases "is_node_test t")
    case True
    from self_step_code [OF this, of io] show ?thesis using True by auto
  next
    case False
    then show ?thesis by (cases t) (simp_all add: translateLocsteps_def Let_def)
  qed
  show ?thesis using 1 2 3 4 by simp
qed

text \<open>The code of \<open>self::node()\<close> and of \<open>self::id\<close> (the name \<open>id\<close> in no namespace).\<close>

theorem self_step_is_attribute_step_witness:
  "(case translateLocsteps (C_step c_self C_kind_node) io_empty of
      Inl e \<Rightarrow> False
    | Inr io' \<Rightarrow>
        mil io' = locsteps_open @ attribute_axis_open @ attribute_axis_close
                    @ ''iter := res_scj.fetch(0);\<newline>''
                    @ ''pos := iter.mark_grp(iter.tunique.project(1@0));\<newline>''
                    @ ''item := res_scj.fetch(1);\<newline>''
                    @ ''kind := res_scj.fetch(2).get_kind(ATTR);\<newline>''
                    @ ''res_scj := nil;\<newline>''
                    @ ''} # end of translateLocsteps (c)\<newline>'')
   \<and> (case translateLocsteps
             (C_step c_self (C_namet \<lparr>qn_ns = \<lparr>prefix = None, uri = None\<rparr>, qn_loc = Some ''id''\<rparr>))
             io_empty of
      Inl e \<Rightarrow> False
    | Inr io' \<Rightarrow>
        mil io' = locsteps_open @ attribute_axis_open
                    @ attribute_name_test ''QN_NS'' (Some [])
                    @ attribute_name_test ''QN_LOC'' (Some ''id'')
                    @ attribute_axis_close @ locsteps_close ''ATTR'')"
  using self_step_is_attribute_step [of C_kind_node io_empty]
    self_step_is_attribute_step
      [of "C_namet \<lparr>qn_ns = \<lparr>prefix = None, uri = None\<rparr>, qn_loc = Some ''id''\<rparr>" io_empty]
  by (simp add: translateLocsteps_def loop_liftedSCJ_def fprintf_def Let_def locsteps_open_def
      attribute_axis_open_def attribute_axis_close_def locsteps_close_def fmt_s_def io_empty_def)

subsection \<open>Saved results\<close>

lemma and_then_Inr:
  "and_then m f = Inr io' \<longleftrightarrow> (\<exists>io1. m = Inr io1 \<and> f io1 = Inr io')"
  by (cases m) simp_all

lemma mark_combined_above:
  "list_all (\<lambda>(m, u). m \<le> c) live \<Longrightarrow> c < n \<Longrightarrow> mark_combined n live = live"
  by (induction live) (auto simp: mark_combined_def)

lemma mark_combined_fst [simp]: "fst ` set (mark_combined n live) = fst ` set live"
  by (force simp: mark_combined_def)

lemma mark_combined_bound [simp]:
  "list_all (\<lambda>(m, u). m \<le> c) (mark_combined n live) = list_all (\<lambda>(m, u). m \<le> c) live"
  by (induction live) (auto simp: mark_combined_def)

lemma mark_combined_idem [simp]:
  "mark_combined n (mark_combined n live) = mark_combined n live"
  by (induction live) (auto simp: mark_combined_def)

lemma mark_combined_Cons:
  "mark_combined n ((m, u) # live) = (m, u \<or> m = n) # mark_combined n live"
  by (simp add: mark_combined_def)

lemma run_slots_append:
  "run_slots (es1 @ es2) live =
     (case run_slots es1 live of None \<Rightarrow> None | Some l \<Rightarrow> run_slots es2 l)"
proof (induction es1 arbitrary: live)
  case Nil
  then show ?case by simp
next
  case (Cons e es1)
  then show ?case by (cases e) (auto split: list.splits)
qed

lemma slots_nested_refl: "slots_nested c l l"
  by (simp add: slots_nested_def)

lemma slots_nested_trans:
  "slots_nested c l1 l2 \<Longrightarrow> slots_nested c l2 l3 \<Longrightarrow> slots_nested c l1 l3"
  by (auto simp: slots_nested_def run_slots_append)

lemma slots_used_trans:
  "slots_used c b l1 l2 \<Longrightarrow> slots_used c b l2 l3 \<Longrightarrow> slots_used c b l1 l3"
  by (auto simp: slots_used_def run_slots_append)

lemma slots_used_I:
  assumes "slots_nested c l l'"
  shows "slots_used c b l (l' @ [CombineResult b])"
  using assms by (auto simp: slots_nested_def slots_used_def run_slots_append)

lemma slots_nested_save_combine_delete:
  assumes "slots_nested (c + 1) (l @ [SaveResult (c + 1)]) l'"
  shows "slots_nested c l (l' @ [CombineResult (c + 1), DeleteResult (c + 1)])"
proof -
  from assms obtain es where l': "l' = (l @ [SaveResult (c + 1)]) @ es"
    and ok: "\<And>live. list_all (\<lambda>(m, u). m \<le> c + 1) live \<Longrightarrow> run_slots es live = Some live"
    by (auto simp: slots_nested_def)
  have "run_slots (SaveResult (c + 1) # es @ [CombineResult (c + 1), DeleteResult (c + 1)]) live
          = Some live"
    if live: "list_all (\<lambda>(m, u). m \<le> c) live" for live
  proof -
    from live have a: "list_all (\<lambda>(m, u). m < c + 1) live"
      and b: "list_all (\<lambda>(m, u). m \<le> c + 1) ((c + 1, False) # live)"
      by (auto simp: list_all_iff)
    from live have m: "mark_combined (c + 1) live = live"
      by (rule mark_combined_above) simp
    show ?thesis using a ok [OF b] m
      by (simp add: run_slots_append mark_combined_Cons)
  qed
  then show ?thesis using l' by (auto simp: slots_nested_def)
qed

lemma slots_used_save_delete:
  assumes "slots_used (c + 1) (c + 1) (l @ [SaveResult (c + 1)]) l'"
  shows "slots_nested c l (l' @ [DeleteResult (c + 1)])"
proof -
  from assms obtain es where l': "l' = (l @ [SaveResult (c + 1)]) @ es"
    and ok: "\<And>live. list_all (\<lambda>(m, u). m \<le> c + 1) live \<Longrightarrow> c + 1 \<in> fst ` set live \<Longrightarrow>
               run_slots es live = Some (mark_combined (c + 1) live)"
    by (auto simp: slots_used_def)
  have "run_slots (SaveResult (c + 1) # es @ [DeleteResult (c + 1)]) live = Some live"
    if live: "list_all (\<lambda>(m, u). m \<le> c) live" for live
  proof -
    from live have a: "list_all (\<lambda>(m, u). m < c + 1) live"
      and b: "list_all (\<lambda>(m, u). m \<le> c + 1) ((c + 1, False) # live)"
      by (auto simp: list_all_iff)
    from live have m: "mark_combined (c + 1) live = live"
      by (rule mark_combined_above) simp
    have "run_slots es ((c + 1, False) # live) = Some (mark_combined (c + 1) ((c + 1, False) # live))"
      by (rule ok [OF b]) simp
    then show ?thesis using a m
      by (simp add: run_slots_append mark_combined_Cons)
  qed
  then show ?thesis using l' by (auto simp: slots_nested_def)
qed

lemma slots_used_inner:
  assumes "slots_used (c + 1) b (l @ [SaveResult (c + 1)]) l'" and "b \<le> c"
  shows "slots_used c b l (l' @ [CombineResult (c + 1), DeleteResult (c + 1)])"
proof -
  from assms obtain es where l': "l' = (l @ [SaveResult (c + 1)]) @ es"
    and ok: "\<And>live. list_all (\<lambda>(m, u). m \<le> c + 1) live \<Longrightarrow> b \<in> fst ` set live \<Longrightarrow>
               run_slots es live = Some (mark_combined b live)"
    by (auto simp: slots_used_def)
  have "run_slots (SaveResult (c + 1) # es @ [CombineResult (c + 1), DeleteResult (c + 1)]) live
          = Some (mark_combined b live)"
    if live: "list_all (\<lambda>(m, u). m \<le> c) live" and b: "b \<in> fst ` set live" for live
  proof -
    from live have a: "list_all (\<lambda>(m, u). m < c + 1) live"
      and b': "list_all (\<lambda>(m, u). m \<le> c + 1) ((c + 1, False) # live)"
      by (auto simp: list_all_iff)
    from live have "list_all (\<lambda>(m, u). m \<le> c) (mark_combined b live)" by simp
    then have m: "mark_combined (c + 1) (mark_combined b live) = mark_combined b live"
      by (rule mark_combined_above) simp
    have "run_slots es ((c + 1, False) # live) = Some (mark_combined b ((c + 1, False) # live))"
      using b by (intro ok [OF b']) simp
    then show ?thesis using a m assms(2)
      by (simp add: run_slots_append mark_combined_Cons)
  qed
  then show ?thesis using l' by (auto simp: slots_used_def)
qed

lemma slots_translate:
  shows "translateFunction L vars lev cnt q args io = Inr io' \<Longrightarrow>
           slots_nested cnt (slot_log io) (slot_log io')"
    and "translateIfThen L vars lev cnt c thn b io = Inr io' \<Longrightarrow>
           slots_used cnt b (slot_log io) (slot_log io')"
    and "translate2MIL L vars lev cnt c io = Inr io' \<Longrightarrow>
           slots_nested cnt (slot_log io) (slot_log io')"
proof (induction L vars lev cnt q args io and L vars lev cnt c thn b io and L vars lev cnt c io
       arbitrary: io' and io' and io'
       rule: translateFunction_translateIfThen_translate2MIL.induct)
  case (1 L vars act_level counter fnQname args io0)
  then show ?case
    by (auto simp: Let_def and_then_Inr slots_nested_refl split: if_splits cnode.splits list.splits)
next
  case (2 L vars act_level0 counter c thn bool_res io0)
  from 2(2) obtain io1 where
    a: "translate2MIL L vars (act_level0 + 1) counter c
          (translateIfThen_phase1 (act_level0 + 1) thn bool_res io0) = Inr io1"
    and b: "io' = slot_call (CombineResult bool_res) (translateIfThen_phase3 (act_level0 + 1) io1)"
    by (auto simp: Let_def and_then_Inr)
  from 2(1) [OF refl refl a] have "slots_nested counter (slot_log io0) (slot_log io1)" by simp
  from slots_used_I [OF this] b show ?case by simp
next
  case (4 L vars act_level counter c0 c1 io0)
  show ?case
  proof (cases "is_c_empty c0 \<or> is_c_empty c1")
    case True
    then show ?thesis using 4 by (auto simp: slots_nested_refl split: if_splits)
  next
    case False
    with 4(5) obtain io1 io2 where
      a: "translate2MIL L vars act_level counter c0 io0 = Inr io1"
      and b: "translate2MIL L vars act_level (counter + 1) c1 (saveResult (counter + 1) io1) = Inr io2"
      and c: "io' = deleteResult (counter + 1) (translateSeq (counter + 1) io2)"
      by (auto simp: Let_def and_then_Inr)
    from 4(3) [OF _ _ _ a] False have "slots_nested counter (slot_log io0) (slot_log io1)" by simp
    moreover from 4(4) [OF _ _ _ refl refl b] False
    have "slots_nested (counter + 1) (slot_log io1 @ [SaveResult (counter + 1)]) (slot_log io2)" by simp
    from slots_nested_save_combine_delete [OF this] c
    have "slots_nested counter (slot_log io1) (slot_log io')" by simp
    ultimately show ?thesis by (rule slots_nested_trans)
  qed
next
  case (5 L vars act_level counter v c1 c2 io0)
  from 5(3) obtain io1 where
    a: "translate2MIL L vars act_level counter c1 io0 = Inr io1"
    and b: "translate2MIL L vars act_level counter c2
              (if used (vars v) then insertVar act_level (vid (vars v)) io1 else io1) = Inr io'"
    by (auto simp: Let_def and_then_Inr)
  from 5(1) [OF a] have "slots_nested counter (slot_log io0) (slot_log io1)" .
  moreover from 5(2) [OF refl b] have "slots_nested counter (slot_log io1) (slot_log io')"
    by (simp split: if_splits)
  ultimately show ?case by (rule slots_nested_trans)
next
  case (6 L vars act_level0 counter num v p c2 c3 io0)
  then show ?case
    by (auto simp: Let_def and_then_Inr intro: slots_nested_trans)
next
  case (7 L vars act_level counter0 c0 c1 c2 io0)
  let ?cnt = "counter0 + 1"
  have fin: "slots_nested counter0 (slot_log io0) (slot_log io')"
    if a: "translate2MIL L vars act_level counter0 c0 io0 = Inr io1"
      and n2: "slots_used ?cnt ?cnt (slot_log io1 @ [SaveResult ?cnt]) (slot_log io2)"
      and c: "io' = deleteResult ?cnt (c_ifthenelse_close io2)" for io1 io2
  proof -
    from 7(1) [OF a] have n1: "slots_nested counter0 (slot_log io0) (slot_log io1)" .
    from slots_used_save_delete [OF n2] c
    have "slots_nested counter0 (slot_log io1) (slot_log io')" by simp
    with n1 show ?thesis by (rule slots_nested_trans)
  qed
  show ?case
  proof (cases "is_c_empty c2")
    case True
    with 7(6) obtain io1 io2 where
      a: "translate2MIL L vars act_level counter0 c0 io0 = Inr io1"
      and b: "translateIfThen L vars act_level ?cnt c1 True ?cnt
                 (c_ifthenelse_open ?cnt (saveResult ?cnt io1)) = Inr io2"
      and c: "io' = deleteResult ?cnt (c_ifthenelse_close io2)"
      by (auto simp: Let_def and_then_Inr)
    from 7(2) [OF refl refl refl refl True b]
    have "slots_used ?cnt ?cnt (slot_log io1 @ [SaveResult ?cnt]) (slot_log io2)" by simp
    with a c show ?thesis by (intro fin)
  next
    case c2: False
    show ?thesis
    proof (cases "is_c_empty c1")
      case True
      with c2 7(6) obtain io1 io2 where
        a: "translate2MIL L vars act_level counter0 c0 io0 = Inr io1"
        and b: "translateIfThen L vars act_level ?cnt c2 False ?cnt
                   (c_ifthenelse_open ?cnt (saveResult ?cnt io1)) = Inr io2"
        and c: "io' = deleteResult ?cnt (c_ifthenelse_close io2)"
        by (auto simp: Let_def and_then_Inr)
      from 7(3) [OF refl refl refl refl c2 True b]
      have "slots_used ?cnt ?cnt (slot_log io1 @ [SaveResult ?cnt]) (slot_log io2)" by simp
      with a c show ?thesis by (intro fin)
    next
      case c1: False
      with c2 7(6) obtain io1 io3 io4 where
        a: "translate2MIL L vars act_level counter0 c0 io0 = Inr io1"
        and d: "translateIfThen L vars act_level ?cnt c1 True ?cnt
              (c_ifthenelse_open ?cnt (saveResult ?cnt io1)) = Inr io3"
        and e: "translateIfThen L vars act_level (?cnt + 1) c2 False ?cnt
              (saveResult (?cnt + 1) io3) = Inr io4"
        and c: "io' = deleteResult ?cnt (c_ifthenelse_close
                  (deleteResult (?cnt + 1) (translateSeq (?cnt + 1) io4)))"
        by (auto simp: Let_def and_then_Inr)
      from 7(4) [OF refl refl refl refl c2 c1 d]
      have "slots_used ?cnt ?cnt (slot_log io1 @ [SaveResult ?cnt]) (slot_log io3)" by simp
      moreover from 7(5) [OF refl refl refl refl c2 c1 refl refl e]
      have "slots_used (?cnt + 1) ?cnt (slot_log io3 @ [SaveResult (?cnt + 1)]) (slot_log io4)"
        by simp
      from slots_used_inner [OF this]
      have "slots_used ?cnt ?cnt (slot_log io3)
          (slot_log (deleteResult (?cnt + 1) (translateSeq (?cnt + 1) io4)))"
        by simp
      ultimately have "slots_used ?cnt ?cnt (slot_log io1 @ [SaveResult ?cnt])
          (slot_log (deleteResult (?cnt + 1) (translateSeq (?cnt + 1) io4)))"
        by (rule slots_used_trans)
      with a c show ?thesis by (intro fin)
    qed
  qed
next
  case (8 L vars act_level counter c0 c1 io0)
  then show ?case
    by (auto simp: Let_def and_then_Inr dest!: translateLocsteps_frame)
next
  case (9 L vars act_level counter0 c0 c1 io0)
  let ?cnt = "counter0 + 1"
  from 9(3) obtain io1 io2 where
    a: "translate2MIL L vars act_level counter0 c0 io0 = Inr io1"
    and b: "translate2MIL L vars act_level ?cnt c1
              (saveResult ?cnt (if \<not> is_c_tag c0 then castQName io1 else io1)) = Inr io2"
    and c: "io' = deleteResult ?cnt (loop_liftedElemConstr ?cnt io2)"
    by (auto simp: Let_def and_then_Inr)
  from 9(1) [OF a] have n1: "slots_nested counter0 (slot_log io0) (slot_log io1)" .
  from 9(2) [OF refl refl refl b]
  have "slots_nested ?cnt (slot_log io1 @ [SaveResult ?cnt]) (slot_log io2)"
    by (simp split: if_splits)
  from slots_nested_save_combine_delete [OF this] c
  have "slots_nested counter0 (slot_log io1) (slot_log io')" by simp
  with n1 show ?case by (rule slots_nested_trans)
next
  case (10 L vars act_level counter0 c0 c1 io0)
  let ?cnt = "counter0 + 1"
  from 10(3) obtain io1 io2 where
    a: "translate2MIL L vars act_level counter0 c0 io0 = Inr io1"
    and b: "translate2MIL L vars act_level ?cnt c1
              (saveResult ?cnt (if \<not> is_c_tag c0 then castQName io1 else io1)) = Inr io2"
    and c: "io' = deleteResult ?cnt (loop_liftedAttrConstr act_level ?cnt io2)"
    by (auto simp: Let_def and_then_Inr)
  from 10(1) [OF a] have n1: "slots_nested counter0 (slot_log io0) (slot_log io1)" .
  from 10(2) [OF refl refl refl b]
  have "slots_nested ?cnt (slot_log io1 @ [SaveResult ?cnt]) (slot_log io2)"
    by (simp split: if_splits)
  from slots_nested_save_combine_delete [OF this] c
  have "slots_nested counter0 (slot_log io1) (slot_log io')" by simp
  with n1 show ?case by (rule slots_nested_trans)
qed (auto simp: Let_def and_then_Inr slots_nested_refl)

text \<open>
  C9. The saved results are used as a stack. Whatever the translation of a node adds to
  the log of the calls that concern a saved result, replayed on any stack of saved
  results whose counters are at most the \<open>counter\<close> of the call, saves each result under a
  counter above all those in use, prints the code combining a result only while the
  result is in use, deletes only the latest saved result and only after the code
  combining it has been printed, and ends with the stack it started with: every result
  saved during the translation has been deleted by its own \<open>deleteResult\<close>, those of the
  caller are untouched, and the caller's \<open>counter\<close> (passed by value) is free again.
\<close>

theorem saved_results_stack_discipline:
  assumes "translate2MIL L vars act_level counter c io = Inr io'"
    and "list_all (\<lambda>(m, u). m \<le> counter) live"
  shows "\<exists>es. slot_log io' = slot_log io @ es \<and> run_slots es live = Some live"
  using slots_translate(3) [OF assms(1)] assms(2) by (auto simp: slots_nested_def)

text \<open>The translation of
  \<open>(true, element e { attribute a { "v" }, if (true) then true else false })\<close> saves six
  results above a result the caller holds under the counter 0: one for each sequence,
  one for the element, one for the attribute and two for the conditional.\<close>

theorem saved_results_stack_discipline_witness:
  "\<exists>io'. translate2MIL libs_example vars_example 0 0
            (C_seq C_true
               (C_elem (C_tag (PFqname PFns_fn ''e''))
                  (C_seq (C_attr (C_tag (PFqname PFns_fn ''a'')) (C_lit_str ''v''))
                     (C_ifthenelse C_true C_true C_false)))) io_empty = Inr io'
     \<and> list_all (\<lambda>(m, u). m \<le> (0::int)) [(0, False)]
     \<and> slot_log io' =
         [SaveResult 1, SaveResult 2, SaveResult 3, CombineResult 3, DeleteResult 3,
          SaveResult 3, SaveResult 4, CombineResult 4, SaveResult 5, CombineResult 4,
          CombineResult 5, DeleteResult 5, DeleteResult 4, CombineResult 3, DeleteResult 3,
          CombineResult 2, DeleteResult 2, CombineResult 1, DeleteResult 1]
     \<and> run_slots (slot_log io') [(0, False)] = Some [(0, False)]"
proof -
  let ?c = "C_seq C_true
               (C_elem (C_tag (PFqname PFns_fn ''e''))
                  (C_seq (C_attr (C_tag (PFqname PFns_fn ''a'')) (C_lit_str ''v''))
                     (C_ifthenelse C_true C_true C_false)))"
  obtain io' where e: "translate2MIL libs_example vars_example 0 0 ?c io_empty = Inr io'"
    by (simp add: Let_def)
  have l: "list_all (\<lambda>(m, u). m \<le> (0::int)) [(0, False)]" by simp
  have s: "slot_log io' =
         [SaveResult 1, SaveResult 2, SaveResult 3, CombineResult 3, DeleteResult 3,
          SaveResult 3, SaveResult 4, CombineResult 4, SaveResult 5, CombineResult 4,
          CombineResult 5, DeleteResult 5, DeleteResult 4, CombineResult 3, DeleteResult 3,
          CombineResult 2, DeleteResult 2, CombineResult 1, DeleteResult 1]"
    using e by (auto simp: Let_def io_empty_def)
  from saved_results_stack_discipline [OF e l] obtain es where
    "slot_log io' = slot_log io_empty @ es" "run_slots es [(0, False)] = Some [(0, False)]"
    by blast
  then have "run_slots (slot_log io') [(0, False)] = Some [(0, False)]"
    by (simp add: io_empty_def)
  with e l s show ?thesis by blast
qed

subsection \<open>Scope ids\<close>

text \<open>\<open>append_lev\<close> never lowers the counter of the scope ids.\<close>

lemma FID_mono_children:
  assumes "\<And>c st c' st'. c \<in> set cs \<Longrightarrow> append_lev c st = (c', st') \<Longrightarrow>
             FID (a_counter st) \<le> FID (a_counter st')"
  shows "append_lev_children cs st = (cs', st') \<Longrightarrow> FID (a_counter st) \<le> FID (a_counter st')"
  using assms
proof (induction cs arbitrary: st cs' st')
  case Nil
  then show ?case by simp
next
  case (Cons c cs)
  then show ?case
    by (fastforce simp: Let_def split: prod.splits)
qed

lemma FID_mono:
  "append_lev c st = (c', st') \<Longrightarrow> FID (a_counter st) \<le> FID (a_counter st')"
proof (induction c arbitrary: st c' st')
  case (C_for num v p c2 c3)
  then show ?case
    by (fastforce simp: Let_def split: prod.splits option.splits)
next
  case (C_other k cs)
  then show ?case
    by (auto simp: Let_def split: prod.splits dest!: FID_mono_children [rotated])
qed (fastforce simp: Let_def split: prod.splits option.splits)+


lemma for_ids_above_children:
  assumes "\<And>c st c' st' anc. c \<in> set cs \<Longrightarrow> append_lev c st = (c', st') \<Longrightarrow>
             list_all (\<lambda>a. a \<le> FID (a_counter st)) anc \<Longrightarrow> for_ids_above False anc c'"
  shows "append_lev_children cs st = (cs', st') \<Longrightarrow>
         list_all (\<lambda>a. a \<le> FID (a_counter st)) anc \<Longrightarrow>
         for_ids_above_children False anc cs'"
  using assms
proof (induction cs arbitrary: st cs' st')
  case Nil
  then show ?case by auto
next
  case (Cons c cs)
  from Cons.prems(1) obtain c' st1 cs1 where
    a: "append_lev c st = (c', st1)" and b: "append_lev_children cs st1 = (cs1, st')"
    and c: "cs' = c' # cs1"
    by (auto simp: Let_def split: prod.splits)
  from FID_mono [OF a] Cons.prems(2)
  have anc1: "list_all (\<lambda>a. a \<le> FID (a_counter st1)) anc"
    by (auto simp: list_all_iff)
  have "for_ids_above False anc c'"
    using Cons.prems(3) [OF _ a Cons.prems(2)] by simp
  moreover have "for_ids_above_children False anc cs1"
    by (rule Cons.IH [OF b anc1]) (auto intro: Cons.prems(3))
  ultimately show ?case using c by simp
qed

lemma anc_mono:
  "list_all (\<lambda>a. a \<le> FID (a_counter st)) anc \<Longrightarrow> append_lev c st = (c', st') \<Longrightarrow>
   list_all (\<lambda>a. a \<le> FID (a_counter st')) anc"
  using FID_mono [of c st c' st'] by (auto simp: list_all_iff)

lemma for_ids_above_append_lev:
  "append_lev c st = (c', st') \<Longrightarrow> list_all (\<lambda>a. a \<le> FID (a_counter st)) anc \<Longrightarrow>
   for_ids_above False anc c'"
proof (induction c arbitrary: st c' st' anc)
  case (C_for num v p c2 c3)
  let ?st1 = "snd (append_lev c2 st)"
  let ?fid = "FID (a_counter ?st1) + 1"
  obtain c2' st1 where a: "append_lev c2 st = (c2', st1)" by (cases "append_lev c2 st")
  from C_for.prems(1) a obtain stb c3' st3 where
    b: "append_lev c3 stb = (c3', st3)" and fb: "FID (a_counter stb) = FID (a_counter st1) + 1"
    and c: "c' = C_for (FID (a_counter st1) + 1) v p c2' c3'"
    by (auto simp: Let_def split: prod.splits option.splits)
  have 1: "for_ids_above False anc c2'" by (rule C_for.IH(1) [OF a C_for.prems(2)])
  from anc_mono [OF C_for.prems(2) a]
  have anc1: "list_all (\<lambda>a. a \<le> FID (a_counter st1)) anc" .
  then have 2: "list_all (\<lambda>a. a < FID (a_counter st1) + 1) anc"
    by (auto simp: list_all_iff)
  from anc1 fb have "list_all (\<lambda>a. a \<le> FID (a_counter stb)) ((FID (a_counter st1) + 1) # anc)"
    by (auto simp: list_all_iff)
  from C_for.IH(2) [OF b this] have 3: "for_ids_above False ((FID (a_counter st1) + 1) # anc) c3'" .
  from 1 2 3 c show ?case by simp
next
  case (C_let v c1 c2)
  from C_let.prems(1) obtain c1' st1 stm c2' where
    a: "append_lev c1 st = (c1', st1)" and b: "append_lev c2 stm = (c2', st')"
    and m: "FID (a_counter stm) = FID (a_counter st1)" and c: "c' = C_let v c1' c2'"
    by (auto simp: Let_def split: prod.splits)
  from anc_mono [OF C_let.prems(2) a] m
  have "list_all (\<lambda>a. a \<le> FID (a_counter stm)) anc" by simp
  from C_let.IH(1) [OF a C_let.prems(2)] C_let.IH(2) [OF b this] c show ?case by simp
next
  case (C_ifthenelse c0 c1 c2)
  from C_ifthenelse.prems(1) obtain c0' st0 c1' st1 c2' where
    a: "append_lev c0 st = (c0', st0)" and b: "append_lev c1 st0 = (c1', st1)"
    and d: "append_lev c2 st1 = (c2', st')" and c: "c' = C_ifthenelse c0' c1' c2'"
    by (auto simp: Let_def split: prod.splits)
  note anc0 = anc_mono [OF C_ifthenelse.prems(2) a]
  note anc1 = anc_mono [OF anc0 b]
  from C_ifthenelse.IH(1) [OF a C_ifthenelse.prems(2)] C_ifthenelse.IH(2) [OF b anc0]
    C_ifthenelse.IH(3) [OF d anc1] c
  show ?case by simp
next
  case (C_other k cs)
  then show ?case
    by (auto simp: Let_def split: prod.splits dest!: for_ids_above_children [rotated])
qed (auto simp: Let_def split: prod.splits; blast intro: anc_mono)+

text \<open>
  C4, as the code has it. The scope id of every \<open>for\<close> node is strictly greater than the
  scope ids of the \<open>for\<close> nodes whose body (\<open>child[3]\<close>) contains it. The ancestors whose
  source expression contains the node are left out: the source is annotated before its
  \<open>for\<close> node takes its id.
\<close>

theorem for_id_above_enclosing_bodies:
  "for_ids_above False [] (fst (append_lev c st))"
  using for_ids_above_append_lev [of c st "fst (append_lev c st)" "snd (append_lev c st)" "[]"]
  by simp

text \<open>\<open>for $x in () return for $y in () return ()\<close>: the outer node gets the id 1, the
  node in its body the id 2.\<close>

theorem for_id_above_enclosing_bodies_witness:
  "fst (append_lev (C_for 0 0 None C_empty (C_for 0 1 None C_empty C_empty))
          (annot_init vars_example io_empty))
     = C_for 1 0 None C_empty (C_for 2 1 None C_empty C_empty)
   \<and> for_ids_above False []
        (fst (append_lev (C_for 0 0 None C_empty (C_for 0 1 None C_empty C_empty))
               (annot_init vars_example io_empty)))"
  using for_id_above_enclosing_bodies
    [of "C_for 0 0 None C_empty (C_for 0 1 None C_empty C_empty)"
        "annot_init vars_example io_empty"]
  by (simp add: Let_def annot_init_def)

text \<open>
  C4 as stated (greater than the ids of all the ancestors) fails for a \<open>for\<close> node in the
  source expression of another: in \<open>for $x in (for $y in () return ()) return ()\<close> the
  inner node gets the id 1 and its ancestor the id 2.
\<close>

theorem for_id_below_ancestor_counterexample:
  "fst (append_lev (C_for 0 0 None (C_for 0 1 None C_empty C_empty) C_empty)
          (annot_init vars_example io_empty))
     = C_for 2 0 None (C_for 1 1 None C_empty C_empty) C_empty
   \<and> \<not> for_ids_above True []
        (fst (append_lev (C_for 0 0 None (C_for 0 1 None C_empty C_empty) C_empty)
               (annot_init vars_example io_empty)))"
  by (simp add: Let_def annot_init_def)

subsection \<open>The usage relation\<close>

lemma update_expansion_for_let_var: "update_expansion \<lparr>base = 0, vid = 1, used = False\<rparr> [1] io
   = var_usage_insert 1 1 (fprintf [''var_usage.insert('', fmt_i 1, ''@0,'', fmt_i 1, ''@0);\<newline>''] io)"
  by (simp add: update_expansion_def update_expansion_loop.simps [of _ _ 0] update_expansion_loop.simps [of _ _ "-1"] Let_def)

text \<open>
  C5. The claim: the pairs of the usage relation are exactly those of a variable with the
  scopes opened between its definition and a reference to it. In
  \<open>for $x in () return let $y := () return $y\<close> no scope is opened between the
  definition of \<open>$y\<close> and its reference, so there is no such pair; the code inserts the
  pair of \<open>$y\<close> (id 1) with the scope of the enclosing \<open>for\<close> (id 1), and the pair is
  still there after the duplicates are removed and the rows are sorted.
\<close>

theorem let_variable_expanded_into_enclosing_scope:
  "(let (c', st) = append_lev for_let_var (annot_init vars_example io_empty)
    in var_usage_bat (a_out st) = [(1, 1)]
       \<and> var_usage_sorted (var_usage_bat (a_out st)) = [(1, 1)]
       \<and> c' = C_for 1 0 None C_empty (C_let 1 C_empty (C_var 1))
       \<and> usage_spec (a_vars st) (\<lambda>v. []) c' = [])"
  by (simp add: for_let_var_def annot_init_def vars_example_def Let_def update_expansion_for_let_var var_usage_insert_def
      fprintf_def io_empty_def var_usage_sorted_def)

subsection \<open>Columns with a dense head\<close>

text \<open>What the operations do on columns that are given by the list of their tails, or by a
  function of their heads.\<close>

lemma map_snd_void [simp]: "map snd (void ts) = ts"
  by (simp add: void_def)

lemma map_fst_void [simp]: "map fst (void ts) = [0..<length ts]"
  by (simp add: void_def)

lemma length_void [simp]: "length (void ts) = length ts"
  by (simp add: void_def)

lemma mil_count_void [simp]: "mil_count (void ts) = int (length ts)"
  by (simp add: mil_count_def)

lemma count_tunique_void: "mil_count (mil_tunique (void ts)) = int (length (remdups ts))"
  by (simp add: mil_count_def mil_tunique_def)

lemma length_filter_tail:
  "length (filter (\<lambda>(h, t). P t) b) = length (filter P (map snd b))"
  by (induction b) auto

lemma count_ord_uselect_void:
  "mil_count (mil_ord_uselect (void ts) v) = int (length (filter (\<lambda>t. t = v) ts))"
  unfolding mil_count_def mil_ord_uselect_def length_map length_filter_tail map_snd_void ..

lemma count_list_reverse:
  "length (filter (\<lambda>(h', t). h' = h) (mil_reverse b)) = count_list (map snd b) h"
  by (induction b) (auto simp: mil_reverse_def)

lemma grp_count_reverse_void:
  "mil_grp_count (mil_reverse (void ts)) (mil_tunique (void ts))
     = map (\<lambda>t. (t, int (count_list ts t))) (remdups ts)"
  by (simp add: mil_grp_count_def mil_tunique_def comp_def count_list_reverse)

lemma sum_count_remdups: "(\<Sum>t\<leftarrow>remdups ts. int (count_list ts t)) = int (length ts)"
proof -
  have "(\<Sum>t\<leftarrow>remdups ts. count_list ts t) = (\<Sum>t\<in>set ts. count_list ts t)"
    by (simp add: sum_list_distinct_conv_sum_set)
  also have "\<dots> = length ts" by (simp add: sum_count_set)
  finally have "int (\<Sum>t\<leftarrow>remdups ts. count_list ts t) = int (length ts)" by simp
  then show ?thesis by (simp add: comp_def flip: sum_list_of_nat)
qed

lemma mil_count_map [simp]: "mil_count (map f b) = int (length b)"
  by (simp add: mil_count_def)

lemma length_filter_eq_iff: "length (filter P xs) = length xs \<longleftrightarrow> (\<forall>x\<in>set xs. P x)"
proof (induction xs)
  case Nil
  then show ?case by simp
next
  case (Cons x xs)
  have "length (filter P xs) \<noteq> Suc (length xs)"
    using length_filter_le [of P xs] by linarith
  with Cons show ?case by auto
qed
lemma void_snoc: "void (ts @ [t]) = void ts @ [(length ts, t)]"
  by (simp add: void_def)

lemma fst_void_less: "(h, t) \<in> set (void ts) \<Longrightarrow> h < length ts"
  by (auto simp: void_def dest: set_zip_leftD)

lemma filter_void_none: "length ts \<le> m \<Longrightarrow> filter (\<lambda>(m', t). m' = m) (void ts) = []"
  by (auto simp: filter_empty_conv dest: fst_void_less)

lemma filter_void_one:
  "m < length ts \<Longrightarrow> filter (\<lambda>(m', t). m' = m) (void ts) = [(m, ts ! m)]"
proof (induction ts rule: rev_induct)
  case Nil
  then show ?case by simp
next
  case (snoc t ts)
  show ?case
  proof (cases "m < length ts")
    case True
    with snoc.IH show ?thesis by (simp add: void_snoc nth_append)
  next
    case False
    with snoc.prems have "m = length ts" by simp
    then show ?thesis by (simp add: void_snoc filter_void_none)
  qed
qed

lemma leftjoin_void:
  assumes "\<forall>m \<in> set ms. m < length ts"
  shows "mil_leftjoin (zip hs ms) (void ts) = zip hs (map (\<lambda>m. ts ! m) ms)"
  using assms
proof (induction ms arbitrary: hs)
  case Nil
  then show ?case by (simp add: mil_leftjoin_def)
next
  case (Cons m ms)
  show ?case
  proof (cases hs)
    case Nil
    then show ?thesis by (simp add: mil_leftjoin_def)
  next
    case (Cons h hs')
    with Cons.prems Cons.IH [of hs'] show ?thesis
      by (simp add: mil_leftjoin_def filter_void_one)
  qed
qed

lemma leftfetchjoin_void:
  assumes "\<forall>m \<in> set ms. m < length ts"
  shows "mil_leftfetchjoin (void ms) (void ts) = void (map (\<lambda>m. ts ! m) ms)"
proof -
  have "mil_leftjoin (zip [0..<length ms] ms) (void ts) = zip [0..<length ms] (map (\<lambda>m. ts ! m) ms)"
    using assms by (rule leftjoin_void)
  then show ?thesis
    by (simp add: mil_leftfetchjoin_def void_def [of ms] void_def [of "map f xs" for f xs])
qed

lemma reverse_mark: "mil_reverse (mil_mark b 0) = void (map fst b)"
  by (simp add: mil_reverse_def mil_mark_def void_def zip_commute [symmetric])


lemma nth_void: "i < length ts \<Longrightarrow> void ts ! i = (i, ts ! i)"
  by (simp add: void_def)

lemma map_fst_reverse: "map fst (mil_reverse b) = map snd b"
  by (simp add: mil_reverse_def comp_def case_prod_unfold)

lemma project_void: "mil_project (void xs) v = void (map (\<lambda>x. v) xs)"
  by (rule nth_equalityI) (simp_all add: mil_project_def nth_void)

subsection \<open>The checks of the attribute constructor\<close>

lemma attr_checks:
  "isl (loop_liftedAttrConstr_mil (void iters) item (void kinds) (void name_iter) (void loop))
     \<longleftrightarrow> length (remdups iters) \<noteq> length (filter (\<lambda>k. k = kSTR) kinds)
        \<or> length (remdups iters) \<noteq> length iters
        \<or> length name_iter \<noteq> length loop"
proof -
  have "distinct iters \<Longrightarrow> length (remdups iters) = length iters"
    by (simp add: distinct_remdups_id)
  then show ?thesis
    by (auto simp: loop_liftedAttrConstr_mil_def Let_def count_tunique_void
        count_ord_uselect_void grp_count_reverse_void mil_sum_def comp_def sum_count_remdups
        distinct_remdups_id)
qed

lemma attr_error_iff:
  "isl (loop_liftedAttrConstr_mil (iter_of rows) (item_of rows) (kind_of rows)
          (void name_iter) (void loop))
     \<longleftrightarrow> \<not> distinct (map (\<lambda>(i, it, k). i) rows)
        \<or> (\<exists>(i, it, k) \<in> set rows. k \<noteq> kSTR)
        \<or> length name_iter \<noteq> length loop"
proof -
  let ?is = "map (\<lambda>(i, it, k). i) rows" and ?ks = "map (\<lambda>(i, it, k). k) rows"
  have d: "length (remdups ?is) = length ?is \<longleftrightarrow> distinct ?is"
    by (metis distinct_remdups length_remdups_eq remdups_id_iff_distinct)
  have k: "length (filter (\<lambda>k. k = kSTR) ?ks) = length ?ks \<longleftrightarrow> \<not> (\<exists>(i, it, k) \<in> set rows. k \<noteq> kSTR)"
    unfolding length_filter_eq_iff by auto
  have l: "length ?is = length ?ks" by simp
  show ?thesis
    unfolding iter_of_def kind_of_def attr_checks using d k l by (metis (no_types, lifting))
qed

lemma merge_by_key_Nil [simp]: "merge_by_key l [] = l"
  by (cases l) simp_all

lemma merge_by_key_head:
  "\<forall>b \<in> set r. fst a \<le> fst b \<Longrightarrow> merge_by_key (a # l) r = a # merge_by_key l r"
  by (cases r) auto

lemma map_of_zip_None: "length xs = length ys \<Longrightarrow> x \<notin> set xs \<Longrightarrow> map_of (zip xs ys) x = None"
  by (simp add: map_of_zip_is_None)

lemma merge_fill:
  assumes "sorted loop" and "distinct loop" and "sorted ks" and "distinct ks"
    and "set ks \<subseteq> set loop" and "length ks = length ts"
  shows "merge_by_key (zip ks ts) (map (\<lambda>i. (i, d)) (filter (\<lambda>i. i \<notin> set ks) loop))
           = map (\<lambda>i. (i, case map_of (zip ks ts) i of Some t \<Rightarrow> t | None \<Rightarrow> d)) loop"
  using assms
proof (induction loop arbitrary: ks ts)
  case Nil
  then show ?case by simp
next
  case (Cons l ls)
  from Cons.prems(1,2) have above: "\<forall>x \<in> set ls. l < x" and ls: "sorted ls" "distinct ls"
    by (auto simp: order_less_le)
  show ?case
  proof (cases ks)
    case Nil
    with Cons.prems(6) show ?thesis by simp
  next
    case ks: (Cons i ks')
    with Cons.prems(6) obtain t ts' where ts: "ts = t # ts'" and len: "length ks' = length ts'"
      by (cases ts) auto
    from Cons.prems(3,4) ks have above': "\<forall>x \<in> set ks'. i < x" and ks': "sorted ks'" "distinct ks'"
      by (auto simp: order_less_le)
    show ?thesis
    proof (cases "i = l")
      case True
      with above' above Cons.prems(5) ks have sub: "set ks' \<subseteq> set ls" by auto
      from True above
      have f: "filter (\<lambda>j. j \<notin> set (i # ks')) (l # ls) = filter (\<lambda>j. j \<notin> set ks') ls"
        by (auto intro: filter_cong)
      have le: "\<forall>b \<in> set (map (\<lambda>j. (j, d)) (filter (\<lambda>j. j \<notin> set ks') ls)). fst (i, t) \<le> fst b"
        using True above by auto
      have "merge_by_key (zip ks ts) (map (\<lambda>j. (j, d)) (filter (\<lambda>j. j \<notin> set ks) (l # ls)))
              = (i, t) # merge_by_key (zip ks' ts') (map (\<lambda>j. (j, d)) (filter (\<lambda>j. j \<notin> set ks') ls))"
        unfolding ks ts f by (simp only: zip_Cons_Cons merge_by_key_head [OF le])
      also have "\<dots> = (i, t) # map (\<lambda>j. (j, case map_of (zip ks' ts') j of Some t \<Rightarrow> t | None \<Rightarrow> d)) ls"
        by (simp only: Cons.IH [OF ls ks' sub len])
      also have "\<dots> = map (\<lambda>j. (j, case map_of (zip ks ts) j of Some t \<Rightarrow> t | None \<Rightarrow> d)) (l # ls)"
        unfolding ks ts using True above by auto
      finally show ?thesis .
    next
      case False
      with Cons.prems(5) ks have "i \<in> set ls" by auto
      with above have li: "l < i" by simp
      with above' ks have notin: "l \<notin> set ks" by auto
      with Cons.prems(5) have sub: "set ks \<subseteq> set ls" by auto
      from notin Cons.prems(6) have none: "map_of (zip ks ts) l = None"
        by (intro map_of_zip_None)
      from Cons.IH [OF ls Cons.prems(3,4) sub Cons.prems(6)]
      have IH: "merge_by_key (zip ks ts) (map (\<lambda>i. (i, d)) (filter (\<lambda>i. i \<notin> set ks) ls))
           = map (\<lambda>i. (i, case map_of (zip ks ts) i of Some t \<Rightarrow> t | None \<Rightarrow> d)) ls" .
      have "merge_by_key (zip ks ts) ((l, d) # map (\<lambda>i. (i, d)) (filter (\<lambda>i. i \<notin> set ks) ls))
            = (l, d) # merge_by_key (zip ks ts) (map (\<lambda>i. (i, d)) (filter (\<lambda>i. i \<notin> set ks) ls))"
        unfolding ks ts using li by simp
      with notin none IH show ?thesis by simp
    qed
  qed
qed

lemma lookup_self:
  "distinct xs \<Longrightarrow> length xs = length ys \<Longrightarrow>
   map (\<lambda>x. case map_of (zip xs ys) x of Some y \<Rightarrow> y | None \<Rightarrow> d) xs = ys"
proof (induction xs arbitrary: ys)
  case Nil
  then show ?case by simp
next
  case (Cons x xs)
  then obtain y ys' where ys: "ys = y # ys'" and len: "length xs = length ys'"
    by (cases ys) auto
  have "map (\<lambda>z. case map_of (zip (x # xs) (y # ys')) z of Some y \<Rightarrow> y | None \<Rightarrow> d) xs
          = map (\<lambda>z. case map_of (zip xs ys') z of Some y \<Rightarrow> y | None \<Rightarrow> d) xs"
    using Cons.prems(1) by (intro map_cong) auto
  with Cons.IH [OF _ len] Cons.prems(1) show ?case unfolding ys by simp
qed

lemma kdiff_missing:
  "mil_reverse (mil_mark (mil_kdiff (mil_reverse (void loop)) (mil_reverse (void iters))) 0)
     = void (filter (\<lambda>i. i \<notin> set iters) loop)"
proof -
  have s: "fst ` set (mil_reverse (void iters)) = set iters"
    using map_fst_reverse [of "void iters"] by (metis map_snd_void set_map)
  have f: "map fst (filter (\<lambda>(h, t). h \<notin> S) b) = filter (\<lambda>h. h \<notin> S) (map fst b)"
    for S b
    by (induction b) auto
  have "map fst (mil_kdiff (mil_reverse (void loop)) (mil_reverse (void iters)))
          = filter (\<lambda>i. i \<notin> set iters) loop"
    unfolding mil_kdiff_def s f by (simp add: map_fst_reverse)
  then show ?thesis by (simp add: reverse_mark)
qed

lemma attr_fill:
  assumes "sorted iters" and "distinct iters" and "sorted loop" and "distinct loop"
    and "set iters \<subseteq> set loop" and "length iters = length items"
    and "\<not> isl (loop_liftedAttrConstr_mil (void iters) (void items) (void kinds) (void name_iter) (void loop))"
  shows "loop_liftedAttrConstr_mil (void iters) (void items) (void kinds) (void name_iter) (void loop)
           = Inr (void (map (\<lambda>i. case map_of (zip iters items) i of Some t \<Rightarrow> t | None \<Rightarrow> EMPTY_STRING) loop))"
proof (cases "length iters = length loop")
  case True
  with assms(2,4,5) have "set iters = set loop"
    by (metis card_subset_eq distinct_card List.finite_set)
  with assms(1-4) have "iters = loop"
    by (intro sorted_distinct_set_unique)
  with assms(2,6) have "map (\<lambda>i. case map_of (zip iters items) i of Some t \<Rightarrow> t | None \<Rightarrow> EMPTY_STRING) loop = items"
    by (simp add: lookup_self)
  with assms(7) True show ?thesis
    by (auto simp: loop_liftedAttrConstr_mil_def Let_def split: if_splits)
next
  case False
  have "snd (mil_merged_union (void iters) (void (filter (\<lambda>i. i \<notin> set iters) loop)) (void items)
               (mil_project (void (filter (\<lambda>i. i \<notin> set iters) loop)) EMPTY_STRING))
          = void (map (\<lambda>i. case map_of (zip iters items) i of Some t \<Rightarrow> t | None \<Rightarrow> EMPTY_STRING) loop)"
    using merge_fill [OF assms(3,4,1,2,5,6), of EMPTY_STRING]
    by (simp add: mil_merged_union_def Let_def project_void zip_map2 zip_same_conv_map comp_def)
  with assms(7) False show ?thesis
    by (auto simp: loop_liftedAttrConstr_mil_def Let_def kdiff_missing split: if_splits)
qed

text \<open>
  C3. The claim: the program of an attribute constructor stops with an error both when an
  iteration has no string in the content result and when it has more than one, and
  goes on only when every iteration has exactly one. An iteration without a string is
  in fact no error (see the counterexample below): the statements after
  \<open>if (iter.count != loop%03u.count)\<close> give it the empty string. What holds: the
  program stops with an error exactly when an iteration has more than one item in the
  content result, or an item of the content result is not a string, or the name result
  has not as many rows as the loop has iterations. When it does not stop, it goes on
  with one string for each iteration of the loop: the string of the content result for
  the iteration, and the empty string for an iteration without one (the content result
  and the loop are in the order of their iterations, and the loop holds every iteration
  of the content result once).
\<close>

theorem attr_constr_checks_and_fill:
  "(isl (loop_liftedAttrConstr_mil (iter_of rows) (item_of rows) (kind_of rows)
           (void name_iter) (void loop))
      \<longleftrightarrow> \<not> distinct (map (\<lambda>(i, it, k). i) rows)
         \<or> (\<exists>(i, it, k) \<in> set rows. k \<noteq> kSTR)
         \<or> length name_iter \<noteq> length loop)
   \<and> (sorted (map (\<lambda>(i, it, k). i) rows) \<and> sorted loop \<and> distinct loop
        \<and> set (map (\<lambda>(i, it, k). i) rows) \<subseteq> set loop
        \<and> \<not> isl (loop_liftedAttrConstr_mil (iter_of rows) (item_of rows) (kind_of rows)
                   (void name_iter) (void loop))
      \<longrightarrow> loop_liftedAttrConstr_mil (iter_of rows) (item_of rows) (kind_of rows)
            (void name_iter) (void loop)
          = Inr (void (map (content_or_empty rows) loop)))"
proof (intro conjI impI)
  show "isl (loop_liftedAttrConstr_mil (iter_of rows) (item_of rows) (kind_of rows)
           (void name_iter) (void loop))
      \<longleftrightarrow> \<not> distinct (map (\<lambda>(i, it, k). i) rows)
         \<or> (\<exists>(i, it, k) \<in> set rows. k \<noteq> kSTR)
         \<or> length name_iter \<noteq> length loop"
    by (rule attr_error_iff)
next
  let ?is = "map (\<lambda>(i, it, k). i) rows" and ?ts = "map (\<lambda>(i, it, k). it) rows"
  assume a: "sorted ?is \<and> sorted loop \<and> distinct loop \<and> set ?is \<subseteq> set loop
        \<and> \<not> isl (loop_liftedAttrConstr_mil (iter_of rows) (item_of rows) (kind_of rows)
                   (void name_iter) (void loop))"
  then have d: "distinct ?is" using attr_error_iff [of rows name_iter loop] by blast
  have z: "zip ?is ?ts = map (\<lambda>(i, it, k). (i, it)) rows"
    by (simp add: zip_map_map zip_same_conv_map comp_def case_prod_unfold)
  from a d show "loop_liftedAttrConstr_mil (iter_of rows) (item_of rows) (kind_of rows)
            (void name_iter) (void loop)
          = Inr (void (map (content_or_empty rows) loop))"
    unfolding iter_of_def item_of_def kind_of_def content_or_empty_def [abs_def] z [symmetric]
    by (intro attr_fill) simp_all
qed

text \<open>With the iterations 1 and 2: one string for each is no error, and the program goes on
  with the two strings; two strings for iteration 1 are an error.\<close>

theorem attr_constr_checks_and_fill_witness:
  "loop_liftedAttrConstr_mil (iter_of [(1, 5, kSTR), (2, 6, kSTR)])
       (item_of [(1, 5, kSTR), (2, 6, kSTR)]) (kind_of [(1, 5, kSTR), (2, 6, kSTR)])
       (void [1, 2 :: oid]) (void [1, 2 :: oid]) = Inr (void [5, 6])
   \<and> isl (loop_liftedAttrConstr_mil (iter_of [(1, 5, kSTR), (1, 6, kSTR)])
            (item_of [(1, 5, kSTR), (1, 6, kSTR)]) (kind_of [(1, 5, kSTR), (1, 6, kSTR)])
            (void [1, 2 :: oid]) (void [1, 2 :: oid]))"
  using attr_constr_checks_and_fill [of "[(1, 5, kSTR), (2, 6, kSTR)]" "[1, 2 :: oid]" "[1, 2 :: oid]"]
    attr_constr_checks_and_fill [of "[(1, 5, kSTR), (1, 6, kSTR)]" "[1, 2 :: oid]" "[1, 2 :: oid]"]
  by (simp add: content_or_empty_def)

text \<open>With the iterations 1 and 2 and a single string, for iteration 1: iteration 2 has no
  string, and the program goes on with the item \<open>EMPTY_STRING\<close> for it.\<close>

theorem attr_constr_empty_iteration_counterexample:
  "loop_liftedAttrConstr_mil (iter_of [(1, 5, kSTR)]) (item_of [(1, 5, kSTR)])
       (kind_of [(1, 5, kSTR)]) (void [1, 2 :: oid]) (void [1, 2 :: oid])
     = Inr (void [5, EMPTY_STRING])
   \<and> filter (\<lambda>(i, it, k). i = 2 \<and> k = kSTR) [(1 :: oid, 5 :: oid, kSTR)] = []"
  by (simp add: loop_liftedAttrConstr_mil_def iter_of_def item_of_def kind_of_def void_def
      mil_tunique_def mil_count_def mil_ord_uselect_def mil_grp_count_def mil_reverse_def
      mil_sum_def mil_kdiff_def mil_mark_def mil_merged_union_def mil_project_def
      EMPTY_STRING_def Let_def)

subsection \<open>The attributes of a new element\<close>

text \<open>
  C7. The claim: the program of an element constructor stops with the error
  "attributes are not unique" when two attributes of one iteration have the same
  namespace and local name. The test compares the names by their position in the name
  tables and the fragment of these tables, so it misses two attributes of the same name
  whose names are stored in different fragments: for the content \<open>two_ids\<close>, two
  attributes named \<open>id\<close> in iteration 1, the program goes through both tests without an
  error and attaches both attributes to the new element 5 of iteration 1, which then
  has two attributes named \<open>id\<close>.
\<close>

theorem elem_attrs_same_name_accepted:
  "attr_name ws_two_fragments (two_ids ! 0) = ([], ''id'')
   \<and> attr_name ws_two_fragments (two_ids ! 1) = ([], ''id'')
   \<and> (case loop_liftedElemConstr_attrs ws_two_fragments
              (iter_of two_ids) (item_of two_ids) (kind_of two_ids)
              (void [1]) (void [1]) (void [5]) of
         Inl e \<Rightarrow> False
       | Inr ws \<Rightarrow>
           attr_owner ws (1, 1, kATTR WS) = Some 5 \<and> attr_name ws (1, 1, kATTR WS) = ([], ''id'')
           \<and> attr_owner ws (1, 2, kATTR WS) = Some 5 \<and> attr_name ws (1, 2, kATTR WS) = ([], ''id''))"
  by (simp add: loop_liftedElemConstr_attrs_def iter_of_def item_of_def kind_of_def void_def
        mil_reverse_def mil_mark_def mil_get_type_ATTR_def mil_get_type_NODE_def
        mil_leftfetchjoin_def mil_leftjoin_def mil_get_fragment_def mil_tunique_def
        mil_CTgroup_def mil_CTgroup2_def mil_mposjoin_def mil_count_def mil_seqbase_def
        mil_insert_def ws_two_fragments_def two_ids_def WS_def Let_def)

subsection \<open>The effective boolean value\<close>

lemma ord_uselect_fn:
  "mil_ord_uselect (map (\<lambda>i. (i, f i)) L) v = map (\<lambda>i. (i, ())) (filter (\<lambda>i. f i = v) L)"
  by (induction L) (auto simp: mil_ord_uselect_def)

lemma mirror_fn: "mil_mirror (map (\<lambda>i. (i, x i)) L) = map (\<lambda>i. (i, i)) L"
  by (simp add: mil_mirror_def)

lemma project_fn: "mil_project (map (\<lambda>i. (i, x i)) L) v = map (\<lambda>i. (i, v)) L"
  by (simp add: mil_project_def)

lemma neq_fn: "mil_neq (map (\<lambda>i. (i, x i)) L) v = map (\<lambda>i. (i, x i \<noteq> v)) L"
  by (simp add: mil_neq_def)

lemma leftjoin_fn:
  "\<forall>i \<in> set L. filter (\<lambda>(m, t). m = p i) B = [(p i, g i)] \<Longrightarrow>
   mil_leftjoin (map (\<lambda>i. (i, p i)) L) B = map (\<lambda>i. (i, g i)) L"
  by (induction L) (simp_all add: mil_leftjoin_def)

lemma map_of_const: "map_of (map (\<lambda>i. (i, v)) L) h = (if h \<in> set L then Some v else None)"
  by (induction L) auto

lemma replace_fn:
  "mil_replace (map (\<lambda>i. (i, b i)) L) (map (\<lambda>i. (i, v)) L')
     = map (\<lambda>i. (i, if i \<in> set L' then v else b i)) L"
  by (simp add: mil_replace_def map_of_const)

lemma reverse_void: "mil_reverse (void ts) = zip ts [0..<length ts]"
  by (simp add: mil_reverse_def void_def zip_commute [symmetric])

lemma grp_count_fn:
  "mil_grp_count B (mil_reverse (void loop))
     = map (\<lambda>i. (i, int (length (filter (\<lambda>(h, t). h = i) B)))) loop"
proof -
  let ?c = "\<lambda>i. (i, int (length (filter (\<lambda>(h, t). h = i) B)))"
  have "mil_grp_count B (mil_reverse (void loop)) = map ?c (map fst (mil_reverse (void loop)))"
    unfolding map_map by (simp add: mil_grp_count_def case_prod_unfold comp_def)
  also have "map fst (mil_reverse (void loop)) = loop"
    by (simp add: reverse_void)
  finally show ?thesis .
qed

lemma fetch_rows:
  "mil_leftfetchjoin (mil_reverse (void (map f rows))) (void (map g rows)) = map (\<lambda>r. (f r, g r)) rows"
proof -
  have "mil_leftjoin (zip (map f rows) [0..<length rows]) (void (map g rows))
          = zip (map f rows) (map (\<lambda>m. map g rows ! m) [0..<length rows])"
    by (rule leftjoin_void) simp
  also have "map (\<lambda>m. map g rows ! m) [0..<length rows] = map g rows"
    using map_nth [of "map g rows"] by simp
  finally show ?thesis
    by (simp add: mil_leftfetchjoin_def reverse_void zip_map_map zip_same_conv_map comp_def)
qed

lemma filter_rows:
  "filter (\<lambda>(m, t). m = i) (map (\<lambda>r. (f r, g r)) rows) = map (\<lambda>r. (f r, g r)) (filter (\<lambda>r. f r = i) rows)"
  by (induction rows) auto

lemma filter_single:
  assumes "length (filter P xs) = 1"
  obtains x where "filter P xs = [x]" and "P x"
proof -
  from assms obtain x where x: "filter P xs = [x]"
    by (cases "filter P xs") auto
  have "x \<in> set (filter P xs)" unfolding x by simp
  then have "P x" by simp
  with x that show thesis by blast
qed

lemma count_list_map: "count_list (map f rows) i = length (filter (\<lambda>r. f r = i) rows)"
  by (induction rows) auto

lemma leftjoin_bool_map:
  "mil_leftjoin (map (\<lambda>i. (i, b i)) L) bool_map = map (\<lambda>i. (i, bool_oid (b i))) L"
  by (rule leftjoin_fn) (simp add: bool_map_def bool_oid_def)

lemma hd_filter_in: "filter P xs \<noteq> [] \<Longrightarrow> hd (filter P xs) \<in> set xs"
  using hd_in_set [of "filter P xs"] by auto

text \<open>
  C6. The program of \<open>fn:boolean\<close> computes, for each iteration of the loop, the
  effective boolean value of the items of the iteration: false for no item; for a single
  item a boolean itself, a string unless it is \<open>""\<close>, an integer, a double or a decimal
  unless it is 0, and true for an item of another kind; true for two items or more. The
  result has one row for each iteration, in the order of the loop, at position 1 and of
  kind \<open>BOOL\<close>. The items of the argument are taken to refer to values that exist.
\<close>

theorem fn_boolean_computes_ebv:
  assumes range: "\<forall>r \<in> set rows. item_in_range V r"
  shows "fn_boolean_mil V (iter_of rows) (item_of rows) (kind_of rows) (void loop) =
           (void loop, void (map (\<lambda>i. 1) loop),
            void (map (\<lambda>i. bool_oid (effective_boolean_value V (items_of rows i))) loop),
            void (map (\<lambda>i. kBOOL) loop))"
proof -
  define R where "R i = filter (\<lambda>r. fst r = i) rows" for i
  define n where "n i = int (length (R i))" for i
  define row where "row i = hd (R i)" for i
  define IT where "IT i = fst (snd (row i))" for i
  define K where "K i = snd (snd (row i))" for i
  define L1 where "L1 = filter (\<lambda>i. n i = 1) loop"
  define Lk where "Lk c = filter (\<lambda>i. K i = c) L1" for c
  have cols: "iter_of rows = void (map fst rows)" "item_of rows = void (map (\<lambda>r. fst (snd r)) rows)"
    "kind_of rows = void (map (\<lambda>r. snd (snd r)) rows)"
    by (simp_all add: iter_of_def item_of_def kind_of_def case_prod_unfold)
  have cnt: "mil_grp_count (mil_reverse (void (map fst rows))) (mil_reverse (void loop))
               = map (\<lambda>i. (i, n i)) loop"
    unfolding grp_count_fn count_list_reverse map_snd_void count_list_map n_def R_def ..
  have single: "filter (\<lambda>(m, t). m = i) (map (\<lambda>r. (fst r, g r)) rows) = [(i, g (row i))]"
    if "i \<in> set L1" for i and g :: "oid \<times> oid \<times> kind \<Rightarrow> 'x"
  proof -
    from that have "length (filter (\<lambda>r. fst r = i) rows) = 1"
      by (simp add: L1_def n_def R_def)
    then obtain x where "filter (\<lambda>r. fst r = i) rows = [x]" and "fst x = i"
      by (rule filter_single)
    then show ?thesis
      unfolding filter_rows row_def R_def by simp
  qed
  have test1: "mil_mirror (mil_ord_uselect (map (\<lambda>i. (i, n i)) loop) 1) = map (\<lambda>i. (i, i)) L1"
    by (simp add: ord_uselect_fn mirror_fn L1_def)
  have test2: "mil_leftjoin (map (\<lambda>i. (i, i)) L1) (map (\<lambda>r. (fst r, snd (snd r))) rows)
                 = map (\<lambda>i. (i, K i)) L1"
    by (rule leftjoin_fn) (simp add: single K_def)
  have sel: "mil_mirror (mil_ord_uselect (map (\<lambda>i. (i, K i)) L1) c) = map (\<lambda>i. (i, i)) (Lk c)" for c
    by (simp add: ord_uselect_fn mirror_fn Lk_def)
  have itm: "mil_leftjoin (map (\<lambda>i. (i, i)) (Lk c)) (map (\<lambda>r. (fst r, fst (snd r))) rows)
               = map (\<lambda>i. (i, IT i)) (Lk c)" for c
    by (rule leftjoin_fn) (simp add: single IT_def Lk_def)
  have in_rows: "row i \<in> set rows" if "i \<in> set L1" for i
  proof -
    from that have "R i \<noteq> []" by (auto simp: L1_def n_def)
    then show ?thesis unfolding row_def R_def by (rule hd_filter_in)
  qed
  have fetch: "mil_leftfetchjoin (map (\<lambda>i. (i, IT i)) (Lk c)) (void T) = map (\<lambda>i. (i, T ! IT i)) (Lk c)"
    if "\<forall>r \<in> set rows. snd (snd r) = c \<longrightarrow> fst (snd r) < length T" for c and T :: "'x list"
    unfolding mil_leftfetchjoin_def
  proof (rule leftjoin_fn, rule ballI)
    fix i assume "i \<in> set (Lk c)"
    then have "i \<in> set L1" "K i = c" by (simp_all add: Lk_def)
    with that in_rows [of i] have "IT i < length T" by (auto simp: IT_def K_def)
    then show "filter (\<lambda>(m, t). m = IT i) (void T) = [(IT i, T ! IT i)]"
      by (rule filter_void_one)
  qed
  have zero: "mil_project (mil_ord_uselect (map (\<lambda>i. (i, x i)) L) z) False
                = map (\<lambda>i. (i, False)) (filter (\<lambda>i. x i = z) L)"
    for x :: "oid \<Rightarrow> 'x" and L z
    by (simp add: ord_uselect_fn project_fn)
  have range_str: "\<forall>r \<in> set rows. snd (snd r) = kSTR \<longrightarrow> fst (snd r) < length (str_values V)"
    and range_int: "\<forall>r \<in> set rows. snd (snd r) = kINT \<longrightarrow> fst (snd r) < length (int_values V)"
    and range_dbl: "\<forall>r \<in> set rows. snd (snd r) = kDBL \<longrightarrow> fst (snd r) < length (dbl_values V)"
    and range_dec: "\<forall>r \<in> set rows. snd (snd r) = kDEC \<longrightarrow> fst (snd r) < length (dec_values V)"
    and range_bool: "\<forall>r \<in> set rows. snd (snd r) = kBOOL \<longrightarrow> fst (snd r) \<le> 1"
    using range by auto
  define b where "b i =
     (if i \<in> set (filter (\<lambda>i. IT i = 0) (Lk kBOOL)) then False
      else if i \<in> set (filter (\<lambda>i. dbl_values V ! IT i = 0) (Lk kDBL)) then False
      else if i \<in> set (filter (\<lambda>i. dec_values V ! IT i = 0) (Lk kDEC)) then False
      else if i \<in> set (filter (\<lambda>i. int_values V ! IT i = 0) (Lk kINT)) then False
      else if i \<in> set (filter (\<lambda>i. str_values V ! IT i = []) (Lk kSTR)) then False
      else n i \<noteq> 0)" for i
  have code: "fn_boolean_mil V (iter_of rows) (item_of rows) (kind_of rows) (void loop) =
           (void loop, void (map (\<lambda>i. 1) loop), void (map (\<lambda>i. bool_oid (b i)) loop),
            void (map (\<lambda>i. kBOOL) loop))"
    unfolding fn_boolean_mil_def Let_def cols cnt fetch_rows test1 test2 sel itm
      fetch [OF range_str] fetch [OF range_int] fetch [OF range_dbl] fetch [OF range_dec]
      zero neq_fn replace_fn leftjoin_bool_map reverse_mark map_fst_reverse project_void
    by (simp add: b_def comp_def)
  have items: "items_of rows i = map (\<lambda>r. (fst (snd r), snd (snd r))) (R i)" for i
    by (simp add: items_of_def R_def case_prod_unfold)
  have point: "b i = effective_boolean_value V (items_of rows i)" if "i \<in> set loop" for i
  proof (cases "R i")
    case Nil
    then show ?thesis by (simp add: b_def items Lk_def L1_def n_def)
  next
    case (Cons r rs)
    show ?thesis
    proof (cases rs)
      case Nil
      with Cons have Ri: "R i = [r]" by simp
      with that have L1: "i \<in> set L1" by (simp add: L1_def n_def)
      from Ri have r: "row i = r" by (simp add: row_def)
      from in_rows [OF L1] r range have "item_in_range V r" by simp
      then show ?thesis
        by (cases r; cases "snd (snd r)")
          (auto simp: b_def items Ri Lk_def L1 K_def IT_def r n_def)
    next
      case (Cons r' rs')
      with \<open>R i = r # rs\<close> have Ri: "R i = r # r' # rs'" by simp
      then show ?thesis by (simp add: b_def items Lk_def L1_def n_def)
    qed
  qed
  have "map (\<lambda>i. bool_oid (b i)) loop
          = map (\<lambda>i. bool_oid (effective_boolean_value V (items_of rows i))) loop"
    by (rule map_cong) (simp_all add: point)
  with code show ?thesis by simp
qed

text \<open>The result for \<open>rows_example\<close> and the iterations 0 to 13.\<close>

theorem fn_boolean_computes_ebv_witness:
  "list_all (item_in_range values_example) rows_example \<and>
   fn_boolean_mil values_example (iter_of rows_example) (item_of rows_example) (kind_of rows_example)
       (void [0, 1, 2, 3, 4, 5, 6, 7, 8, 9, 10, 11, 12, 13])
     = (void [0, 1, 2, 3, 4, 5, 6, 7, 8, 9, 10, 11, 12, 13],
        void [1, 1, 1, 1, 1, 1, 1, 1, 1, 1, 1, 1, 1, 1],
        void [0, 0, 1, 0, 1, 0, 1, 0, 1, 1, 1, 0, 1, 0],
        void [kBOOL, kBOOL, kBOOL, kBOOL, kBOOL, kBOOL, kBOOL, kBOOL, kBOOL, kBOOL, kBOOL, kBOOL,
              kBOOL, kBOOL])"
  using fn_boolean_computes_ebv [of rows_example values_example "[0, 1, 2, 3, 4, 5, 6, 7, 8, 9, 10, 11, 12, 13]"]
  by (simp add: rows_example_def values_example_def items_of_def bool_oid_def)

end
